theory Spec2Isabelle
  imports Main "HOL-Library.Char_ord" "HOL-Library.List_Lexorder"
begin

section \<open>Terms\<close>

text \<open>
  Modelled from the spec: the kernel's expression type (kernel/expr.h) is not among the
  sources. The constructors are the ten expression kinds that \<open>elaborator::visit\<close> and
  \<open>elaborator::visit_function\<close> switch over; a hierarchical name is the list of its
  components, \<open>unification_hint.mk\<close> being \<open>[''unification_hint'', ''mk'']\<close>.
\<close>

type_synonym name = "string list"

datatype level =
    LZero
  | LSucc level
  | LMax level level
  | LIMax level level
  | LParam name
  | LMeta name

datatype binder_info = BExplicit | BImplicit | BStrictImplicit | BInstImplicit

datatype expr =
    Var nat
  | Sort level
  | Constant name "level list"
  | Meta name expr
  | Local name name expr binder_info
  | App expr expr
  | Lambda name expr expr binder_info
  | Pi name expr expr binder_info
  | Elet name expr expr expr
  | Macro name "expr list"

fun is_app :: "expr \<Rightarrow> bool" where
  "is_app (App f a) = True"
| "is_app e = False"

fun is_constant :: "expr \<Rightarrow> bool" where
  "is_constant (Constant n ls) = True"
| "is_constant e = False"

fun is_metavar :: "expr \<Rightarrow> bool" where
  "is_metavar (Meta n t) = True"
| "is_metavar e = False"

fun is_pi :: "expr \<Rightarrow> bool" where
  "is_pi (Pi n d b bi) = True"
| "is_pi e = False"

fun is_lambda :: "expr \<Rightarrow> bool" where
  "is_lambda (Lambda n d b bi) = True"
| "is_lambda e = False"

fun is_sort :: "expr \<Rightarrow> bool" where
  "is_sort (Sort l) = True"
| "is_sort e = False"

text \<open>
  \<open>const_name\<close>, \<open>app_fn\<close> and \<open>app_arg\<close> are only defined on a constant and on an
  application (the kernel asserts it); the model returns \<open>None\<close> elsewhere.
\<close>

fun const_name :: "expr \<Rightarrow> name option" where
  "const_name (Constant n ls) = Some n"
| "const_name e = None"

fun app_fn :: "expr \<Rightarrow> expr option" where
  "app_fn (App f a) = Some f"
| "app_fn e = None"

fun app_arg :: "expr \<Rightarrow> expr option" where
  "app_arg (App f a) = Some a"
| "app_arg e = None"

fun get_app_fn :: "expr \<Rightarrow> expr" where
  "get_app_fn (App f a) = get_app_fn f"
| "get_app_fn e = e"

fun get_app_args :: "expr \<Rightarrow> expr list" where
  "get_app_args (App f a) = get_app_args f @ [a]"
| "get_app_args e = []"

definition get_app_num_args :: "expr \<Rightarrow> nat" where
  "get_app_num_args e = length (get_app_args e)"

definition is_app_of :: "expr \<Rightarrow> name \<Rightarrow> nat \<Rightarrow> bool" where
  "is_app_of t f_name nargs =
     (const_name (get_app_fn t) = Some f_name \<and> get_app_num_args t = nargs)"

fun mk_app :: "expr \<Rightarrow> expr list \<Rightarrow> expr" where
  "mk_app f [] = f"
| "mk_app f (a # as) = mk_app (App f a) as"

text \<open>\<open>has_expr_metavar\<close>: an expression metavariable occurs somewhere in the term.\<close>

fun has_expr_metavar :: "expr \<Rightarrow> bool" where
  "has_expr_metavar (Var i) = False"
| "has_expr_metavar (Sort l) = False"
| "has_expr_metavar (Constant n ls) = False"
| "has_expr_metavar (Meta n t) = True"
| "has_expr_metavar (Local n pp t bi) = has_expr_metavar t"
| "has_expr_metavar (App f a) = (has_expr_metavar f \<or> has_expr_metavar a)"
| "has_expr_metavar (Lambda n d b bi) = (has_expr_metavar d \<or> has_expr_metavar b)"
| "has_expr_metavar (Pi n d b bi) = (has_expr_metavar d \<or> has_expr_metavar b)"
| "has_expr_metavar (Elet n t v b) =
     (has_expr_metavar t \<or> has_expr_metavar v \<or> has_expr_metavar b)"
| "has_expr_metavar (Macro m args) = list_ex has_expr_metavar args"

section \<open>Exceptions and messages\<close>

text \<open>
  A \<open>format\<close> is built by composition (\<open>+\<close> and \<open>+=\<close> in the source); \<open>FExpr e\<close> is the
  pretty-printed term \<open>e\<close>.
\<close>

datatype format =
    FText string
  | FName name
  | FExpr expr
  | FNum nat
  | FLine
  | FSpace
  | FNest format
  | FCompose format format

text \<open>
  The formatter of expressions is external: \<open>FExpr e\<close> stands for the printed \<open>e\<close>, and
  \<open>pp_indent\<close> is \<open>nest(i, line() + pp_fn(e))\<close>, the term on a new indented line. The options
  that \<open>pp_until_different\<close> tries only change how much of a term is printed, so its two
  formats are \<open>pp_indent\<close> of the two terms.
\<close>

definition pp_indent :: "expr \<Rightarrow> format" where
  "pp_indent e = FNest (FCompose FLine (FExpr e))"

text \<open>
  The exception classes the elaborator throws and catches:
  \<open>nested_elaborator_exception\<close> derives from \<open>elaborator_exception\<close>;
  \<open>elaborator_exception\<close>, \<open>app_builder_exception\<close> and \<open>class_exception\<close> derive from
  \<open>exception\<close>, which derives from \<open>std::exception\<close>. \<open>Exception\<close> stands for any
  other \<open>exception\<close>, \<open>Std_exception\<close> for a \<open>std::exception\<close> that is no \<open>exception\<close>.
\<close>

datatype exn =
    Elaborator_exception expr format
  | Nested_elaborator_exception expr exn format
  | App_builder_exception
  | Class_exception
  | Exception string
  | Std_exception string

fun is_elaborator_exception :: "exn \<Rightarrow> bool" where
  "is_elaborator_exception (Elaborator_exception r m) = True"
| "is_elaborator_exception (Nested_elaborator_exception r ex m) = True"
| "is_elaborator_exception ex = False"

fun is_lean_exception :: "exn \<Rightarrow> bool" where
  "is_lean_exception (Std_exception s) = False"
| "is_lean_exception ex = True"

section \<open>Unification hints (library/unification\_hint.cpp)\<close>

record unification_hint =
  m_lhs :: expr
  m_rhs :: expr
  m_constraints :: "(expr \<times> expr) list"
  m_num_vars :: nat

text \<open>
  Modelled from the spec: \<open>quick_cmp\<close> on names (util/name.h) is not among the sources;
  the spec orders the two head names lexicographically. The result is negative, zero or
  positive.
\<close>

definition quick_cmp :: "name \<Rightarrow> name \<Rightarrow> int" where
  "quick_cmp a b = (if a < b then - 1 else if a = b then 0 else 1)"

text \<open>
  Modelled from the spec: the priority queue of hints (library/unification\_hint.h and
  util/priority\_queue.h) is not among the sources. Hints are ranked by priority, higher
  first, and insertion order breaks ties.
\<close>

type_synonym unification_hint_queue = "(unification_hint \<times> nat) list"

fun queue_insert :: "unification_hint \<Rightarrow> nat \<Rightarrow> unification_hint_queue \<Rightarrow> unification_hint_queue" where
  "queue_insert h p [] = [(h, p)]"
| "queue_insert h p ((h', p') # q) =
     (if p' < p then (h, p) # (h', p') # q else (h', p') # queue_insert h p q)"

definition to_buffer :: "unification_hint_queue \<Rightarrow> unification_hint list \<Rightarrow> unification_hint list" where
  "to_buffer q uhints = uhints @ map fst q"

type_synonym unification_hints = "name \<times> name \<Rightarrow> unification_hint_queue option"

record unification_hint_state =
  m_hints :: unification_hints
  m_decl_names_to_prio :: "name \<Rightarrow> nat option"

text \<open>
  The temporary type context of \<open>register_hint\<close> is external: \<open>mk_tmp_mvar\<close> and
  \<open>is_def_eq\<close> act on its state \<open>'c\<close>, \<open>instantiate_rev\<close> is the kernel's substitution.
\<close>

record 'c tmp_type_context =
  mk_tmp_mvar :: "'c \<Rightarrow> expr \<Rightarrow> expr \<times> 'c"
  tmp_is_def_eq :: "'c \<Rightarrow> expr \<Rightarrow> expr \<Rightarrow> bool \<times> 'c"
  instantiate_rev :: "expr \<Rightarrow> expr list \<Rightarrow> expr"

text \<open>The loop \<open>while (is_lambda(e_hint))\<close>: one temporary metavariable per binder.\<close>

fun hint_binders :: "'c tmp_type_context \<Rightarrow> expr \<Rightarrow> expr list \<Rightarrow> nat \<Rightarrow> 'c \<Rightarrow> expr \<times> expr list \<times> nat \<times> 'c" where
  "hint_binders tc (Lambda n dm body bi) tmp_mvars num_vars c =
     (let d = instantiate_rev tc dm tmp_mvars;
          (m, c') = mk_tmp_mvar tc c d
      in hint_binders tc body (tmp_mvars @ [m]) (num_vars + 1) c')"
| "hint_binders tc e tmp_mvars num_vars c = (e, tmp_mvars, num_vars, c)"

datatype hint_error =
    Invalid_body
  | Invalid_heads
  | Failed_constraint nat
  | Invalid_constraint_list
  | Failed_pattern
  | Assertion_violation

text \<open>
  The loop \<open>while (is_app_of(e_constraints, get_list_cons_name(), 3))\<close>; it returns the
  constraints collected and what is left of the list.
\<close>

fun hint_constraints :: "'c tmp_type_context \<Rightarrow> expr list \<Rightarrow> expr \<Rightarrow> (expr \<times> expr) list \<Rightarrow> nat \<Rightarrow> 'c
    \<Rightarrow> hint_error + ((expr \<times> expr) list \<times> expr \<times> 'c)" where
  "hint_constraints tc tmp_mvars (App f rest) constraints eqidx c =
     (if is_app_of (App f rest) [''list'', ''cons''] 3 then
        (case app_arg f of
           None \<Rightarrow> Inl Assertion_violation
         | Some e_constraint \<Rightarrow>
            (case (Option.bind (app_fn e_constraint) app_arg, app_arg e_constraint) of
               (Some e_constraint_lhs, Some e_constraint_rhs) \<Rightarrow>
                 (let (ok, c') = tmp_is_def_eq tc c
                        (instantiate_rev tc e_constraint_lhs tmp_mvars)
                        (instantiate_rev tc e_constraint_rhs tmp_mvars)
                  in if \<not> ok then Inl (Failed_constraint eqidx)
                     else hint_constraints tc tmp_mvars rest
                            (constraints @ [(e_constraint_lhs, e_constraint_rhs)]) (eqidx + 1) c')
             | _ \<Rightarrow> Inl Assertion_violation))
      else Inr (constraints, App f rest, c))"
| "hint_constraints tc tmp_mvars e constraints eqidx c = Inr (constraints, e, c)"

text \<open>
  \<open>unification_hint_state::register_hint\<close>. The key is the pair of the two head
  names, swapped together with the two sides when \<open>quick_cmp\<close> of the heads is positive.
\<close>

definition register_hint :: "'c tmp_type_context \<Rightarrow> 'c \<Rightarrow> unification_hint_state \<Rightarrow> name \<Rightarrow> expr \<Rightarrow> nat
    \<Rightarrow> hint_error + unification_hint_state" where
  "register_hint tc c0 s decl_name val priority =
     (let prios = (m_decl_names_to_prio s)(decl_name \<mapsto> priority);
          (e_hint, tmp_mvars, num_vars, c1) = hint_binders tc val [] 0 c0
      in if \<not> is_app_of e_hint [''unification_hint'', ''mk''] 2 then Inl Invalid_body
         else
          (case (Option.bind (app_fn e_hint) app_arg, app_arg e_hint) of
             (Some e_pattern, Some e_constraints) \<Rightarrow>
               (case (Option.bind (app_fn e_pattern) app_arg, app_arg e_pattern) of
                  (Some e_pattern_lhs0, Some e_pattern_rhs0) \<Rightarrow>
                    (case (const_name (get_app_fn e_pattern_lhs0),
                           const_name (get_app_fn e_pattern_rhs0)) of
                       (Some n_lhs, Some n_rhs) \<Rightarrow>
                         (let swap = (quick_cmp n_lhs n_rhs > 0);
                              e_pattern_lhs = (if swap then e_pattern_rhs0 else e_pattern_lhs0);
                              e_pattern_rhs = (if swap then e_pattern_lhs0 else e_pattern_rhs0);
                              key = (if swap then (n_rhs, n_lhs) else (n_lhs, n_rhs))
                          in case hint_constraints tc tmp_mvars e_constraints [] 1 c1 of
                               Inl err \<Rightarrow> Inl err
                             | Inr (constraints, e_rest, c2) \<Rightarrow>
                                 if \<not> is_app_of e_rest [''list'', ''nil''] 1
                                 then Inl Invalid_constraint_list
                                 else if \<not> fst (tmp_is_def_eq tc c2
                                            (instantiate_rev tc e_pattern_lhs tmp_mvars)
                                            (instantiate_rev tc e_pattern_rhs tmp_mvars))
                                 then Inl Failed_pattern
                                 else
                                   (let hint = \<lparr>m_lhs = e_pattern_lhs, m_rhs = e_pattern_rhs,
                                                m_constraints = constraints, m_num_vars = num_vars\<rparr>;
                                        q = (case m_hints s key of Some q' \<Rightarrow> q' | None \<Rightarrow> [])
                                    in Inr \<lparr>m_hints = (m_hints s)(key \<mapsto> queue_insert hint priority q),
                                            m_decl_names_to_prio = prios\<rparr>))
                     | _ \<Rightarrow> Inl Invalid_heads)
                | _ \<Rightarrow> Inl Assertion_violation)
           | _ \<Rightarrow> Inl Assertion_violation))"

text \<open>
  \<open>get_unification_hints(hints, n1, n2, uhints)\<close>: the hints under the ordered pair are
  appended to the buffer \<open>uhints\<close>.
\<close>

definition get_unification_hints :: "unification_hints \<Rightarrow> name \<Rightarrow> name \<Rightarrow> unification_hint list \<Rightarrow> unification_hint list" where
  "get_unification_hints hints n1 n2 uhints =
     (if quick_cmp n1 n2 > 0 then
        (case hints (n2, n1) of Some q \<Rightarrow> to_buffer q uhints | None \<Rightarrow> uhints)
      else
        (case hints (n1, n2) of Some q \<Rightarrow> to_buffer q uhints | None \<Rightarrow> uhints))"

section \<open>The elaboration session\<close>

text \<open>
  A \<open>list\<close> of the source is an immutable linked list whose cells are shared, and
  \<open>is_eqp\<close> compares two lists by the address of their first cell, not by their
  elements. \<open>PCons a x l\<close> is the cell at address \<open>a\<close>; the empty list has no cell.
\<close>

datatype 'a plist = PNil | PCons nat 'a "'a plist"

fun elems :: "'a plist \<Rightarrow> 'a list" where
  "elems PNil = []"
| "elems (PCons a x l) = x # elems l"

fun is_eqp :: "'a plist \<Rightarrow> 'a plist \<Rightarrow> bool" where
  "is_eqp PNil PNil = True"
| "is_eqp (PCons a x l) (PCons b y k) = (a = b)"
| "is_eqp l k = False"

text \<open>\<open>to_list\<close> copies a buffer into fresh cells, last element first.\<close>

fun to_list :: "'a list \<Rightarrow> nat \<Rightarrow> 'a plist \<times> nat" where
  "to_list [] next = (PNil, next)"
| "to_list (x # xs) next = (let (l, n) = to_list xs next in (PCons n x l, Suc n))"

text \<open>
  The mutable state of one \<open>elaborator\<close>. \<open>m_mctx\<close> is the metavariable context held by
  \<open>m_ctx\<close>; its type \<open>'m\<close> belongs to the checker. Three fields stand for state outside the
  object: \<open>pos_info_provider\<close> says whether \<open>get_pos_info_provider()\<close> returns a provider,
  \<open>reported\<close> is the stream of diagnostics that \<open>message_builder::report\<close> writes to, and
  \<open>next_cell\<close> is the next free address for a list cell. Position tags of terms are not
  modelled (\<open>copy_tag\<close> is the identity).
\<close>

record 'm elaborator =
  m_mctx :: 'm
  m_info :: "expr list"
  m_instances :: "expr plist"
  m_numeral_types :: "expr list"
  m_tactics :: "(expr \<times> expr) list"
  m_inaccessible_stack :: "(expr \<times> expr) list"
  m_recover_from_errors :: bool
  m_has_errors :: bool
  m_coercions :: bool
  m_in_pattern :: bool
  m_in_quote :: bool
  pos_info_provider :: bool
  reported :: "exn list"
  next_cell :: nat

text \<open>
  A method of the elaborator either returns or throws, and keeps the changes it made to
  the state in both cases.
\<close>

type_synonym ('m, 'a) elab = "'m elaborator \<Rightarrow> (exn + 'a) \<times> 'm elaborator"

definition ret :: "'a \<Rightarrow> ('m, 'a) elab" where
  "ret x = (\<lambda>st. (Inr x, st))"

definition throw :: "exn \<Rightarrow> ('m, 'a) elab" where
  "throw ex = (\<lambda>st. (Inl ex, st))"

definition bnd :: "('m, 'a) elab \<Rightarrow> ('a \<Rightarrow> ('m, 'b) elab) \<Rightarrow> ('m, 'b) elab" where
  "bnd m f = (\<lambda>st. case m st of (Inl ex, st') \<Rightarrow> (Inl ex, st') | (Inr x, st') \<Rightarrow> f x st')"

text \<open>\<open>flet<bool> dont_recover(m_recover_from_errors, false)\<close> around a block.\<close>

definition dont_recover :: "('m, 'a) elab \<Rightarrow> ('m, 'a) elab" where
  "dont_recover m =
     (\<lambda>st. let (r, st') = m (st\<lparr>m_recover_from_errors := False\<rparr>)
           in (r, st'\<lparr>m_recover_from_errors := m_recover_from_errors st\<rparr>))"

subsection \<open>Snapshots\<close>

record 'm snapshot =
  m_saved_mctx :: 'm
  m_saved_info :: "expr list"
  m_saved_instances :: "expr plist"
  m_saved_numeral_types :: "expr list"
  m_saved_tactics :: "(expr \<times> expr) list"
  m_saved_inaccessible_stack :: "(expr \<times> expr) list"

definition snapshot_of :: "'m elaborator \<Rightarrow> 'm snapshot" where
  "snapshot_of e =
     \<lparr>m_saved_mctx = m_mctx e, m_saved_info = m_info e, m_saved_instances = m_instances e,
      m_saved_numeral_types = m_numeral_types e, m_saved_tactics = m_tactics e,
      m_saved_inaccessible_stack = m_inaccessible_stack e\<rparr>"

definition restore :: "'m snapshot \<Rightarrow> 'm elaborator \<Rightarrow> 'm elaborator" where
  "restore S e =
     e\<lparr>m_mctx := m_saved_mctx S, m_info := m_saved_info S, m_instances := m_saved_instances S,
       m_numeral_types := m_saved_numeral_types S, m_tactics := m_saved_tactics S,
       m_inaccessible_stack := m_saved_inaccessible_stack S\<rparr>"

subsection \<open>The checker\<close>

text \<open>
  The type context \<open>m_ctx\<close> is an external collaborator: its methods are the fields of a
  record, each acting on the metavariable context. \<open>tc_is_def_eq True\<close> is a test inside
  an \<open>approximate_scope\<close>. \<open>tc_mk_class_instance_at\<close> takes the metavariable whose local
  context the search runs in, or \<open>None\<close> for the current one. \<open>tc_mk_app\<close> is the
  application builder \<open>mk_app(m_ctx, c, args)\<close>, \<open>tc_is_class_out_param\<close> is
  \<open>is_class_out_param\<close> of library/class.h, \<open>tc_instantiate\<close> is the kernel's
  \<open>instantiate(body, arg)\<close> and \<open>tc_kabstract\<close> is \<open>kabstract(m_ctx, e, t)\<close>.
\<close>

record 'm type_context =
  tc_is_def_eq :: "bool \<Rightarrow> 'm \<Rightarrow> expr \<Rightarrow> expr \<Rightarrow> (exn + bool) \<times> 'm"
  tc_infer :: "'m \<Rightarrow> expr \<Rightarrow> exn + expr"
  tc_whnf :: "'m \<Rightarrow> expr \<Rightarrow> expr"
  tc_relaxed_whnf :: "'m \<Rightarrow> expr \<Rightarrow> expr"
  tc_try_to_pi :: "'m \<Rightarrow> expr \<Rightarrow> expr"
  tc_instantiate_mvars :: "'m \<Rightarrow> expr \<Rightarrow> expr"
  tc_mk_metavar_decl :: "'m \<Rightarrow> expr \<Rightarrow> expr \<times> 'm"
  tc_mk_univ_metavar_decl :: "'m \<Rightarrow> level \<times> 'm"
  tc_mk_class_instance_at :: "'m \<Rightarrow> expr option \<Rightarrow> expr \<Rightarrow> (exn + expr option) \<times> 'm"
  tc_mk_app :: "'m \<Rightarrow> name \<Rightarrow> expr list \<Rightarrow> exn + expr"
  tc_is_class_out_param :: "expr \<Rightarrow> bool"
  tc_instantiate :: "expr \<Rightarrow> expr \<Rightarrow> expr"
  tc_kabstract :: "'m \<Rightarrow> expr \<Rightarrow> expr \<Rightarrow> expr"

definition infer_type :: "'m type_context \<Rightarrow> expr \<Rightarrow> ('m, expr) elab" where
  "infer_type tc e = (\<lambda>st. (tc_infer tc (m_mctx st) e, st))"

definition whnf :: "'m type_context \<Rightarrow> expr \<Rightarrow> ('m, expr) elab" where
  "whnf tc e = (\<lambda>st. (Inr (tc_whnf tc (m_mctx st) e), st))"

definition instantiate_mvars :: "'m type_context \<Rightarrow> expr \<Rightarrow> ('m, expr) elab" where
  "instantiate_mvars tc e = (\<lambda>st. (Inr (tc_instantiate_mvars tc (m_mctx st) e), st))"

definition mk_univ_metavar :: "'m type_context \<Rightarrow> ('m, level) elab" where
  "mk_univ_metavar tc =
     (\<lambda>st. let (l, m) = tc_mk_univ_metavar_decl tc (m_mctx st) in (Inr l, st\<lparr>m_mctx := m\<rparr>))"

definition mk_metavar :: "'m type_context \<Rightarrow> expr \<Rightarrow> expr \<Rightarrow> ('m, expr) elab" where
  "mk_metavar tc A ref =
     (\<lambda>st. let (mv, m) = tc_mk_metavar_decl tc (m_mctx st) A in (Inr mv, st\<lparr>m_mctx := m\<rparr>))"

definition mk_type_metavar :: "'m type_context \<Rightarrow> expr \<Rightarrow> ('m, expr) elab" where
  "mk_type_metavar tc ref = bnd (mk_univ_metavar tc) (\<lambda>l. mk_metavar tc (Sort l) ref)"

text \<open>
  \<open>m_ctx.is_def_eq\<close> called directly, and \<open>elaborator::is_def_eq\<close>, which runs it in an
  approximate scope and answers \<open>false\<close> when it throws an \<open>exception\<close>.
\<close>

definition ctx_is_def_eq :: "'m type_context \<Rightarrow> expr \<Rightarrow> expr \<Rightarrow> ('m, bool) elab" where
  "ctx_is_def_eq tc e1 e2 =
     (\<lambda>st. let (r, m) = tc_is_def_eq tc False (m_mctx st) e1 e2 in (r, st\<lparr>m_mctx := m\<rparr>))"

definition is_def_eq :: "'m type_context \<Rightarrow> expr \<Rightarrow> expr \<Rightarrow> ('m, bool) elab" where
  "is_def_eq tc e1 e2 =
     (\<lambda>st. case tc_is_def_eq tc True (m_mctx st) e1 e2 of
             (Inr b, m) \<Rightarrow> (Inr b, st\<lparr>m_mctx := m\<rparr>)
           | (Inl ex, m) \<Rightarrow>
               if is_lean_exception ex then (Inr False, st\<lparr>m_mctx := m\<rparr>)
               else (Inl ex, st\<lparr>m_mctx := m\<rparr>))"

definition try_is_def_eq :: "'m type_context \<Rightarrow> expr \<Rightarrow> expr \<Rightarrow> ('m, bool) elab" where
  "try_is_def_eq tc e1 e2 =
     (\<lambda>st. let S = snapshot_of st in
        dont_recover
          (\<lambda>st1. case is_def_eq tc e1 e2 st1 of
                    (Inl ex, st2) \<Rightarrow>
                      if is_lean_exception ex then (Inl ex, restore S st2) else (Inl ex, st2)
                  | (Inr b, st2) \<Rightarrow> (Inr b, st2)) st)"

subsection \<open>Reporting and recovery\<close>

definition try_report :: "exn \<Rightarrow> 'm elaborator \<Rightarrow> bool \<times> 'm elaborator" where
  "try_report ex st =
     (if \<not> m_recover_from_errors st then (False, st)
      else if \<not> pos_info_provider st then (False, st)
      else (True, st\<lparr>reported := reported st @ [ex], m_has_errors := True\<rparr>))"

definition report_or_throw :: "exn \<Rightarrow> ('m, unit) elab" where
  "report_or_throw ex =
     (\<lambda>st. let (ok, st') = try_report ex st in if \<not> ok then (Inl ex, st') else (Inr (), st'))"

text \<open>\<open>mk_sorry(type)\<close> of library/sorry.h is the macro \<open>sorry\<close> over the type.\<close>

definition mk_sorry :: "'m type_context \<Rightarrow> expr option \<Rightarrow> expr \<Rightarrow> ('m, expr) elab" where
  "mk_sorry tc expected_type ref =
     (case expected_type of
        Some t \<Rightarrow> ret (Macro [''sorry''] [t])
      | None \<Rightarrow> bnd (mk_type_metavar tc ref) (\<lambda>t. ret (Macro [''sorry''] [t])))"

definition recoverable_error :: "'m type_context \<Rightarrow> expr option \<Rightarrow> expr \<Rightarrow> exn \<Rightarrow> ('m, expr) elab" where
  "recoverable_error tc expected_type ref ex =
     bnd (report_or_throw ex) (\<lambda>u. mk_sorry tc expected_type ref)"

definition recover_expr_from_exception ::
    "'m type_context \<Rightarrow> expr option \<Rightarrow> expr \<Rightarrow> ('m, expr) elab \<Rightarrow> ('m, expr) elab" where
  "recover_expr_from_exception tc expected_type ref fn =
     (\<lambda>st. case fn st of
             (Inr r, st1) \<Rightarrow> (Inr r, st1)
           | (Inl ex, st1) \<Rightarrow>
               (let (ok, st2) = try_report ex st1
                in if \<not> ok then (Inl ex, st2) else mk_sorry tc expected_type ref st2))"

subsection \<open>Type class instances\<close>

definition mk_instance_core :: "'m type_context \<Rightarrow> expr option \<Rightarrow> expr \<Rightarrow> expr \<Rightarrow> ('m, expr) elab" where
  "mk_instance_core tc lctx C ref =
     (\<lambda>st. case tc_mk_class_instance_at tc (m_mctx st) lctx C of
             (Inl ex, m) \<Rightarrow> (Inl ex, st\<lparr>m_mctx := m\<rparr>)
           | (Inr None, m) \<Rightarrow>
               recoverable_error tc (Some C) ref
                 (Elaborator_exception ref
                    (FCompose (FText ''failed to synthesize type class instance for'')
                       (FCompose FLine (FExpr C))))
                 (st\<lparr>m_mctx := m\<rparr>)
           | (Inr (Some inst), m) \<Rightarrow> (Inr inst, st\<lparr>m_mctx := m\<rparr>))"

text \<open>
  \<open>ready_to_synthesize\<close>: the leading binders are dropped, then the arguments of the
  class application are walked along the type of the class constant.
\<close>

fun drop_pis :: "expr \<Rightarrow> expr" where
  "drop_pis (Pi n d b bi) = drop_pis b"
| "drop_pis e = e"

fun ready_args :: "(expr \<Rightarrow> bool) \<Rightarrow> expr \<Rightarrow> expr list \<Rightarrow> bool" where
  "ready_args out_param it [] = True"
| "ready_args out_param (Pi n d b bi) (C_arg # C_args) =
     (if has_expr_metavar C_arg \<and> \<not> out_param d then False
      else ready_args out_param b C_args)"
| "ready_args out_param it (C_arg # C_args) = False"

definition ready_to_synthesize :: "'m type_context \<Rightarrow> expr \<Rightarrow> ('m, bool) elab" where
  "ready_to_synthesize tc inst_type0 =
     (if \<not> has_expr_metavar inst_type0 then ret True
      else
        (let inst_type = drop_pis inst_type0;
             C_args = get_app_args inst_type;
             C = get_app_fn inst_type
         in if \<not> is_constant C then ret False
            else bnd (infer_type tc C)
                   (\<lambda>it. ret (ready_args (tc_is_class_out_param tc) it C_args))))"

text \<open>\<open>mk_expr_placeholder(some(C))\<close> of library/placeholder.h is the macro \<open>placeholder\<close>.\<close>

definition mk_instance :: "'m type_context \<Rightarrow> expr \<Rightarrow> expr \<Rightarrow> ('m, expr) elab" where
  "mk_instance tc C ref =
     (\<lambda>st. if m_in_pattern st \<and> m_in_quote st then (Inr (Macro [''placeholder''] [C]), st)
           else
             (case ready_to_synthesize tc C st of
                (Inl ex, st1) \<Rightarrow> (Inl ex, st1)
              | (Inr False, st1) \<Rightarrow>
                  (case mk_metavar tc C ref st1 of
                     (Inl ex, st2) \<Rightarrow> (Inl ex, st2)
                   | (Inr inst, st2) \<Rightarrow>
                       (Inr inst,
                        st2\<lparr>m_instances := PCons (next_cell st2) inst (m_instances st2),
                            next_cell := Suc (next_cell st2)\<rparr>))
              | (Inr True, st1) \<Rightarrow> mk_instance_core tc None C ref st1))"

text \<open>
  \<open>try { ... } catch (elaborator_exception & ex) { throw nested_elaborator_exception(ref, ex, msg); }\<close>
  around a block, the message being built from the exception caught.
\<close>

definition nest_elaborator_exception :: "expr \<Rightarrow> (exn \<Rightarrow> format) \<Rightarrow> ('m, 'a) elab \<Rightarrow> ('m, 'a) elab" where
  "nest_elaborator_exception ref msg m =
     (\<lambda>st. case m st of
             (Inl ex, st') \<Rightarrow>
               if is_elaborator_exception ex
               then (Inl (Nested_elaborator_exception ref ex (msg ex)), st')
               else (Inl ex, st')
           | (Inr x, st') \<Rightarrow> (Inr x, st'))"

subsection \<open>Sequencing\<close>

lemma bnd_ret [simp]: "bnd (ret x) f = f x"
  by (simp add: bnd_def ret_def)

lemma bnd_throw [simp]: "bnd (throw ex) f = throw ex"
  by (simp add: bnd_def throw_def)


lemma bnd_Inl: "m st = (Inl ex, st') \<Longrightarrow> bnd m f st = (Inl ex, st')"
  by (simp add: bnd_def)

subsection \<open>Coercions\<close>

fun sort_level :: "expr \<Rightarrow> level option" where
  "sort_level (Sort l) = Some l"
| "sort_level e = None"

definition is_meta :: "expr \<Rightarrow> bool" where
  "is_meta e = is_metavar (get_app_fn e)"

definition get_level :: "'m type_context \<Rightarrow> expr \<Rightarrow> expr \<Rightarrow> ('m, level) elab" where
  "get_level tc A ref =
     bnd (infer_type tc A) (\<lambda>t. bnd (whnf tc t) (\<lambda>A_type.
       (case A_type of
          Sort l \<Rightarrow> ret l
        | _ \<Rightarrow>
           (let fail = throw (Elaborator_exception ref (FCompose (FText ''type expected at'') (pp_indent A)))
            in if is_meta A_type then
                 bnd (mk_univ_metavar tc) (\<lambda>l.
                   bnd (try_is_def_eq tc A_type (Sort l)) (\<lambda>ok. if ok then ret l else fail))
               else fail))))"

definition mk_Prop :: expr where
  "mk_Prop = Sort LZero"

definition mk_bool :: expr where
  "mk_bool = Constant [''bool''] []"

definition mk_Prop_to_bool_coercion :: "'m type_context \<Rightarrow> expr \<Rightarrow> expr \<Rightarrow> ('m, expr option) elab" where
  "mk_Prop_to_bool_coercion tc e ref =
     (let dec = App (Constant [''decidable''] []) e
      in bnd (mk_instance tc dec ref)
           (\<lambda>inst. ret (Some (mk_app (Constant [''decidable'', ''to_bool''] []) [e, inst]))))"

text \<open>
  \<open>mk_coercion_core\<close>. A failure to build or to find the \<open>has_coe_t\<close> instance
  (\<open>app_builder_exception\<close>, \<open>class_exception\<close>, or no instance) gives no coercion.
\<close>

definition find_has_coe_t :: "'m type_context \<Rightarrow> expr \<Rightarrow> expr \<Rightarrow> ('m, expr option) elab" where
  "find_has_coe_t tc e_type type =
     (\<lambda>st. case tc_mk_app tc (m_mctx st) [''has_coe_t''] [e_type, type] of
             Inl ex \<Rightarrow> (if ex = App_builder_exception then (Inr None, st) else (Inl ex, st))
           | Inr has_coe_t \<Rightarrow>
               (case tc_mk_class_instance_at tc (m_mctx st) None has_coe_t of
                  (Inl ex, m) \<Rightarrow>
                    (if ex = Class_exception then (Inr None, st\<lparr>m_mctx := m\<rparr>)
                     else (Inl ex, st\<lparr>m_mctx := m\<rparr>))
                | (Inr inst, m) \<Rightarrow> (Inr inst, st\<lparr>m_mctx := m\<rparr>)))"

definition mk_coercion_core :: "'m type_context \<Rightarrow> expr \<Rightarrow> expr \<Rightarrow> expr \<Rightarrow> expr \<Rightarrow> ('m, expr option) elab" where
  "mk_coercion_core tc e e_type type ref =
     bnd (if e_type = mk_Prop then ctx_is_def_eq tc type mk_bool else ret False)
       (\<lambda>to_bool.
          if to_bool then mk_Prop_to_bool_coercion tc e ref
          else if \<not> has_expr_metavar e_type \<and> \<not> has_expr_metavar type then
            bnd (find_has_coe_t tc e_type type)
              (\<lambda>inst. case inst of
                  None \<Rightarrow> ret None
                | Some i \<Rightarrow>
                    bnd (get_level tc e_type ref) (\<lambda>u_1.
                    bnd (get_level tc type ref) (\<lambda>u_2.
                      (let coe_to_lift = mk_app (Constant [''coe_to_lift''] [u_1, u_2]) [e_type, type, i];
                           coe = mk_app (Constant [''coe''] [u_1, u_2]) [e_type, type, coe_to_lift, e]
                       in ret (Some coe)))))
          else ret None)"

definition is_monad :: "'m type_context \<Rightarrow> expr \<Rightarrow> ('m, bool) elab" where
  "is_monad tc e =
     (\<lambda>st. case tc_mk_app tc (m_mctx st) [''monad''] [e] of
             Inl ex \<Rightarrow> (if ex = App_builder_exception then (Inr False, st) else (Inl ex, st))
           | Inr m \<Rightarrow>
               (case tc_mk_class_instance_at tc (m_mctx st) None m of
                  (Inl ex, mc) \<Rightarrow>
                    (if ex = Class_exception then (Inr False, st\<lparr>m_mctx := mc\<rparr>)
                     else (Inl ex, st\<lparr>m_mctx := mc\<rparr>))
                | (Inr inst, mc) \<Rightarrow> (Inr (inst \<noteq> None), st\<lparr>m_mctx := mc\<rparr>)))"

text \<open>
  \<open>try_monad_coercion\<close>. The disjuncts of the guard are evaluated in the source's order;
  only the two \<open>is_monad\<close> tests act on the state.
\<close>

definition try_monad_coercion :: "'m type_context \<Rightarrow> expr \<Rightarrow> expr \<Rightarrow> expr \<Rightarrow> expr \<Rightarrow> ('m, expr option) elab" where
  "try_monad_coercion tc e e_type type ref =
     (case (e_type, type) of
        (App e_fn e_arg, App t_fn t_arg) \<Rightarrow>
          if (has_expr_metavar e_type \<and> has_expr_metavar type)
             \<or> (\<not> has_expr_metavar e_type \<and> \<not> has_expr_metavar type)
             \<or> has_expr_metavar t_fn
             \<or> has_expr_metavar e_fn
             \<or> (\<not> is_metavar e_arg \<and> \<not> is_metavar t_arg)
          then ret None
          else
            bnd (is_monad tc e_fn) (\<lambda>m1.
              if \<not> m1 then ret None
              else bnd (is_monad tc t_fn) (\<lambda>m2.
                if \<not> m2 then ret None
                else bnd (ctx_is_def_eq tc e_arg t_arg) (\<lambda>ok.
                  if \<not> ok then ret None
                  else bnd (instantiate_mvars tc type) (\<lambda>type'.
                         mk_coercion_core tc e e_type type' ref))))
      | _ \<Rightarrow> ret None)"

definition mk_coercion :: "'m type_context \<Rightarrow> expr \<Rightarrow> expr \<Rightarrow> expr \<Rightarrow> expr \<Rightarrow> ('m, expr option) elab" where
  "mk_coercion tc e e_type0 type0 ref =
     (\<lambda>st. if \<not> m_coercions st then (Inr None, st)
           else
             (bnd (instantiate_mvars tc e_type0) (\<lambda>e_type.
              bnd (instantiate_mvars tc type0) (\<lambda>type.
                if \<not> has_expr_metavar e_type \<and> \<not> has_expr_metavar type
                then mk_coercion_core tc e e_type type ref
                else bnd (try_monad_coercion tc e e_type type ref)
                       (\<lambda>r. case r of Some c \<Rightarrow> ret (Some c) | None \<Rightarrow> ret None)))) st)"

definition ensure_has_type :: "'m type_context \<Rightarrow> expr \<Rightarrow> expr \<Rightarrow> expr \<Rightarrow> expr \<Rightarrow> ('m, expr option) elab" where
  "ensure_has_type tc e e_type type ref =
     bnd (is_def_eq tc e_type type)
       (\<lambda>eq. if eq then ret (Some e) else mk_coercion tc e e_type type ref)"

text \<open>
  The part of the guard of \<open>try_monad_coercion\<close> that reads the two types only, given that
  exactly one of them contains metavariables: both are applications, neither function
  part contains a metavariable, and one of the two arguments is a metavariable.
\<close>

definition monad_coercion_shape :: "expr \<Rightarrow> expr \<Rightarrow> bool" where
  "monad_coercion_shape e_type type =
     (case (e_type, type) of
        (App e_fn e_arg, App t_fn t_arg) \<Rightarrow>
           \<not> has_expr_metavar e_fn \<and> \<not> has_expr_metavar t_fn \<and> (is_metavar e_arg \<or> is_metavar t_arg)
      | _ \<Rightarrow> False)"

subsection \<open>The worklist of instance metavariables\<close>

definition synthesize_type_class_instance_core ::
    "'m type_context \<Rightarrow> expr \<Rightarrow> expr \<Rightarrow> expr \<Rightarrow> ('m, bool) elab" where
  "synthesize_type_class_instance_core tc mvar inferred_inst inst_type =
     bnd (ready_to_synthesize tc inst_type) (\<lambda>ready.
       if \<not> ready then ret False
       else
         bnd (mk_instance_core tc (Some mvar) inst_type mvar) (\<lambda>synthesized_inst.
         bnd (is_def_eq tc inferred_inst synthesized_inst) (\<lambda>eq.
           if \<not> eq then
             throw (Elaborator_exception mvar
               (FCompose
                 (FCompose
                   (FCompose
                     (FCompose
                       (FText ''synthesized type class instance is not definitionally equal to expression inferred by typing rules, synthesized'')
                       (pp_indent synthesized_inst))
                     FLine)
                   (FText ''inferred''))
                 (pp_indent inferred_inst)))
           else ret True)))"

definition try_synthesize_type_class_instance :: "'m type_context \<Rightarrow> expr \<Rightarrow> ('m, bool) elab" where
  "try_synthesize_type_class_instance tc mvar =
     bnd (instantiate_mvars tc mvar) (\<lambda>inst.
     bnd (infer_type tc inst) (\<lambda>t.
     bnd (instantiate_mvars tc t) (\<lambda>inst_type.
       synthesize_type_class_instance_core tc mvar inst inst_type)))"

text \<open>
  \<open>synthesize_type_class_instances_step\<close>: its first loop sorts the pending
  metavariables into \<open>to_keep\<close> and \<open>to_process\<close>, its second loop synthesizes the
  instances to process, and the pending list becomes a fresh list of the kept ones. When
  there is nothing to process the pending list is left as it is.
\<close>

fun sort_instances ::
    "'m type_context \<Rightarrow> expr list \<Rightarrow> ('m, expr list \<times> (expr \<times> expr \<times> expr) list) elab" where
  "sort_instances tc [] = ret ([], [])"
| "sort_instances tc (mvar # rest) =
     bnd (instantiate_mvars tc mvar) (\<lambda>inst.
     bnd (infer_type tc inst) (\<lambda>t.
     bnd (instantiate_mvars tc t) (\<lambda>inst_type.
     bnd (ready_to_synthesize tc inst_type) (\<lambda>ready.
     bnd (sort_instances tc rest) (\<lambda>(to_keep, to_process).
       if \<not> ready then ret (mvar # to_keep, to_process)
       else ret (to_keep, (mvar, inst, inst_type) # to_process))))))"

fun process_instances :: "'m type_context \<Rightarrow> (expr \<times> expr \<times> expr) list \<Rightarrow> ('m, unit) elab" where
  "process_instances tc [] = ret ()"
| "process_instances tc ((mvar, inst, inst_type) # rest) =
     bnd (synthesize_type_class_instance_core tc mvar inst inst_type)
       (\<lambda>done. process_instances tc rest)"

definition synthesize_type_class_instances_step :: "'m type_context \<Rightarrow> ('m, unit) elab" where
  "synthesize_type_class_instances_step tc =
     (\<lambda>st. bnd (sort_instances tc (elems (m_instances st)))
        (\<lambda>(to_keep, to_process).
           if to_process = [] then ret ()
           else bnd (process_instances tc to_process)
                  (\<lambda>u st'. let (l, n) = to_list to_keep (next_cell st')
                           in (Inr (), st'\<lparr>m_instances := l, next_cell := n\<rparr>))) st)"

text \<open>
  The draining loop is defined after the facts its termination rests on: the sorting
  loop reads the state only, the processing loop leaves the pending list alone, and a
  step either leaves the pending list as it is or makes it shorter.
\<close>

lemma bnd_instantiate_mvars:
  "bnd (instantiate_mvars tc e) f st = f (tc_instantiate_mvars tc (m_mctx st) e) st"
  by (simp add: bnd_def instantiate_mvars_def)

lemma elems_to_list: "elems (fst (to_list xs n)) = xs"
proof (induction xs arbitrary: n)
  case Nil
  show ?case by simp
next
  case (Cons x xs)
  obtain l k where tl: "to_list xs n = (l, k)" by (cases "to_list xs n")
  from Cons.IH [of n] tl have "elems l = xs" by simp
  with tl show ?case by simp
qed

lemma is_eqp_refl: "is_eqp l l"
  by (cases l) auto

lemma ready_to_synthesize_state: "snd (ready_to_synthesize tc t st) = st"
  by (auto simp: ready_to_synthesize_def ret_def bnd_def infer_type_def Let_def split: if_splits sum.splits)

lemma bnd_pure:
  "snd (m st) = st \<Longrightarrow>
   bnd m f st = (case fst (m st) of Inl ex \<Rightarrow> (Inl ex, st) | Inr x \<Rightarrow> f x st)"
  by (cases "m st") (auto simp: bnd_def split: sum.splits)

lemma bnd_ready:
  "bnd (ready_to_synthesize tc t) f st =
     (case fst (ready_to_synthesize tc t st) of Inl ex \<Rightarrow> (Inl ex, st) | Inr x \<Rightarrow> f x st)"
  by (rule bnd_pure [where m = "ready_to_synthesize tc t"]) (rule ready_to_synthesize_state)

lemma bnd_infer_type:
  "bnd (infer_type tc e) f st =
     (case tc_infer tc (m_mctx st) e of Inl ex \<Rightarrow> (Inl ex, st) | Inr t \<Rightarrow> f t st)"
  by (simp add: bnd_def infer_type_def split: sum.splits)

lemma sort_instances_state: "snd (sort_instances tc xs st) = st"
proof (induction xs)
  case Nil
  show ?case by (simp add: ret_def)
next
  case (Cons mvar rest)
  show ?case
    by (simp add: bnd_instantiate_mvars bnd_infer_type bnd_ready
        bnd_pure [where m = "sort_instances tc rest", OF Cons.IH] ret_def
        split: sum.splits prod.splits)
qed

lemma bnd_sort_instances:
  "bnd (sort_instances tc xs) f st =
     (case fst (sort_instances tc xs st) of Inl ex \<Rightarrow> (Inl ex, st) | Inr x \<Rightarrow> f x st)"
  by (rule bnd_pure [where m = "sort_instances tc xs"]) (rule sort_instances_state)

lemma sort_instances_length:
  "fst (sort_instances tc xs st) = Inr (keep, proc) \<Longrightarrow> length keep + length proc = length xs"
proof (induction xs arbitrary: keep proc)
  case Nil
  then show ?case by (simp add: ret_def)
next
  case (Cons mvar rest)
  from Cons.prems show ?case
    by (auto simp: bnd_instantiate_mvars bnd_infer_type bnd_ready bnd_sort_instances ret_def
        split: sum.splits prod.splits if_splits dest!: Cons.IH)
qed

lemma bnd_keeps:
  assumes "\<And>st. g (snd (m st)) = g st" and "\<And>x st. g (snd (f x st)) = g st"
  shows "g (snd (bnd m f st)) = g st"
proof (cases "m st")
  case (Pair r st1)
  from assms(1) [of st] Pair have g1: "g st1 = g st" by simp
  show ?thesis
  proof (cases r)
    case (Inl ex)
    with Pair g1 show ?thesis by (simp add: bnd_def)
  next
    case (Inr x)
    with Pair g1 assms(2) [of x st1] show ?thesis by (simp add: bnd_def)
  qed
qed

lemma ret_keeps: "g (snd (ret x st)) = g st"
  by (simp add: ret_def)

lemma throw_keeps: "g (snd (throw ex st)) = g st"
  by (simp add: throw_def)

lemma try_report_instances: "m_instances (snd (try_report ex st)) = m_instances st"
  by (simp add: try_report_def)

lemma report_or_throw_instances: "m_instances (snd (report_or_throw ex st)) = m_instances st"
  using try_report_instances [of ex st]
  by (cases "try_report ex st") (simp add: report_or_throw_def)

lemma mk_univ_metavar_instances: "m_instances (snd (mk_univ_metavar tc st)) = m_instances st"
  by (simp add: mk_univ_metavar_def split: prod.splits)

lemma mk_metavar_instances: "m_instances (snd (mk_metavar tc A ref st)) = m_instances st"
  by (simp add: mk_metavar_def split: prod.splits)

lemma mk_type_metavar_instances: "m_instances (snd (mk_type_metavar tc ref st)) = m_instances st"
  unfolding mk_type_metavar_def
  by (rule bnd_keeps) (simp_all add: mk_univ_metavar_instances mk_metavar_instances)

lemma mk_sorry_instances: "m_instances (snd (mk_sorry tc t ref st)) = m_instances st"
proof (cases t)
  case None
  show ?thesis unfolding mk_sorry_def None option.case
    by (rule bnd_keeps) (simp_all add: mk_type_metavar_instances ret_def)
next
  case (Some a)
  then show ?thesis by (simp add: mk_sorry_def ret_def)
qed

lemma recoverable_error_instances:
  "m_instances (snd (recoverable_error tc t ref ex st)) = m_instances st"
  unfolding recoverable_error_def
  by (rule bnd_keeps) (simp_all add: report_or_throw_instances mk_sorry_instances)

lemma mk_instance_core_instances:
  "m_instances (snd (mk_instance_core tc lctx C ref st)) = m_instances st"
  by (simp add: mk_instance_core_def recoverable_error_instances split: prod.splits sum.splits option.splits)

lemma is_def_eq_instances: "m_instances (snd (is_def_eq tc a b st)) = m_instances st"
  by (simp add: is_def_eq_def split: prod.splits sum.splits)

lemma synthesize_core_instances:
  "m_instances (snd (synthesize_type_class_instance_core tc mvar inst inst_type st)) = m_instances st"
  unfolding synthesize_type_class_instance_core_def
  apply (rule bnd_keeps)
   apply (simp add: ready_to_synthesize_state)
  apply (simp add: ret_def)
  apply (rule impI)
  apply (rule bnd_keeps)
   apply (rule mk_instance_core_instances)
  apply (rule bnd_keeps)
   apply (rule is_def_eq_instances)
  apply (simp add: ret_def throw_def)
  done

lemma process_instances_instances:
  "m_instances (snd (process_instances tc xs st)) = m_instances st"
proof (induction xs arbitrary: st)
  case Nil
  show ?case by (simp add: ret_def)
next
  case (Cons x xs)
  obtain mvar inst inst_type where x: "x = (mvar, inst, inst_type)" by (cases x)
  show ?case unfolding x process_instances.simps
    by (rule bnd_keeps) (simp_all add: synthesize_core_instances Cons.IH)
qed

lemma step_unfold:
  "synthesize_type_class_instances_step tc st =
     (case fst (sort_instances tc (elems (m_instances st)) st) of
        Inl ex \<Rightarrow> (Inl ex, st)
      | Inr (to_keep, to_process) \<Rightarrow>
          if to_process = [] then (Inr (), st)
          else (case process_instances tc to_process st of
                  (Inl ex, st') \<Rightarrow> (Inl ex, st')
                | (Inr u, st') \<Rightarrow>
                    (let (l, n) = to_list to_keep (next_cell st')
                     in (Inr (), st'\<lparr>m_instances := l, next_cell := n\<rparr>))))"
  unfolding synthesize_type_class_instances_step_def bnd_sort_instances
  by (auto simp: bnd_def ret_def split: sum.splits prod.splits)

lemma step_progress:
  "m_instances (snd (synthesize_type_class_instances_step tc st)) = m_instances st \<or>
   length (elems (m_instances (snd (synthesize_type_class_instances_step tc st)))) <
     length (elems (m_instances st))"
proof (cases "fst (sort_instances tc (elems (m_instances st)) st)")
  case (Inl ex)
  then show ?thesis by (simp add: step_unfold)
next
  case (Inr kp)
  obtain keep proc where kp: "kp = (keep, proc)" by (cases kp)
  from sort_instances_length Inr kp
  have len: "length keep + length proc = length (elems (m_instances st))" by fastforce
  show ?thesis
  proof (cases "proc = []")
    case True
    with Inr kp show ?thesis by (simp add: step_unfold)
  next
    case False
    then have lt: "length keep < length (elems (m_instances st))" using len by (cases proc) auto
    obtain r st1 where pr: "process_instances tc proc st = (r, st1)" by (cases "process_instances tc proc st")
    from process_instances_instances [of tc proc st] pr have keepi: "m_instances st1 = m_instances st" by simp
    show ?thesis
    proof (cases r)
      case (Inl ex)
      with \<open>fst (sort_instances tc (elems (m_instances st)) st) = Inr kp\<close> kp False pr keepi
      show ?thesis by (simp add: step_unfold)
    next
      case (Inr u)
      obtain l n where tl: "to_list keep (next_cell st1) = (l, n)" by (cases "to_list keep (next_cell st1)")
      from elems_to_list [of keep "next_cell st1"] tl have "elems l = keep" by simp
      with \<open>fst (sort_instances tc (elems (m_instances st)) st) = Inr kp\<close> kp False pr Inr tl lt show ?thesis
        by (simp add: step_unfold)
    qed
  qed
qed

lemma step_decreases:
  assumes "synthesize_type_class_instances_step tc st = (r, st')"
    and "\<not> is_eqp (m_instances st) (m_instances st')"
  shows "length (elems (m_instances st')) < length (elems (m_instances st))"
proof -
  from assms(2) is_eqp_refl have "m_instances st' \<noteq> m_instances st" by metis
  with step_progress [of tc st] assms(1) show ?thesis by simp
qed

function synthesize_type_class_instances :: "'m type_context \<Rightarrow> ('m, unit) elab" where
  "synthesize_type_class_instances tc st =
     (case synthesize_type_class_instances_step tc st of
        (Inl ex, st') \<Rightarrow> (Inl ex, st')
      | (Inr u, st') \<Rightarrow>
          if is_eqp (m_instances st) (m_instances st') then (Inr (), st')
          else synthesize_type_class_instances tc st')"
  by pat_completeness auto
termination
  apply (relation "measure (\<lambda>(tc, st). length (elems (m_instances st)))")
   apply simp
  apply (auto dest: step_decreases [OF sym])
  done

text \<open>The same loop cut off after \<open>n\<close> scans, to count them.\<close>

fun synthesize_type_class_instances_fuel ::
    "nat \<Rightarrow> 'm type_context \<Rightarrow> 'm elaborator \<Rightarrow> ((exn + unit) \<times> 'm elaborator) option" where
  "synthesize_type_class_instances_fuel 0 tc st = None"
| "synthesize_type_class_instances_fuel (Suc n) tc st =
     (case synthesize_type_class_instances_step tc st of
        (Inl ex, st') \<Rightarrow> Some (Inl ex, st')
      | (Inr u, st') \<Rightarrow>
          if is_eqp (m_instances st) (m_instances st') then Some (Inr (), st')
          else synthesize_type_class_instances_fuel n tc st')"

fun pi_domains :: "expr \<Rightarrow> expr list" where
  "pi_domains (Pi n d b bi) = d # pi_domains b"
| "pi_domains e = []"

section \<open>Anonymous constructors\<close>

datatype elaborator_strategy = Simple | WithExpectedType | AsEliminator

text \<open>
  The environment \<open>m_env\<close> is external. \<open>env_get_type n\<close> is the type of the declaration
  \<open>m_env.get(n)\<close>, and \<open>None\<close> when \<open>get\<close> throws because there is no such declaration.
  \<open>env_elab_strategy n\<close> is the data of the elaborator-strategy attribute of \<open>n\<close>, if it
  has one; the last three fields are \<open>inductive::is_elim_rule\<close>, \<open>is_aux_recursor\<close> and
  \<open>is_user_defined_recursor\<close>.
\<close>

record environment =
  env_get_type :: "name \<Rightarrow> expr option"
  env_is_private :: "name \<Rightarrow> bool"
  env_is_inductive_decl :: "name \<Rightarrow> bool"
  env_get_intro_rule_names :: "name \<Rightarrow> name list"
  env_elab_strategy :: "name \<Rightarrow> elaborator_strategy option"
  env_is_elim_rule :: "name \<Rightarrow> bool"
  env_is_aux_recursor :: "name \<Rightarrow> bool"
  env_is_user_defined_recursor :: "name \<Rightarrow> bool"

definition get_elaborator_strategy :: "environment \<Rightarrow> name \<Rightarrow> elaborator_strategy" where
  "get_elaborator_strategy env n =
     (case env_elab_strategy env n of
        Some status \<Rightarrow> status
      | None \<Rightarrow>
          if env_is_elim_rule env n \<or> env_is_aux_recursor env n \<or> env_is_user_defined_recursor env n
          then AsEliminator
          else WithExpectedType)"

text \<open>
  Modelled from the spec: the anonymous-constructor macro (frontends/lean/util.h) is not
  among the sources; it is the extension node tagged \<open>anonymous_constructor\<close> over one
  child, the application of a head to the given arguments.
\<close>

definition mk_anonymous_constructor :: "expr \<Rightarrow> expr" where
  "mk_anonymous_constructor e = Macro [''anonymous_constructor''] [e]"

fun get_anonymous_constructor_arg :: "expr \<Rightarrow> expr option" where
  "get_anonymous_constructor_arg (Macro m [a]) =
     (if m = [''anonymous_constructor''] then Some a else None)"
| "get_anonymous_constructor_arg e = None"

definition is_anonymous_constructor :: "expr \<Rightarrow> bool" where
  "is_anonymous_constructor e = (get_anonymous_constructor_arg e \<noteq> None)"

fun count_explicit :: "expr \<Rightarrow> nat" where
  "count_explicit (Pi n d b bi) = (if bi = BExplicit then 1 else 0) + count_explicit b"
| "count_explicit e = 0"

text \<open>
  \<open>visit_anonymous_constructor\<close>; \<open>visit\<close> is the elaborator's \<open>visit\<close>, called on the
  constructor application at the end. The source asserts that \<open>e\<close> is an anonymous
  constructor; the model throws for any other term. The brackets in the messages are
  written in ASCII.
\<close>

definition visit_anonymous_constructor ::
    "'m type_context \<Rightarrow> environment \<Rightarrow> (expr \<Rightarrow> expr option \<Rightarrow> ('m, expr) elab) \<Rightarrow>
     expr \<Rightarrow> expr option \<Rightarrow> ('m, expr) elab" where
  "visit_anonymous_constructor tc env visit e expected_type =
     (case get_anonymous_constructor_arg e of
        None \<Rightarrow> throw (Exception ''assertion violation'')
      | Some body \<Rightarrow>
         (let args = get_app_args body; c = get_app_fn body
          in case expected_type of
               None \<Rightarrow> throw (Elaborator_exception e
                          (FText ''invalid constructor <...>, expected type must be known''))
             | Some et \<Rightarrow>
                 bnd (instantiate_mvars tc et) (\<lambda>et'.
                  (\<lambda>st.
                    (case get_app_fn (tc_relaxed_whnf tc (m_mctx st) et') of
                       Constant I_name ls \<Rightarrow>
                         if env_is_private env I_name then
                           throw (Elaborator_exception e
                             (FText ''invalid constructor <...>, type is a private inductive datatype''))
                         else if \<not> env_is_inductive_decl env I_name then
                           throw (Elaborator_exception e
                             (FCompose (FText ''invalid constructor <...>, '')
                               (FCompose (FName I_name) (FText '' is not an inductive type''))))
                         else
                           (case env_get_intro_rule_names env I_name of
                              [c_name] \<Rightarrow>
                                (case env_get_type env c_name of
                                   None \<Rightarrow> throw (Exception ''unknown declaration'')
                                 | Some type \<Rightarrow>
                                    (let num_explicit = count_explicit type;
                                         args' =
                                           (if num_explicit > 1 \<and> length args > num_explicit then
                                              (let num_extra = length args - num_explicit;
                                                   rest = mk_anonymous_constructor
                                                     (mk_app c (take (num_extra + 1)
                                                        (drop (num_explicit - 1) args)))
                                               in (take num_explicit args)[num_explicit - 1 := rest])
                                            else args);
                                         new_e = mk_app (Constant c_name []) args'
                                     in visit new_e expected_type))
                            | _ \<Rightarrow>
                                throw (Elaborator_exception e
                                  (FCompose (FText ''invalid constructor <...>, '')
                                    (FCompose (FName I_name) (FText '' must have only one constructor'')))))
                     | _ \<Rightarrow>
                         throw (Elaborator_exception e
                           (FCompose
                             (FText ''invalid constructor <...>, expected type is not an inductive type'')
                             (pp_indent et)))) st))))"

section \<open>Eliminator applications\<close>

record elim_info =
  m_arity :: nat
  m_nexplicit :: nat
  m_motive_idx :: nat
  m_idxs :: "nat list"

definition fn_name :: "expr \<Rightarrow> name" where
  "fn_name fn = (case const_name fn of Some n \<Rightarrow> n | None \<Rightarrow> [])"

text \<open>The common start of the messages of \<open>visit_elim_app\<close>; quotation marks are left out.\<close>

definition elim_msg :: "expr \<Rightarrow> format \<Rightarrow> format" where
  "elim_msg fn what =
     FCompose
       (FCompose
         (FCompose (FCompose (FText ''invalid '') (FName (fn_name fn))) (FText '' application, ''))
         (FCompose
           (FText ''elaborator has special support for this kind of application '')
           (FText ''(it is handled as an eliminator), '')))
       what"

definition mk_app_type_mismatch_error :: "expr \<Rightarrow> expr \<Rightarrow> expr \<Rightarrow> expr \<Rightarrow> format" where
  "mk_app_type_mismatch_error t arg arg_type expected_type =
     FCompose
       (FCompose
         (FCompose
           (FCompose (FText ''type mismatch at application'') (pp_indent t))
           (FCompose (FCompose FLine (FText ''term'')) (pp_indent arg)))
         (FCompose (FCompose FLine (FText ''has type'')) (pp_indent arg_type)))
       (FCompose (FCompose FLine (FText ''but is expected to have type'')) (pp_indent expected_type))"

text \<open>
  The parameters of \<open>visit_elim_app\<close> that stay fixed, together with the two methods it
  calls that are taken as given: \<open>visit\<close> and \<open>synthesize\<close>.
\<close>

record 'm elim_call =
  ec_visit :: "expr \<Rightarrow> expr option \<Rightarrow> ('m, expr) elab"
  ec_synthesize :: "('m, unit) elab"
  ec_fn :: expr
  ec_info :: elim_info
  ec_args :: "expr list"
  ec_ref :: expr

text \<open>
  One round of the first loop, for the binder with domain \<open>d\<close> and binder information
  \<open>bi\<close> at position \<open>i\<close>, with \<open>j\<close> arguments consumed so far and \<open>new_args\<close> built so
  far. It returns the new argument, the postponed surface argument if there is one, and
  the new \<open>j\<close>. Reading \<open>args[j]\<close> past the end of \<open>args\<close>, which the source excludes by
  an assertion on the arity, is an exception of the model.
\<close>

definition elim_arg ::
    "'m type_context \<Rightarrow> 'm elim_call \<Rightarrow> expr \<Rightarrow> binder_info \<Rightarrow> nat \<Rightarrow> nat \<Rightarrow> expr list \<Rightarrow>
     ('m, expr \<times> expr option \<times> nat) elab" where
  "elim_arg tc ec d bi i j new_args =
     (if i \<in> set (m_idxs (ec_info ec)) then
        (if j < length (ec_args ec) then
           bnd (ec_visit ec (ec_args ec ! j) (Some d)) (\<lambda>a.
           bnd (ec_synthesize ec) (\<lambda>u.
           bnd (instantiate_mvars tc a) (\<lambda>new_arg.
             if has_expr_metavar new_arg then
               throw (Elaborator_exception (ec_ref ec)
                 (elim_msg (ec_fn ec)
                   (FCompose
                     (FCompose (FText ''but term'') (pp_indent new_arg))
                     (FCompose
                       (FCompose FLine (FText ''must not contain metavariables because''))
                       (FText '' it is used to compute the motive'')))))
             else
               bnd (infer_type tc new_arg) (\<lambda>new_arg_type.
               bnd (is_def_eq tc new_arg_type d) (\<lambda>eq.
                 if \<not> eq then
                   throw (Elaborator_exception (ec_ref ec)
                     (mk_app_type_mismatch_error (mk_app (ec_fn ec) (new_args @ [new_arg]))
                        new_arg new_arg_type d))
                 else ret (new_arg, None, j + 1))))))
         else throw (Exception ''assertion violation''))
      else if bi = BExplicit then
        (if j < length (ec_args ec) then
           bnd (mk_metavar tc d (ec_args ec ! j))
             (\<lambda>new_arg. ret (new_arg, Some (ec_args ec ! j), j + 1))
         else throw (Exception ''assertion violation''))
      else if bi = BInstImplicit then
        bnd (mk_instance tc d (ec_ref ec)) (\<lambda>new_arg. ret (new_arg, None, j))
      else
        bnd (mk_metavar tc d (ec_ref ec)) (\<lambda>new_arg. ret (new_arg, None, j)))"

text \<open>
  The first loop, \<open>while (is_pi(type))\<close>. The next type comes from the checker, so the
  loop need not end: \<open>None\<close> is a run that does not return.
\<close>

partial_function (option) elim_first_pass ::
    "'m type_context \<Rightarrow> 'm elim_call \<Rightarrow> expr \<Rightarrow> nat \<Rightarrow> nat \<Rightarrow> expr list \<Rightarrow> expr option list \<Rightarrow>
     'm elaborator \<Rightarrow>
     ((exn + (expr \<times> nat \<times> expr list \<times> expr option list)) \<times> 'm elaborator) option" where
  "elim_first_pass tc ec type i j new_args postponed_args st =
     (case type of
        Pi n d b bi \<Rightarrow>
          (case elim_arg tc ec d bi i j new_args st of
             (Inl ex, st1) \<Rightarrow> Some (Inl ex, st1)
           | (Inr (new_arg, postponed, j'), st1) \<Rightarrow>
               elim_first_pass tc ec
                 (tc_try_to_pi tc (m_mctx st1) (tc_instantiate tc b new_arg))
                 (i + 1) j' (new_args @ [new_arg]) (postponed_args @ [postponed]) st1)
      | _ \<Rightarrow> Some (Inr (type, j, new_args, postponed_args), st))"

declare elim_first_pass.simps [code]

text \<open>The arguments beyond the recursor's own are visited without an expected type.\<close>

fun visit_all :: "(expr \<Rightarrow> expr option \<Rightarrow> ('m, expr) elab) \<Rightarrow> expr list \<Rightarrow> ('m, expr list) elab" where
  "visit_all visit [] = ret []"
| "visit_all visit (a # as) =
     bnd (visit a None) (\<lambda>x. bnd (visit_all visit as) (\<lambda>xs. ret (x # xs)))"

text \<open>
  The expected type of the recursor application without the extra arguments: the loop
  runs over the extra arguments from the last to the first, so it is given them
  reversed, and it returns \<open>extra_args\<close> in the order it pushed them.
\<close>

fun elim_extra :: "'m type_context \<Rightarrow> expr list \<Rightarrow> expr \<Rightarrow> ('m, expr \<times> expr list) elab" where
  "elim_extra tc [] expected_type = ret (expected_type, [])"
| "elim_extra tc (x # xs) expected_type =
     bnd (instantiate_mvars tc x) (\<lambda>new_arg.
     bnd (infer_type tc new_arg) (\<lambda>t.
     bnd (instantiate_mvars tc t) (\<lambda>new_arg_type.
     bnd (\<lambda>st. elim_extra tc xs
                 (Pi [''_a''] new_arg_type (tc_kabstract tc (m_mctx st) expected_type new_arg) BExplicit) st)
       (\<lambda>(et, extra_args). ret (et, new_arg # extra_args)))))"

text \<open>The motive, abstracted over the keys from the last to the first.\<close>

fun elim_motive :: "'m type_context \<Rightarrow> expr list \<Rightarrow> expr \<Rightarrow> ('m, expr) elab" where
  "elim_motive tc [] motive = ret motive"
| "elim_motive tc (key # keys) motive =
     bnd (instantiate_mvars tc key) (\<lambda>k.
     bnd (infer_type tc k) (\<lambda>k_type.
       (\<lambda>st. elim_motive tc keys
               (Lambda [''_x''] k_type (tc_kabstract tc (m_mctx st) motive k) BExplicit) st)))"

text \<open>
  The postponed arguments: position \<open>i\<close> of \<open>new_args\<close> is replaced by the elaborated
  argument when \<open>postponed_args[i]\<close> holds one. The two buffers are walked together.
\<close>

fun elim_postponed ::
    "'m type_context \<Rightarrow> 'm elim_call \<Rightarrow> expr list \<Rightarrow> expr option list \<Rightarrow> ('m, expr list) elab" where
  "elim_postponed tc ec [] postponed_args = ret []"
| "elim_postponed tc ec (a # as) [] = throw (Exception ''assertion violation'')"
| "elim_postponed tc ec (a # as) (None # ps) =
     bnd (elim_postponed tc ec as ps) (\<lambda>r. ret (a # r))"
| "elim_postponed tc ec (a # as) (Some arg # ps) =
     bnd (infer_type tc a) (\<lambda>t.
     bnd (instantiate_mvars tc t) (\<lambda>new_arg_type.
     bnd (ec_visit ec arg (Some new_arg_type)) (\<lambda>new_arg.
     bnd (is_def_eq tc a new_arg) (\<lambda>eq.
       if \<not> eq then
         bnd (infer_type tc new_arg) (\<lambda>nt.
           throw (Elaborator_exception (ec_ref ec)
             (FCompose
               (FCompose
                 (FCompose (FText ''eliminator elaborator type mismatch, term'') (pp_indent new_arg))
                 (FCompose (FCompose FLine (FText ''has type'')) (pp_indent nt)))
               (FCompose (FCompose FLine (FText ''but is expected to have type''))
                 (pp_indent new_arg_type)))))
       else bnd (elim_postponed tc ec as ps) (\<lambda>r. ret (new_arg # r))))))"

text \<open>What follows the first loop, from the extra arguments to the result.\<close>

definition elim_finish ::
    "'m type_context \<Rightarrow> 'm elim_call \<Rightarrow> expr \<Rightarrow> expr \<Rightarrow> nat \<Rightarrow> expr list \<Rightarrow> expr option list \<Rightarrow>
     ('m, expr) elab" where
  "elim_finish tc ec expected_type0 type j new_args0 postponed_args =
     bnd (visit_all (ec_visit ec) (drop j (ec_args ec))) (\<lambda>more.
     bnd (ec_synthesize ec) (\<lambda>u.
       (let all_args = new_args0 @ more;
            arity = m_arity (ec_info ec)
        in bnd (elim_extra tc (rev (drop arity all_args)) expected_type0) (\<lambda>(expected_type, pushed).
             (let new_args = take arity all_args;
                  extra_args = rev pushed
              in bnd (elim_motive tc (rev (get_app_args type)) expected_type) (\<lambda>motive.
                   if m_motive_idx (ec_info ec) < length new_args then
                     bnd (is_def_eq tc (new_args ! m_motive_idx (ec_info ec)) motive) (\<lambda>eq.
                       if \<not> eq then
                         throw (Elaborator_exception (ec_ref ec)
                           (FText ''eliminator elaborator failed to compute the motive''))
                       else
                         nest_elaborator_exception (ec_ref ec)
                           (\<lambda>ex. FCompose
                              (FText ''the inferred motive for the eliminator-like application is'')
                              (pp_indent motive))
                           (bnd (elim_postponed tc ec new_args postponed_args) (\<lambda>final_args.
                              instantiate_mvars tc (mk_app (mk_app (ec_fn ec) final_args) extra_args))))
                   else throw (Exception ''assertion violation'')))))))"

text \<open>
  \<open>visit_elim_app\<close>. The two checks of the expected type come first; the worklist of
  instances is drained between them.
\<close>

definition visit_elim_app ::
    "'m type_context \<Rightarrow> 'm elim_call \<Rightarrow> expr option \<Rightarrow> 'm elaborator \<Rightarrow>
     ((exn + expr) \<times> 'm elaborator) option" where
  "visit_elim_app tc ec expected_type0 st =
     (case expected_type0 of
        None \<Rightarrow>
          Some (Inl (Elaborator_exception (ec_ref ec)
                  (elim_msg (ec_fn ec) (FText ''but the expected type must be known''))), st)
      | Some et \<Rightarrow>
          (case synthesize_type_class_instances tc st of
             (Inl ex, st1) \<Rightarrow> Some (Inl ex, st1)
           | (Inr u, st1) \<Rightarrow>
               (let expected_type = tc_instantiate_mvars tc (m_mctx st1) et
                in if has_expr_metavar expected_type then
                     Some (Inl (Elaborator_exception (ec_ref ec)
                             (elim_msg (ec_fn ec)
                               (FCompose (FText ''but expected type must not contain metavariables'')
                                  (pp_indent expected_type)))), st1)
                   else
                     (case tc_infer tc (m_mctx st1) (ec_fn ec) of
                        Inl ex \<Rightarrow> Some (Inl ex, st1)
                      | Inr fn_type \<Rightarrow>
                          (case elim_first_pass tc ec (tc_try_to_pi tc (m_mctx st1) fn_type)
                                  0 0 [] [] st1 of
                             None \<Rightarrow> None
                           | Some (Inl ex, st2) \<Rightarrow> Some (Inl ex, st2)
                           | Some (Inr (type, j, new_args, postponed_args), st2) \<Rightarrow>
                               Some (elim_finish tc ec expected_type type j new_args
                                       postponed_args st2))))))"

text \<open>
  The arguments at the positions of \<open>info.m_idxs\<close>, the ones the motive is computed
  from, contain no metavariables.
\<close>

definition keys_closed :: "'m elim_call \<Rightarrow> expr list \<Rightarrow> bool" where
  "keys_closed ec new_args =
     list_all (\<lambda>k. k < length new_args \<longrightarrow> \<not> has_expr_metavar (new_args ! k)) (m_idxs (ec_info ec))"

section \<open>Applications and overloads\<close>

datatype arg_mask = AllExplicit | InstHoExplicit | Default

text \<open>The fields of \<open>first_pass_info\<close>, prefixed to keep them apart from local variables.\<close>

record first_pass_info =
  fpi_args_mvars :: "expr list"
  fpi_args_expected_types :: "expr list"
  fpi_new_args :: "expr list"
  fpi_new_args_size :: "nat list"
  fpi_new_instances :: "expr list"
  fpi_new_instances_size :: "nat list"
  fpi_eta_args :: "expr list"

text \<open>
  The methods that application elaboration dispatches to and that are taken as given
  here: \<open>visit\<close>, \<open>visit_function\<close>, the two passes and the simple single-pass elaborator
  \<open>visit_base_app_simple\<close>. \<open>first_pass\<close> returns the information it collected.
\<close>

record 'm app_methods =
  am_visit :: "expr \<Rightarrow> expr option \<Rightarrow> ('m, expr) elab"
  am_visit_function :: "expr \<Rightarrow> bool \<Rightarrow> expr \<Rightarrow> ('m, expr) elab"
  am_first_pass :: "expr \<Rightarrow> expr list \<Rightarrow> expr \<Rightarrow> expr \<Rightarrow> ('m, first_pass_info) elab"
  am_second_pass :: "expr \<Rightarrow> expr list \<Rightarrow> expr \<Rightarrow> first_pass_info \<Rightarrow> ('m, expr) elab"
  am_visit_base_app_simple ::
    "expr \<Rightarrow> arg_mask \<Rightarrow> expr list \<Rightarrow> bool \<Rightarrow> expr option \<Rightarrow> expr \<Rightarrow> ('m, expr) elab"

text \<open>
  Modelled from the spec: the classes of exceptions (util/exception.h,
  library/exception.h) are not among the sources. \<open>exn_pp\<close> is the message an exception
  prints, that of a nested exception holding the message of the one it wraps, and
  \<open>exn_what\<close> is \<open>what()\<close>.
\<close>

fun exn_pp :: "exn \<Rightarrow> format" where
  "exn_pp (Elaborator_exception r m) = m"
| "exn_pp (Nested_elaborator_exception r ex m) = FCompose m (FCompose FLine (exn_pp ex))"
| "exn_pp App_builder_exception = FText ''app_builder exception''"
| "exn_pp Class_exception = FText ''class exception''"
| "exn_pp (Exception s) = FText s"
| "exn_pp (Std_exception s) = FText s"

fun exn_what :: "exn \<Rightarrow> string" where
  "exn_what (Exception s) = s"
| "exn_what (Std_exception s) = s"
| "exn_what App_builder_exception = ''app_builder exception''"
| "exn_what Class_exception = ''class exception''"
| "exn_what ex = ''elaborator exception''"

text \<open>A format occurs in another one as a part of it.\<close>

fun fmt_contains :: "format \<Rightarrow> format \<Rightarrow> bool" where
  "fmt_contains (FCompose a b) g = (FCompose a b = g \<or> fmt_contains a g \<or> fmt_contains b g)"
| "fmt_contains (FNest a) g = (FNest a = g \<or> fmt_contains a g)"
| "fmt_contains f g = (f = g)"

definition is_with_expected_candidate :: "environment \<Rightarrow> expr \<Rightarrow> bool" where
  "is_with_expected_candidate env fn =
     (case get_app_fn fn of
        Constant n ls \<Rightarrow> get_elaborator_strategy env n = WithExpectedType
      | _ \<Rightarrow> False)"

definition switched_to_simple_msg :: "exn \<Rightarrow> format" where
  "switched_to_simple_msg ex1 =
     FCompose
       (FText ''switched to simple application elaboration procedure because failed to use expected type to elaborate it, error message'')
       (FNest (FCompose FLine (exn_pp ex1)))"

text \<open>
  \<open>visit_base_app_core\<close>. The first pass runs with error recovery off; the
  \<open>full_postponed_scope\<close> of the type context around it is not modelled. Only an
  \<open>elaborator_exception\<close> of the first pass is caught.
\<close>

definition visit_base_app_core ::
    "environment \<Rightarrow> 'm app_methods \<Rightarrow> expr \<Rightarrow> arg_mask \<Rightarrow> expr list \<Rightarrow> bool \<Rightarrow> expr option \<Rightarrow>
     expr \<Rightarrow> ('m, expr) elab" where
  "visit_base_app_core env am fn amask args args_already_visited expected_type ref =
     (case expected_type of
        None \<Rightarrow> am_visit_base_app_simple am fn amask args args_already_visited expected_type ref
      | Some et \<Rightarrow>
          if args_already_visited \<or> amask \<noteq> Default \<or> \<not> is_with_expected_candidate env fn then
            am_visit_base_app_simple am fn amask args args_already_visited expected_type ref
          else
            (\<lambda>st.
               (let C = snapshot_of st
                in case dont_recover (am_first_pass am fn args et ref) st of
                     (Inr info, st1) \<Rightarrow> am_second_pass am fn args ref info st1
                   | (Inl ex1, st1) \<Rightarrow>
                       if is_elaborator_exception ex1 then
                         nest_elaborator_exception ref (\<lambda>ex2. switched_to_simple_msg ex1)
                           (am_visit_base_app_simple am fn amask args args_already_visited
                              expected_type ref)
                           (restore C st1)
                       else (Inl ex1, st1))))"

definition visit_overload_candidate ::
    "environment \<Rightarrow> 'm app_methods \<Rightarrow> expr \<Rightarrow> expr list \<Rightarrow> expr option \<Rightarrow> expr \<Rightarrow> ('m, expr) elab" where
  "visit_overload_candidate env am fn args expected_type ref =
     visit_base_app_core env am fn Default args True expected_type ref"

subsection \<open>Overloaded applications\<close>

definition pp_overload :: "expr \<Rightarrow> format" where
  "pp_overload fn = (case fn of Constant n ls \<Rightarrow> FName n | _ \<Rightarrow> FExpr fn)"

fun pp_overloads_loop :: "format \<Rightarrow> bool \<Rightarrow> expr list \<Rightarrow> format" where
  "pp_overloads_loop r first [] = r"
| "pp_overloads_loop r first (fn # fns) =
     pp_overloads_loop (FCompose (if first then r else FCompose r (FText '', '')) (pp_overload fn))
       False fns"

definition pp_overloads :: "expr list \<Rightarrow> format" where
  "pp_overloads fns =
     FCompose (FText ''('')
       (FCompose (pp_overloads_loop (FCompose (FText ''overloads:'') FSpace) True fns) (FText '')''))"

text \<open>
  \<open>mk_no_overload_applicable_msg\<close>: the loop over \<open>i < fns.size()\<close> reads \<open>error_msgs[i]\<close>;
  the source asserts that both buffers have the same size, and the loop here stops at the
  end of the shorter one.
\<close>

fun no_overload_applicable_loop :: "format \<Rightarrow> nat \<Rightarrow> expr list \<Rightarrow> exn list \<Rightarrow> format" where
  "no_overload_applicable_loop r i (fn # fns) (ex # error_msgs) =
     no_overload_applicable_loop
       (FCompose
          (FCompose (if 0 < i then FCompose r FLine else r)
             (FCompose (FCompose (FCompose FLine (FText ''error for'')) FSpace) (pp_overload fn)))
          (FCompose FLine (exn_pp ex)))
       (Suc i) fns error_msgs"
| "no_overload_applicable_loop r i fns error_msgs = r"

definition mk_no_overload_applicable_msg :: "expr list \<Rightarrow> exn list \<Rightarrow> format" where
  "mk_no_overload_applicable_msg fns error_msgs =
     no_overload_applicable_loop (FText ''none of the overloads are applicable'') 0 fns error_msgs"

definition invalid_overload_msg :: "expr \<Rightarrow> expr \<Rightarrow> expr \<Rightarrow> format" where
  "invalid_overload_msg c c_type expected_type =
     FCompose
       (FCompose
          (FCompose
             (FCompose
                (FCompose
                   (FCompose (FCompose (FText ''invalid overload, expression'') (pp_indent c)) FLine)
                   (FText ''has type''))
                (pp_indent c_type))
             FLine)
          (FText ''but is expected to have type''))
       (pp_indent expected_type)"

definition ambiguous_overload_msg :: "expr list \<Rightarrow> format" where
  "ambiguous_overload_msg cs =
     foldl (\<lambda>r c. FCompose r (pp_indent c)) (FText ''ambiguous overload, possible interpretations'') cs"

text \<open>
  One iteration of the loop of \<open>visit_overloaded_app_core\<close>, without its handlers: with
  error recovery off, restore the common snapshot, elaborate the head and the candidate,
  drain the instances and, if there is an expected type, test the type of the candidate
  against it. The result of \<open>ensure_has_type\<close> is only tested: the candidate recorded is \<open>c\<close>.
\<close>

definition overload_trial ::
    "'m type_context \<Rightarrow> environment \<Rightarrow> 'm app_methods \<Rightarrow> 'm snapshot \<Rightarrow> expr list \<Rightarrow> bool \<Rightarrow>
     expr option \<Rightarrow> expr \<Rightarrow> expr \<Rightarrow> ('m, expr) elab" where
  "overload_trial tc env am S new_args has_args expected_type ref fn =
     dont_recover
       (\<lambda>st.
          bnd (am_visit_function am fn has_args ref) (\<lambda>new_fn.
          bnd (visit_overload_candidate env am new_fn new_args expected_type ref) (\<lambda>c.
          bnd (synthesize_type_class_instances tc) (\<lambda>u.
            case expected_type of
              None \<Rightarrow> ret c
            | Some et \<Rightarrow>
                bnd (infer_type tc c) (\<lambda>c_type.
                bnd (ensure_has_type tc c c_type et ref) (\<lambda>r.
                  case r of
                    Some x \<Rightarrow> ret c
                  | None \<Rightarrow> throw (Elaborator_exception ref (invalid_overload_msg c c_type et)))))))
            (restore S st))"

text \<open>
  The handlers of the loops over the candidates: an \<open>elaborator_exception\<close> is recorded as
  it is, any other \<open>exception\<close> of Lean as an \<open>elaborator_exception\<close> with its \<open>what()\<close>,
  and anything else leaves the loop.
\<close>

definition as_error_msg :: "expr \<Rightarrow> exn \<Rightarrow> exn" where
  "as_error_msg ref ex =
     (if is_elaborator_exception ex then ex else Elaborator_exception ref (FText (exn_what ex)))"

fun overload_candidates ::
    "(expr \<Rightarrow> ('m, 'c) elab) \<Rightarrow> expr \<Rightarrow> expr list \<Rightarrow> ('c \<times> 'm snapshot) list \<Rightarrow> exn list \<Rightarrow>
     ('m, ('c \<times> 'm snapshot) list \<times> exn list) elab" where
  "overload_candidates trial ref [] candidates error_msgs = ret (candidates, error_msgs)"
| "overload_candidates trial ref (fn # fns) candidates error_msgs =
     (\<lambda>st. case trial fn st of
             (Inr c, st1) \<Rightarrow>
               overload_candidates trial ref fns (candidates @ [(c, snapshot_of st1)]) error_msgs st1
           | (Inl ex, st1) \<Rightarrow>
               if is_lean_exception ex then
                 overload_candidates trial ref fns candidates (error_msgs @ [as_error_msg ref ex]) st1
               else (Inl ex, st1))"

definition visit_overloaded_app_core ::
    "'m type_context \<Rightarrow> environment \<Rightarrow> 'm app_methods \<Rightarrow> expr list \<Rightarrow> expr list \<Rightarrow> expr option \<Rightarrow>
     expr \<Rightarrow> ('m, expr) elab" where
  "visit_overloaded_app_core tc env am fns args expected_type ref =
     bnd (visit_all (am_visit am) args) (\<lambda>new_args st.
       (let S = snapshot_of st
        in case overload_candidates
                  (overload_trial tc env am S new_args (args \<noteq> []) expected_type ref)
                  ref fns [] [] st of
             (Inl ex, st1) \<Rightarrow> (Inl ex, st1)
           | (Inr (candidates, error_msgs), st1) \<Rightarrow>
               (case candidates of
                  [] \<Rightarrow>
                    (Inl (Elaborator_exception ref (mk_no_overload_applicable_msg fns error_msgs)),
                     restore S st1)
                | [(c, Sc)] \<Rightarrow> (Inr c, restore Sc st1)
                | _ \<Rightarrow>
                    (Inl (Elaborator_exception ref (ambiguous_overload_msg (map fst candidates))),
                     restore S st1))))"

text \<open>
  One iteration of the loop of \<open>visit_overloaded_app_with_expected\<close>: the first pass of
  the candidate from the common snapshot. Error recovery is left as it is.
\<close>

definition with_expected_trial ::
    "'m app_methods \<Rightarrow> 'm snapshot \<Rightarrow> expr list \<Rightarrow> expr \<Rightarrow> expr \<Rightarrow> expr \<Rightarrow>
     ('m, expr \<times> first_pass_info) elab" where
  "with_expected_trial am S args expected_type ref fn =
     (\<lambda>st.
        bnd (am_visit_function am fn (args \<noteq> []) ref) (\<lambda>new_fn.
        bnd (am_first_pass am new_fn args expected_type ref) (\<lambda>info. ret (new_fn, info)))
          (restore S st))"

definition switched_no_candidate_msg :: "expr list \<Rightarrow> expr \<Rightarrow> exn list \<Rightarrow> format" where
  "switched_no_candidate_msg fns expected_type error_msgs =
     FCompose
       (FCompose
          (FCompose
             (FText ''switched to basic overload resolution where arguments are elaborated without any information about the expected type, because failed to elaborate all candidates using the expected type'')
             (pp_indent expected_type))
          (FCompose FLine
             (FText ''this can happen because, for example, coercions were not considered in the process'')))
       (FCompose FLine (mk_no_overload_applicable_msg fns error_msgs))"

definition disambiguated_msg :: "expr list \<Rightarrow> expr \<Rightarrow> exn list \<Rightarrow> format" where
  "disambiguated_msg fns fn error_msgs =
     foldl (\<lambda>msg error_msg. FCompose msg (FCompose FLine (exn_pp error_msg)))
       (FCompose
          (FCompose
             (FCompose (FText ''overload was disambiguated using expected type'')
                (FCompose FLine (pp_overloads fns)))
             (FCompose (FCompose FLine (FText ''the only applicable one seemed to be: ''))
                (pp_overload fn)))
          FLine)
       error_msgs"

definition switched_ambiguous_msg :: "expr \<Rightarrow> expr list \<Rightarrow> format" where
  "switched_ambiguous_msg expected_type cs =
     foldl (\<lambda>msg c. FCompose msg (pp_indent c))
       (FCompose
          (FCompose
             (FText ''switched to basic overload resolution where arguments are elaborated without any information about the expected type because it failed to disambiguate overload using the expected type'')
             (pp_indent expected_type))
          (FCompose FLine (FText ''the following overloaded terms were applicable'')))
       cs"

definition visit_overloaded_app_with_expected ::
    "'m type_context \<Rightarrow> environment \<Rightarrow> 'm app_methods \<Rightarrow> expr list \<Rightarrow> expr list \<Rightarrow> expr \<Rightarrow> expr \<Rightarrow>
     ('m, expr) elab" where
  "visit_overloaded_app_with_expected tc env am fns args expected_type ref =
     (\<lambda>st.
        (let S = snapshot_of st
         in case overload_candidates (with_expected_trial am S args expected_type ref)
                   ref fns [] [] st of
              (Inl ex, st1) \<Rightarrow> (Inl ex, st1)
            | (Inr (candidates, error_msgs), st1) \<Rightarrow>
                (case candidates of
                   [] \<Rightarrow>
                     nest_elaborator_exception ref
                       (\<lambda>ex. switched_no_candidate_msg fns expected_type error_msgs)
                       (visit_overloaded_app_core tc env am fns args (Some expected_type) ref)
                       (restore S st1)
                 | [((fn, info), Sc)] \<Rightarrow>
                     nest_elaborator_exception ref (\<lambda>ex. disambiguated_msg fns fn error_msgs)
                       (am_second_pass am fn args ref info)
                       (restore Sc st1)
                 | _ \<Rightarrow>
                     nest_elaborator_exception ref
                       (\<lambda>ex. switched_ambiguous_msg expected_type (map (\<lambda>c. fst (fst c)) candidates))
                       (visit_overloaded_app_core tc env am fns args (Some expected_type) ref)
                       (restore S st1))))"

definition visit_overloaded_app ::
    "'m type_context \<Rightarrow> environment \<Rightarrow> 'm app_methods \<Rightarrow> expr list \<Rightarrow> expr list \<Rightarrow> expr option \<Rightarrow>
     expr \<Rightarrow> ('m, expr) elab" where
  "visit_overloaded_app tc env am fns args expected_type ref =
     (case expected_type of
        Some et \<Rightarrow> visit_overloaded_app_with_expected tc env am fns args et ref
      | None \<Rightarrow>
          nest_elaborator_exception ref
            (\<lambda>ex. FText ''switched to basic overload resolution where arguments are elaborated without any information about the expected type because expected type was not available'')
            (visit_overloaded_app_core tc env am fns args expected_type ref))"


section \<open>Concrete inputs\<close>

text \<open>
  A temporary type context that accepts every unification, and the value of a hint
  declaration \<open>\<lambda>a : nat. unification_hint.mk (unification_constraint.mk nat (nat.succ a)
  (nat.add a nat.one)) (list.nil unification_constraint)\<close>, whose left head \<open>nat.succ\<close> is
  larger than its right head \<open>nat.add\<close>.
\<close>

definition accepting_tmp_ctx :: "unit tmp_type_context" where
  "accepting_tmp_ctx =
     \<lparr>mk_tmp_mvar = (\<lambda>c d. (Meta [''m''] d, c)),
      tmp_is_def_eq = (\<lambda>c a b. (True, c)),
      instantiate_rev = (\<lambda>e s. e)\<rparr>"

definition succ_add_hint :: expr where
  "succ_add_hint =
     Lambda [''a''] (Constant [''nat''] [])
       (App (App (Constant [''unification_hint'', ''mk''] [])
          (App (App (App (Constant [''unification_constraint'', ''mk''] []) (Constant [''nat''] []))
              (App (Constant [''nat'', ''succ''] []) (Var 0)))
              (App (App (Constant [''nat'', ''add''] []) (Var 0)) (Constant [''nat'', ''one''] []))))
          (App (Constant [''list'', ''nil''] []) (Constant [''unification_constraint''] [])))
       BExplicit"

definition empty_hint_state :: unification_hint_state where
  "empty_hint_state = \<lparr>m_hints = Map.empty, m_decl_names_to_prio = Map.empty\<rparr>"

text \<open>
  A small checker for concrete runs. Its metavariable context is the list of assignments
  and a counter for fresh names; \<open>toy_instantiate\<close> replaces assigned metavariables,
  \<open>toy_is_def_eq\<close> compares instantiated terms syntactically and assigns an unassigned
  metavariable that stands on one side, the type of a metavariable is the one it carries,
  a constant has the type \<open>types\<close> gives it, and class instance search looks the
  instantiated class up in \<open>instances\<close>, which also gives the assignments the search makes.
\<close>

type_synonym toy_mctx = "(name \<times> expr) list \<times> nat"

fun toy_instantiate :: "(name \<times> expr) list \<Rightarrow> expr \<Rightarrow> expr" where
  "toy_instantiate m (Meta n t) = (case map_of m n of Some v \<Rightarrow> v | None \<Rightarrow> Meta n t)"
| "toy_instantiate m (App f a) = App (toy_instantiate m f) (toy_instantiate m a)"
| "toy_instantiate m (Pi n d b bi) = Pi n (toy_instantiate m d) (toy_instantiate m b) bi"
| "toy_instantiate m e = e"

definition toy_is_def_eq :: "toy_mctx \<Rightarrow> expr \<Rightarrow> expr \<Rightarrow> (exn + bool) \<times> toy_mctx" where
  "toy_is_def_eq m a b =
     (let a' = toy_instantiate (fst m) a; b' = toy_instantiate (fst m) b
      in if a' = b' then (Inr True, m)
         else (case a' of
                 Meta n t \<Rightarrow> (Inr True, ((n, b') # fst m, snd m))
               | _ \<Rightarrow> (case b' of
                         Meta n t \<Rightarrow> (Inr True, ((n, a') # fst m, snd m))
                       | _ \<Rightarrow> (Inr False, m))))"

definition toy_infer :: "(name \<Rightarrow> expr) \<Rightarrow> expr \<Rightarrow> exn + expr" where
  "toy_infer types e =
     (case e of
        Meta n t \<Rightarrow> Inr t
      | Constant n ls \<Rightarrow> Inr (types n)
      | _ \<Rightarrow> Inr (Sort (LSucc LZero)))"

text \<open>
  Substitution of a closed term for the bound variable \<open>k\<close>, and abstraction of the
  occurrences of a closed term as the bound variable \<open>k\<close>.
\<close>

fun toy_subst :: "nat \<Rightarrow> expr \<Rightarrow> expr \<Rightarrow> expr" where
  "toy_subst k (Var i) a = (if i = k then a else if k < i then Var (i - 1) else Var i)"
| "toy_subst k (App f x) a = App (toy_subst k f a) (toy_subst k x a)"
| "toy_subst k (Pi n d b bi) a = Pi n (toy_subst k d a) (toy_subst (Suc k) b a) bi"
| "toy_subst k (Lambda n d b bi) a = Lambda n (toy_subst k d a) (toy_subst (Suc k) b a) bi"
| "toy_subst k e a = e"

fun toy_abstract :: "nat \<Rightarrow> expr \<Rightarrow> expr \<Rightarrow> expr" where
  "toy_abstract k t (App f x) =
     (if App f x = t then Var k else App (toy_abstract k t f) (toy_abstract k t x))"
| "toy_abstract k t (Pi n d b bi) =
     (if Pi n d b bi = t then Var k else Pi n (toy_abstract k t d) (toy_abstract (Suc k) t b) bi)"
| "toy_abstract k t (Lambda n d b bi) =
     (if Lambda n d b bi = t then Var k
      else Lambda n (toy_abstract k t d) (toy_abstract (Suc k) t b) bi)"
| "toy_abstract k t e = (if e = t then Var k else e)"

definition toy_ctx :: "(name \<Rightarrow> expr) \<Rightarrow> (expr \<Rightarrow> (expr \<times> (name \<times> expr) list) option) \<Rightarrow> toy_mctx type_context" where
  "toy_ctx types instances =
     \<lparr>tc_is_def_eq = (\<lambda>approx. toy_is_def_eq),
      tc_infer = (\<lambda>m. toy_infer types),
      tc_whnf = (\<lambda>m e. e),
      tc_relaxed_whnf = (\<lambda>m e. e),
      tc_try_to_pi = (\<lambda>m e. e),
      tc_instantiate_mvars = (\<lambda>m. toy_instantiate (fst m)),
      tc_mk_metavar_decl = (\<lambda>m A. (Meta [''m'', replicate (snd m) CHR ''i''] A, (fst m, Suc (snd m)))),
      tc_mk_univ_metavar_decl = (\<lambda>m. (LMeta [''u'', replicate (snd m) CHR ''i''], (fst m, Suc (snd m)))),
      tc_mk_class_instance_at =
        (\<lambda>m lctx C. case instances (toy_instantiate (fst m) C) of
                       None \<Rightarrow> (Inr None, m)
                     | Some (i, asg) \<Rightarrow> (Inr (Some i), (asg @ fst m, snd m))),
      tc_mk_app = (\<lambda>m c args. Inr (mk_app (Constant c []) args)),
      tc_is_class_out_param = (\<lambda>d. is_app_of d [''out_param''] 1),
      tc_instantiate = toy_subst 0,
      tc_kabstract = (\<lambda>m e t. toy_abstract 0 t e)\<rparr>"

definition toy_session :: "toy_mctx elaborator" where
  "toy_session =
     \<lparr>m_mctx = ([], 0), m_info = [], m_instances = PNil, m_numeral_types = [], m_tactics = [],
      m_inaccessible_stack = [], m_recover_from_errors = True, m_has_errors = False,
      m_coercions = True, m_in_pattern = False, m_in_quote = False, pos_info_provider = True,
      reported = [], next_cell = 1\<rparr>"

definition no_types :: "name \<Rightarrow> expr" where
  "no_types n = Sort (LSucc LZero)"

definition no_instances :: "expr \<Rightarrow> (expr \<times> (name \<times> expr) list) option" where
  "no_instances C = None"

definition nat_type :: expr where
  "nat_type = Constant [''nat''] []"

definition nat_zero :: expr where
  "nat_zero = Constant [''nat'', ''zero''] []"

text \<open>
  Types and instances for the coercion examples: every type constructor is a monad and
  every pair of types has a coercion instance.
\<close>

definition monad_instances :: "expr \<Rightarrow> (expr \<times> (name \<times> expr) list) option" where
  "monad_instances C =
     (if get_app_fn C = Constant [''monad''] [] then Some (Constant [''monad_inst''] [], [])
      else if get_app_fn C = Constant [''has_coe_t''] [] then Some (Constant [''coe_inst''] [], [])
      else None)"

definition tactic_name :: expr where
  "tactic_name = App (Constant [''tactic''] []) (Constant [''name''] [])"

definition solver_of_mvar :: expr where
  "solver_of_mvar = App (Constant [''solver''] []) (Meta [''a''] (Sort (LSucc LZero)))"

definition mvar_of_mvar :: expr where
  "mvar_of_mvar =
     App (Meta [''m''] (Pi [''x''] (Sort (LSucc LZero)) (Sort (LSucc LZero)) BExplicit))
         (Meta [''a''] (Sort (LSucc LZero)))"

definition some_term :: expr where
  "some_term = Constant [''t1''] []"

text \<open>
  A chain of three instance metavariables. The class \<open>cls\<close> has an ordinary parameter and
  an output parameter. \<open>?i1 : cls c ?x1\<close> is ready; \<open>?i2 : cls ?x1 ?x2\<close> and
  \<open>?i3 : cls ?x2 ?x3\<close> become ready once the instance before them has been found, since
  the search for \<open>cls k ?x\<close> assigns the output \<open>?x\<close>.
\<close>

definition chain_types :: "name \<Rightarrow> expr" where
  "chain_types n =
     (if n = [''cls''] then
        Pi [''a''] (Constant [''T''] [])
          (Pi [''b''] (App (Constant [''out_param''] []) (Constant [''T''] [])) (Sort (LSucc LZero)) BExplicit)
          BExplicit
      else Constant [''T''] [])"

definition chain_instances :: "expr \<Rightarrow> (expr \<times> (name \<times> expr) list) option" where
  "chain_instances C =
     (case C of
        App (App (Constant cn ls) (Constant k ls')) (Meta x t) \<Rightarrow>
          if cn = [''cls''] then Some (Constant (''inst'' # k) [], [(x, Constant (k @ [''s'']) [])])
          else None
      | _ \<Rightarrow> None)"

definition chain_mvar :: "string \<Rightarrow> expr" where
  "chain_mvar x = Meta [x] (Constant [''T''] [])"

definition chain_inst :: "string \<Rightarrow> expr \<Rightarrow> expr \<Rightarrow> expr" where
  "chain_inst i a b = Meta [i] (App (App (Constant [''cls''] []) a) b)"

definition chain_session :: "toy_mctx elaborator" where
  "chain_session =
     toy_session\<lparr>m_instances :=
       PCons 3 (chain_inst ''i3'' (chain_mvar ''x2'') (chain_mvar ''x3''))
        (PCons 2 (chain_inst ''i2'' (chain_mvar ''x1'') (chain_mvar ''x2''))
          (PCons 1 (chain_inst ''i1'' (Constant [''c''] []) (chain_mvar ''x1'')) PNil)),
       next_cell := 4\<rparr>"

definition chain_result :: "toy_mctx elaborator" where
  "chain_result =
     toy_session\<lparr>m_mctx :=
       ([([''i3''], Constant [''inst'', ''c'', ''s'', ''s''] []),
         ([''x3''], Constant [''c'', ''s'', ''s'', ''s''] []),
         ([''i2''], Constant [''inst'', ''c'', ''s''] []),
         ([''x2''], Constant [''c'', ''s'', ''s''] []),
         ([''i1''], Constant [''inst'', ''c''] []),
         ([''x1''], Constant [''c'', ''s''] [])],
        0),
       next_cell := 7\<rparr>"

definition chain_type1 :: expr where
  "chain_type1 = App (App (Constant [''cls''] []) (Constant [''c''] [])) (chain_mvar ''x1'')"

definition chain_type2 :: expr where
  "chain_type2 = App (App (Constant [''cls''] []) (chain_mvar ''x1'')) (chain_mvar ''x2'')"

text \<open>
  A session whose only pending instance metavariable \<open>?i : cls0\<close> is already assigned the
  term \<open>a\<close> by type inference, while the class instance search finds \<open>b\<close>.
\<close>

definition mismatch_types :: "name \<Rightarrow> expr" where
  "mismatch_types n = Constant [''cls0''] []"

definition mismatch_instances :: "expr \<Rightarrow> (expr \<times> (name \<times> expr) list) option" where
  "mismatch_instances C = (if C = Constant [''cls0''] [] then Some (Constant [''b''] [], []) else None)"

definition mismatch_mvar :: expr where
  "mismatch_mvar = Meta [''i''] (Constant [''cls0''] [])"

definition mismatch_session :: "toy_mctx elaborator" where
  "mismatch_session =
     toy_session\<lparr>m_mctx := ([([''i''], Constant [''a''] [])], 0),
                 m_instances := PCons 1 mismatch_mvar PNil, next_cell := 2\<rparr>"

definition mismatch_error :: exn where
  "mismatch_error =
     Elaborator_exception mismatch_mvar
       (FCompose
                 (FCompose
                   (FCompose
                     (FCompose
                       (FText ''synthesized type class instance is not definitionally equal to expression inferred by typing rules, synthesized'')
                       (pp_indent (Constant [''b''] [])))
                     FLine)
                   (FText ''inferred''))
                 (pp_indent (Constant [''a''] [])))"

text \<open>
  An environment with the inductive type \<open>prod\<close>, whose only constructor \<open>prod.mk\<close> takes
  two implicit and two explicit arguments, and with \<open>bool\<close>, which has two constructors.
\<close>

definition prod_env :: environment where
  "prod_env =
     \<lparr>env_get_type =
        (\<lambda>n. if n = [''prod'', ''mk''] then
                Some (Pi [''A''] (Sort (LSucc LZero))
                       (Pi [''B''] (Sort (LSucc LZero))
                          (Pi [''a''] (Var 1)
                             (Pi [''b''] (Var 1)
                                (App (App (Constant [''prod''] []) (Var 3)) (Var 2)) BExplicit)
                             BExplicit)
                          BImplicit)
                       BImplicit)
              else None),
      env_is_private = (\<lambda>n. False),
      env_is_inductive_decl = (\<lambda>n. n = [''prod''] \<or> n = [''bool'']),
      env_get_intro_rule_names =
        (\<lambda>n. if n = [''prod''] then [[''prod'', ''mk'']]
              else if n = [''bool''] then [[''bool'', ''ff''], [''bool'', ''tt'']]
              else []),
      env_elab_strategy = (\<lambda>n. None),
      env_is_elim_rule = (\<lambda>n. False),
      env_is_aux_recursor = (\<lambda>n. False),
      env_is_user_defined_recursor = (\<lambda>n. False)\<rparr>"

definition prod_nat_nat :: expr where
  "prod_nat_nat = App (App (Constant [''prod''] []) nat_type) nat_type"

definition anonymous_pair :: expr where
  "anonymous_pair =
     mk_anonymous_constructor (App (App (Constant [''_''] []) nat_zero) nat_zero)"

definition visit_id :: "expr \<Rightarrow> expr option \<Rightarrow> (toy_mctx, expr) elab" where
  "visit_id e expected_type = ret e"

text \<open>
  An eliminator \<open>R : \<Pi> {C : T \<rightarrow> Type} (n : T) (h : C n), C n\<close>, whose motive is its first
  argument and whose second argument is the one the motive is computed from, applied to
  \<open>z\<close> and \<open>hz\<close> against the expected type \<open>P z\<close>.
\<close>

definition elim_types :: "name \<Rightarrow> expr" where
  "elim_types n =
     (if n = [''R''] then
        Pi [''C''] (Pi [''x''] (Constant [''T''] []) (Sort (LSucc LZero)) BExplicit)
          (Pi [''n''] (Constant [''T''] [])
             (Pi [''h''] (App (Var 1) (Var 0)) (App (Var 2) (Var 1)) BExplicit)
             BExplicit)
          BImplicit
      else Constant [''T''] [])"

definition elim_call_R :: "expr list \<Rightarrow> toy_mctx elim_call" where
  "elim_call_R args =
     \<lparr>ec_visit = (\<lambda>e expected_type. ret e),
      ec_synthesize = ret (),
      ec_fn = Constant [''R''] [],
      ec_info = \<lparr>m_arity = 3, m_nexplicit = 2, m_motive_idx = 0, m_idxs = [1]\<rparr>,
      ec_args = args,
      ec_ref = Constant [''R''] []\<rparr>"

definition P_z :: expr where
  "P_z = App (Constant [''P''] []) (Constant [''z''] [])"

definition P_mvar :: expr where
  "P_mvar = App (Constant [''P''] []) (Meta [''q''] (Constant [''T''] []))"

definition z_hz :: "expr list" where
  "z_hz = [Constant [''z''] [], Constant [''hz''] []]"

definition q_hz :: "expr list" where
  "q_hz = [Meta [''q''] (Constant [''T''] []), Constant [''hz''] []]"

definition motive_P :: expr where
  "motive_P = Lambda [''_x''] (Constant [''T''] []) (App (Constant [''P''] []) (Var 0)) BExplicit"

definition R_z_hz :: expr where
  "R_z_hz = App (App (App (Constant [''R''] []) motive_P) (Constant [''z''] [])) (Constant [''hz''] [])"

definition R_session :: "toy_mctx elaborator" where
  "R_session =
     toy_session\<lparr>m_mctx := ([([''m'', ''i''], Constant [''hz''] []), ([''m'', []], motive_P)], 2)\<rparr>"

section \<open>Concrete applications\<close>

text \<open>
  A session in which every field that a snapshot saves holds something, and a first pass
  that overwrites all of them, marks the session as having errors and then throws \<open>ex1\<close>.
  The simple elaborator of \<open>pass_methods\<close> is given as a function of the state it is run
  from: \<open>simple_counts\<close> fails with an error that tells how many entries the info data has,
  \<open>simple_accepts\<close> returns a term, \<open>simple_overflows\<close> fails with an exception that is no
  \<open>elaborator_exception\<close>.
\<close>

definition busy_session :: "toy_mctx elaborator" where
  "busy_session =
     toy_session\<lparr>m_mctx := ([([''x0''], nat_type)], 3), m_info := [some_term],
                 m_instances := PCons 1 (Meta [''i''] nat_type) PNil,
                 m_numeral_types := [nat_type], m_tactics := [(some_term, nat_zero)],
                 m_inaccessible_stack := [(nat_zero, some_term)], next_cell := 2\<rparr>"

definition scribble :: "expr \<Rightarrow> toy_mctx elaborator \<Rightarrow> toy_mctx elaborator" where
  "scribble fn st =
     st\<lparr>m_mctx := (([''x''], nat_zero) # fst (m_mctx st), Suc (snd (m_mctx st))),
        m_info := fn # m_info st, m_instances := PNil, m_numeral_types := [], m_tactics := [],
        m_inaccessible_stack := [], m_has_errors := True\<rparr>"

definition pass_methods :: "exn \<Rightarrow> (toy_mctx elaborator \<Rightarrow> exn + expr) \<Rightarrow> toy_mctx app_methods" where
  "pass_methods ex1 simple =
     \<lparr>am_visit = (\<lambda>e t. ret e),
      am_visit_function = (\<lambda>fn has_args ref. ret fn),
      am_first_pass = (\<lambda>fn args et ref st. (Inl ex1, scribble fn st)),
      am_second_pass = (\<lambda>fn args ref info. ret (mk_app fn args)),
      am_visit_base_app_simple = (\<lambda>fn amask args vis et ref st. (simple st, st))\<rparr>"

definition simple_counts :: "toy_mctx elaborator \<Rightarrow> exn + expr" where
  "simple_counts st = Inl (Elaborator_exception some_term (FNum (length (m_info st))))"

definition simple_accepts :: "toy_mctx elaborator \<Rightarrow> exn + expr" where
  "simple_accepts st = Inr (Constant [''ok''] [])"

definition simple_overflows :: "toy_mctx elaborator \<Rightarrow> exn + expr" where
  "simple_overflows st = Inl (Exception ''deep recursion'')"

definition fn_f :: expr where
  "fn_f = Constant [''f''] []"

definition first_pass_error :: exn where
  "first_pass_error = Elaborator_exception some_term (FText ''first pass'')"

text \<open>
  Two overloads of a numeral: \<open>nat.zero : nat\<close> and \<open>int.zero : int\<close>, in a checker without
  instances, so that nothing coerces \<open>int\<close> to \<open>nat\<close>. Visiting the head of a candidate
  leaves its mark on the metavariable context, the info data, the numeral types, the
  tactics and the inaccessible stack; the simple elaborator builds the application. The
  session has one pending instance whose class is still a metavariable, so it is not
  ready; a head named \<open>bad_alloc\<close> fails with an exception of the standard library.
\<close>

definition int_type :: expr where
  "int_type = Constant [''int''] []"


definition bad_alloc :: expr where
  "bad_alloc = Constant [''bad_alloc''] []"

definition zero_types :: "name \<Rightarrow> expr" where
  "zero_types n =
     (if n = [''nat'', ''zero''] then nat_type
      else if n = [''int'', ''zero''] then int_type
      else Sort (LSucc LZero))"

definition no_info :: first_pass_info where
  "no_info =
     \<lparr>fpi_args_mvars = [], fpi_args_expected_types = [], fpi_new_args = [], fpi_new_args_size = [],
      fpi_new_instances = [], fpi_new_instances_size = [], fpi_eta_args = []\<rparr>"

definition note_head :: "expr \<Rightarrow> toy_mctx elaborator \<Rightarrow> toy_mctx elaborator" where
  "note_head fn st =
     st\<lparr>m_mctx := (fst (m_mctx st), Suc (snd (m_mctx st))), m_info := fn # m_info st,
        m_numeral_types := [], m_tactics := (fn, fn) # m_tactics st,
        m_inaccessible_stack := []\<rparr>"

definition overload_methods :: "toy_mctx app_methods" where
  "overload_methods =
     \<lparr>am_visit = (\<lambda>e t. ret e),
      am_visit_function =
        (\<lambda>fn has_args ref st.
           if fn = bad_alloc then (Inl (Std_exception ''std::bad_alloc''), note_head fn st)
           else (Inr fn, note_head fn st)),
      am_first_pass =
        (\<lambda>fn args et ref st.
           if toy_infer zero_types fn = Inr et then (Inr no_info, st)
           else (Inl (Elaborator_exception ref (FText ''first pass'')), st)),
      am_second_pass = (\<lambda>fn args ref info. ret (mk_app fn args)),
      am_visit_base_app_simple = (\<lambda>fn amask args vis et ref. ret (mk_app fn args))\<rparr>"

definition zero_ctx :: "toy_mctx type_context" where
  "zero_ctx = toy_ctx zero_types no_instances"













section \<open>Facts about snapshots and messages\<close>

lemma restore_snapshot_of: "snapshot_of (restore S st) = S"
  by (simp add: snapshot_of_def restore_def)

lemma restore_recover: "m_recover_from_errors (restore S st) = m_recover_from_errors st"
  by (simp add: restore_def)

lemma fmt_contains_refl: "fmt_contains f f"
  by (cases f) simp_all







lemma overload_candidates_Cons:
  "overload_candidates trial ref (fn # fns) candidates error_msgs st =
     (case trial fn st of
        (Inr c, st1) \<Rightarrow>
          overload_candidates trial ref fns (candidates @ [(c, snapshot_of st1)]) error_msgs st1
      | (Inl ex, st1) \<Rightarrow>
          if is_lean_exception ex then
            overload_candidates trial ref fns candidates (error_msgs @ [as_error_msg ref ex]) st1
          else (Inl ex, st1))"
  by simp









lemma visit_overloaded_app_core_args:
  assumes args: "visit_all (am_visit am) args st0 = (Inl ex, st)"
  shows "visit_overloaded_app_core tc env am fns args expected_type ref st0 = (Inl ex, st)"
  unfolding visit_overloaded_app_core_def
    bnd_Inl [where m = "visit_all (am_visit am) args" and st = st0, OF args] ..

section \<open>Properties of the hint registry\<close>

lemma queue_insert_mem: "(h, p) \<in> set (queue_insert h p q)"
  by (induction q) auto

lemma quick_cmp_pos: "(quick_cmp a b > 0) = (b < a)"
  by (auto simp: quick_cmp_def)

lemma app_fn_arg_shape:
  "Option.bind (app_fn e) app_arg = Some p \<Longrightarrow> app_arg e = Some c \<Longrightarrow> \<exists>f. e = App (App f p) c"
  by (cases e; cases "the (app_fn e)") (auto split: Option.bind_splits)

lemma register_hint_stores:
  assumes reg: "register_hint tc c0 s decl_name val priority = Inr s'"
  shows "\<exists>f g lhs rhs e_constraints tmp_mvars num_vars c1 n_lhs n_rhs constraints e_rest c2.
           hint_binders tc val [] 0 c0 =
             (App (App f (App (App g lhs) rhs)) e_constraints, tmp_mvars, num_vars, c1) \<and>
           const_name (get_app_fn lhs) = Some n_lhs \<and>
           const_name (get_app_fn rhs) = Some n_rhs \<and>
           hint_constraints tc tmp_mvars e_constraints [] 1 c1 = Inr (constraints, e_rest, c2) \<and>
           m_hints s' =
             (m_hints s)((min n_lhs n_rhs, max n_lhs n_rhs) \<mapsto>
                queue_insert
                  \<lparr>m_lhs = (if n_rhs < n_lhs then rhs else lhs),
                     m_rhs = (if n_rhs < n_lhs then lhs else rhs),
                     m_constraints = constraints, m_num_vars = num_vars\<rparr>
                  priority
                  (case m_hints s (min n_lhs n_rhs, max n_lhs n_rhs) of Some q \<Rightarrow> q | None \<Rightarrow> []))"
proof -
  obtain e_hint tmp_mvars num_vars c1 where
    hb: "hint_binders tc val [] 0 c0 = (e_hint, tmp_mvars, num_vars, c1)"
    by (cases "hint_binders tc val [] 0 c0") auto
  from reg hb obtain e_pattern e_constraints where
    p: "Option.bind (app_fn e_hint) app_arg = Some e_pattern" "app_arg e_hint = Some e_constraints"
    by (auto simp: register_hint_def Let_def split: if_splits option.splits)
  from reg hb p obtain lhs rhs where
    q: "Option.bind (app_fn e_pattern) app_arg = Some lhs" "app_arg e_pattern = Some rhs"
    by (auto simp: register_hint_def Let_def split: if_splits option.splits)
  from reg hb p q obtain n_lhs n_rhs where
    n: "const_name (get_app_fn lhs) = Some n_lhs" "const_name (get_app_fn rhs) = Some n_rhs"
    by (auto simp: register_hint_def Let_def split: if_splits option.splits)
  from reg hb p q n obtain constraints e_rest c2 where
    hc: "hint_constraints tc tmp_mvars e_constraints [] 1 c1 = Inr (constraints, e_rest, c2)"
    by (auto simp: register_hint_def Let_def split: if_splits option.splits sum.splits)
  from app_fn_arg_shape [OF p] obtain f where e: "e_hint = App (App f e_pattern) e_constraints" ..
  from app_fn_arg_shape [OF q] obtain g where pat: "e_pattern = App (App g lhs) rhs" ..
  have upd: "m_hints s' =
             (m_hints s)((min n_lhs n_rhs, max n_lhs n_rhs) \<mapsto>
                queue_insert
                  \<lparr>m_lhs = (if n_rhs < n_lhs then rhs else lhs),
                     m_rhs = (if n_rhs < n_lhs then lhs else rhs),
                     m_constraints = constraints, m_num_vars = num_vars\<rparr>
                  priority
                  (case m_hints s (min n_lhs n_rhs, max n_lhs n_rhs) of Some q \<Rightarrow> q | None \<Rightarrow> []))"
    using reg hb p q n hc
    by (cases "n_rhs < n_lhs")
       (auto simp: register_hint_def Let_def quick_cmp_pos min_def max_def split: if_splits)
  show ?thesis
    using hb [unfolded e pat] n hc upd by blast
qed

lemma get_unification_hints_key:
  "get_unification_hints hints n1 n2 uhints =
     (case hints (min n1 n2, max n1 n2) of Some q \<Rightarrow> to_buffer q uhints | None \<Rightarrow> uhints)"
  by (cases "n2 < n1") (auto simp: get_unification_hints_def quick_cmp_pos min_def max_def)

text \<open>
  C3. A successful \<open>register_hint\<close> of the declaration value \<open>val\<close> stores a hint built from
  the two sides \<open>lhs\<close> and \<open>rhs\<close> of the pattern of \<open>val\<close> (what is left of \<open>val\<close> under its
  binders is \<open>unification_hint.mk (_ lhs rhs) constraints\<close>), with its constraints and its
  number of binders, under the pair of the head constant names of \<open>lhs\<close> and \<open>rhs\<close> with
  the lexicographically smaller name first, the two sides being swapped with the names;
  the queue under this key receives the hint with the given priority and every other key
  is left as it was. \<open>get_unification_hints\<close> looks the pair \<open>(n1, n2)\<close> up under the same
  ordering, so the hints returned for \<open>(n1, n2)\<close> and for \<open>(n2, n1)\<close> are equal.
\<close>

theorem hint_registry_keying:
  "(register_hint tc c0 s decl_name val priority = Inr s' \<longrightarrow>
      (\<exists>f g lhs rhs e_constraints tmp_mvars num_vars c1 n_lhs n_rhs constraints e_rest c2 q.
          hint_binders tc val [] 0 c0 =
            (App (App f (App (App g lhs) rhs)) e_constraints, tmp_mvars, num_vars, c1) \<and>
          const_name (get_app_fn lhs) = Some n_lhs \<and>
          const_name (get_app_fn rhs) = Some n_rhs \<and>
          hint_constraints tc tmp_mvars e_constraints [] 1 c1 = Inr (constraints, e_rest, c2) \<and>
          q = queue_insert
                \<lparr>m_lhs = (if n_rhs < n_lhs then rhs else lhs),
                   m_rhs = (if n_rhs < n_lhs then lhs else rhs),
                   m_constraints = constraints, m_num_vars = num_vars\<rparr>
                priority
                (case m_hints s (min n_lhs n_rhs, max n_lhs n_rhs) of Some q' \<Rightarrow> q' | None \<Rightarrow> []) \<and>
          m_hints s' = (m_hints s)((min n_lhs n_rhs, max n_lhs n_rhs) \<mapsto> q) \<and>
          (\<lparr>m_lhs = (if n_rhs < n_lhs then rhs else lhs),
             m_rhs = (if n_rhs < n_lhs then lhs else rhs),
             m_constraints = constraints, m_num_vars = num_vars\<rparr>, priority) \<in> set q))
   \<and> get_unification_hints hints a b uhints =
       (case hints (min a b, max a b) of Some q \<Rightarrow> to_buffer q uhints | None \<Rightarrow> uhints)
   \<and> get_unification_hints hints a b uhints = get_unification_hints hints b a uhints"
proof (intro conjI impI)
  assume reg: "register_hint tc c0 s decl_name val priority = Inr s'"
  from register_hint_stores [OF reg]
  obtain f g lhs rhs e_constraints tmp_mvars num_vars c1 n_lhs n_rhs constraints e_rest c2 where
    hb: "hint_binders tc val [] 0 c0 =
           (App (App f (App (App g lhs) rhs)) e_constraints, tmp_mvars, num_vars, c1)"
    and heads: "const_name (get_app_fn lhs) = Some n_lhs" "const_name (get_app_fn rhs) = Some n_rhs"
    and hc: "hint_constraints tc tmp_mvars e_constraints [] 1 c1 = Inr (constraints, e_rest, c2)"
    and upd: "m_hints s' =
             (m_hints s)((min n_lhs n_rhs, max n_lhs n_rhs) \<mapsto>
                queue_insert
                  \<lparr>m_lhs = (if n_rhs < n_lhs then rhs else lhs),
                     m_rhs = (if n_rhs < n_lhs then lhs else rhs),
                     m_constraints = constraints, m_num_vars = num_vars\<rparr>
                  priority
                  (case m_hints s (min n_lhs n_rhs, max n_lhs n_rhs) of Some q \<Rightarrow> q | None \<Rightarrow> []))"
    by (elim exE conjE)
  show "\<exists>f g lhs rhs e_constraints tmp_mvars num_vars c1 n_lhs n_rhs constraints e_rest c2 q.
          hint_binders tc val [] 0 c0 =
            (App (App f (App (App g lhs) rhs)) e_constraints, tmp_mvars, num_vars, c1) \<and>
          const_name (get_app_fn lhs) = Some n_lhs \<and>
          const_name (get_app_fn rhs) = Some n_rhs \<and>
          hint_constraints tc tmp_mvars e_constraints [] 1 c1 = Inr (constraints, e_rest, c2) \<and>
          q = queue_insert
                \<lparr>m_lhs = (if n_rhs < n_lhs then rhs else lhs),
                   m_rhs = (if n_rhs < n_lhs then lhs else rhs),
                   m_constraints = constraints, m_num_vars = num_vars\<rparr>
                priority
                (case m_hints s (min n_lhs n_rhs, max n_lhs n_rhs) of Some q' \<Rightarrow> q' | None \<Rightarrow> []) \<and>
          m_hints s' = (m_hints s)((min n_lhs n_rhs, max n_lhs n_rhs) \<mapsto> q) \<and>
          (\<lparr>m_lhs = (if n_rhs < n_lhs then rhs else lhs),
             m_rhs = (if n_rhs < n_lhs then lhs else rhs),
             m_constraints = constraints, m_num_vars = num_vars\<rparr>, priority) \<in> set q"
    apply (intro exI conjI)
          apply (rule hb)
         apply (rule heads(1))
        apply (rule heads(2))
       apply (rule hc)
      apply (rule refl)
     apply (rule upd)
    apply (rule queue_insert_mem)
    done
next
  show "get_unification_hints hints a b uhints =
       (case hints (min a b, max a b) of Some q \<Rightarrow> to_buffer q uhints | None \<Rightarrow> uhints)"
    by (rule get_unification_hints_key)
next
  show "get_unification_hints hints a b uhints = get_unification_hints hints b a uhints"
    by (cases "a < b"; cases "b < a"; cases "a = b")
       (auto simp: get_unification_hints_def quick_cmp_pos)
qed

lemma register_succ_add_hint:
  "register_hint accepting_tmp_ctx () empty_hint_state [''succ_add''] succ_add_hint 1000 =
     Inr \<lparr>m_hints = Map.empty(([''nat'', ''add''], [''nat'', ''succ'']) \<mapsto>
            [(\<lparr>m_lhs = App (App (Constant [''nat'', ''add''] []) (Var 0)) (Constant [''nat'', ''one''] []),
               m_rhs = App (Constant [''nat'', ''succ''] []) (Var 0),
               m_constraints = [], m_num_vars = 1\<rparr>, 1000)]),
          m_decl_names_to_prio = Map.empty([''succ_add''] \<mapsto> 1000)\<rparr>"
  by (simp add: register_hint_def accepting_tmp_ctx_def succ_add_hint_def empty_hint_state_def
      is_app_of_def get_app_num_args_def quick_cmp_def)

lemma succ_add_hint_binders:
  "hint_binders accepting_tmp_ctx succ_add_hint [] 0 () =
     (App (App (Constant [''unification_hint'', ''mk''] [])
          (App (App (App (Constant [''unification_constraint'', ''mk''] []) (Constant [''nat''] []))
              (App (Constant [''nat'', ''succ''] []) (Var 0)))
              (App (App (Constant [''nat'', ''add''] []) (Var 0)) (Constant [''nat'', ''one''] []))))
          (App (Constant [''list'', ''nil''] []) (Constant [''unification_constraint''] [])),
      [Meta [''m''] (Constant [''nat''] [])], 1, ())"
  by (simp add: succ_add_hint_def accepting_tmp_ctx_def)


theorem hint_registry_keying_witness:
  "\<exists>s'. register_hint accepting_tmp_ctx () empty_hint_state [''succ_add''] succ_add_hint 1000 = Inr s'
     \<and> m_hints s' ([''nat'', ''add''], [''nat'', ''succ'']) =
         Some [(\<lparr>m_lhs = App (App (Constant [''nat'', ''add''] []) (Var 0)) (Constant [''nat'', ''one''] []),
                  m_rhs = App (Constant [''nat'', ''succ''] []) (Var 0),
                  m_constraints = [], m_num_vars = 1\<rparr>, 1000)]
     \<and> m_hints s' ([''nat'', ''succ''], [''nat'', ''add'']) = None
     \<and> get_unification_hints (m_hints s') [''nat'', ''succ''] [''nat'', ''add''] [] =
         get_unification_hints (m_hints s') [''nat'', ''add''] [''nat'', ''succ''] []"
proof -
  let ?s = "\<lparr>m_hints = Map.empty(([''nat'', ''add''], [''nat'', ''succ'']) \<mapsto>
            [(\<lparr>m_lhs = App (App (Constant [''nat'', ''add''] []) (Var 0)) (Constant [''nat'', ''one''] []),
               m_rhs = App (Constant [''nat'', ''succ''] []) (Var 0),
               m_constraints = [], m_num_vars = 1\<rparr>, 1000)]),
          m_decl_names_to_prio = Map.empty([''succ_add''] \<mapsto> 1000)\<rparr>"
  note inst = hint_registry_keying [of accepting_tmp_ctx "()" empty_hint_state "[''succ_add'']"
      succ_add_hint 1000 ?s "m_hints ?s" "[''nat'', ''succ'']" "[''nat'', ''add'']" "[]"]
  from inst [THEN conjunct1, rule_format, OF register_succ_add_hint]
  obtain f g lhs rhs e_constraints tmp_mvars num_vars c1 n_lhs n_rhs constraints e_rest c2 q where
    hb: "hint_binders accepting_tmp_ctx succ_add_hint [] 0 () =
           (App (App f (App (App g lhs) rhs)) e_constraints, tmp_mvars, num_vars, c1)"
    and heads: "const_name (get_app_fn lhs) = Some n_lhs" "const_name (get_app_fn rhs) = Some n_rhs"
    and hc: "hint_constraints accepting_tmp_ctx tmp_mvars e_constraints [] 1 c1 =
               Inr (constraints, e_rest, c2)"
    and q: "q = queue_insert
                \<lparr>m_lhs = (if n_rhs < n_lhs then rhs else lhs),
                   m_rhs = (if n_rhs < n_lhs then lhs else rhs),
                   m_constraints = constraints, m_num_vars = num_vars\<rparr>
                1000
                (case m_hints empty_hint_state (min n_lhs n_rhs, max n_lhs n_rhs) of
                   Some q' \<Rightarrow> q' | None \<Rightarrow> [])"
    and upd: "m_hints ?s = (m_hints empty_hint_state)((min n_lhs n_rhs, max n_lhs n_rhs) \<mapsto> q)"
    by (elim exE conjE)
  from hb have shape:
    "lhs = App (Constant [''nat'', ''succ''] []) (Var 0)"
    "rhs = App (App (Constant [''nat'', ''add''] []) (Var 0)) (Constant [''nat'', ''one''] [])"
    "e_constraints = App (Constant [''list'', ''nil''] []) (Constant [''unification_constraint''] [])"
    "num_vars = 1"
    unfolding succ_add_hint_binders by simp_all
  from heads have names: "n_lhs = [''nat'', ''succ'']" "n_rhs = [''nat'', ''add'']"
    unfolding shape by simp_all
  from hc have cs: "constraints = []"
    unfolding shape by (simp add: is_app_of_def get_app_num_args_def)
  have lt: "[''nat'', ''add''] < [''nat'', ''succ'']"
    by simp
  have key: "(min n_lhs n_rhs, max n_lhs n_rhs) = ([''nat'', ''add''], [''nat'', ''succ''])"
    unfolding names using lt by (simp add: min_def max_def)
  have stored: "m_hints ?s ([''nat'', ''add''], [''nat'', ''succ'']) =
         Some [(\<lparr>m_lhs = App (App (Constant [''nat'', ''add''] []) (Var 0)) (Constant [''nat'', ''one''] []),
                  m_rhs = App (Constant [''nat'', ''succ''] []) (Var 0),
                  m_constraints = [], m_num_vars = 1\<rparr>, 1000)]"
    by (subst upd, unfold key q, unfold key names shape cs)
       (simp add: empty_hint_state_def)
  have other: "m_hints ?s ([''nat'', ''succ''], [''nat'', ''add'']) = None"
    by (subst upd, unfold key) (simp add: empty_hint_state_def)
  from inst have sym: "get_unification_hints (m_hints ?s) [''nat'', ''succ''] [''nat'', ''add''] [] =
         get_unification_hints (m_hints ?s) [''nat'', ''add''] [''nat'', ''succ''] []"
    by (rule conjunct2 [THEN conjunct2])
  show ?thesis
    using register_succ_add_hint stored other sym by (intro exI [of _ ?s] conjI)
qed

section \<open>Properties of coercion insertion\<close>

text \<open>
  C2. Whenever the definitional-equality test of the inferred type against the expected
  type succeeds, \<open>ensure_has_type\<close> returns the term itself, and the state is the one the
  test left: no coercion is looked for and none is wrapped around the term. With
  \<open>e_type = type = T\<close> this is \<open>ensure_has_type(e, T, T)\<close>.
\<close>

theorem ensure_has_type_identity:
  "fst (is_def_eq tc e_type type st) = Inr True \<Longrightarrow>
     ensure_has_type tc e e_type type ref st = (Inr (Some e), snd (is_def_eq tc e_type type st))"
  by (cases "is_def_eq tc e_type type st") (simp add: ensure_has_type_def bnd_def ret_def)

lemma toy_is_def_eq_nat:
  "is_def_eq (toy_ctx no_types no_instances) nat_type nat_type toy_session = (Inr True, toy_session)"
  by (simp add: is_def_eq_def toy_ctx_def toy_is_def_eq_def nat_type_def toy_session_def)

theorem ensure_has_type_identity_witness:
  "fst (is_def_eq (toy_ctx no_types no_instances) nat_type nat_type toy_session) = Inr True \<and>
   ensure_has_type (toy_ctx no_types no_instances) nat_zero nat_type nat_type nat_zero toy_session =
     (Inr (Some nat_zero), toy_session)"
  using ensure_has_type_identity [of "toy_ctx no_types no_instances" nat_type nat_type toy_session
      nat_zero nat_zero] toy_is_def_eq_nat
  by simp

lemma mk_coercion_dispatch:
  assumes "m_coercions st"
    and "has_expr_metavar (tc_instantiate_mvars tc (m_mctx st) e_type) \<noteq>
         has_expr_metavar (tc_instantiate_mvars tc (m_mctx st) type)"
  shows "mk_coercion tc e e_type type ref st =
         try_monad_coercion tc e (tc_instantiate_mvars tc (m_mctx st) e_type)
            (tc_instantiate_mvars tc (m_mctx st) type) ref st"
proof -
  have id: "\<And>m. bnd m (\<lambda>r. case r of Some c \<Rightarrow> ret (Some c) | None \<Rightarrow> ret None) = (m :: ('a, expr option) elab)"
    by (rule ext) (auto simp: bnd_def ret_def split: prod.splits sum.splits option.splits)
  show ?thesis using assms
    by (auto simp: mk_coercion_def bnd_instantiate_mvars id)
qed

lemma try_monad_coercion_shape:
  "\<not> monad_coercion_shape e_type type \<Longrightarrow> try_monad_coercion tc e e_type type ref st = (Inr None, st)"
  by (auto simp: try_monad_coercion_def monad_coercion_shape_def ret_def split: expr.splits)

lemma try_monad_coercion_not_monad1:
  assumes "has_expr_metavar (App e_fn e_arg) \<noteq> has_expr_metavar (App t_fn t_arg)"
    and "monad_coercion_shape (App e_fn e_arg) (App t_fn t_arg)"
    and "is_monad tc e_fn st = (Inr False, st1)"
  shows "try_monad_coercion tc e (App e_fn e_arg) (App t_fn t_arg) ref st = (Inr None, st1)"
  using assms by (auto simp: try_monad_coercion_def monad_coercion_shape_def ret_def bnd_def)

lemma try_monad_coercion_not_monad2:
  assumes "has_expr_metavar (App e_fn e_arg) \<noteq> has_expr_metavar (App t_fn t_arg)"
    and "monad_coercion_shape (App e_fn e_arg) (App t_fn t_arg)"
    and "is_monad tc e_fn st = (Inr True, st1)"
    and "is_monad tc t_fn st1 = (Inr False, st2)"
  shows "try_monad_coercion tc e (App e_fn e_arg) (App t_fn t_arg) ref st = (Inr None, st2)"
  using assms by (auto simp: try_monad_coercion_def monad_coercion_shape_def ret_def bnd_def)

lemma try_monad_coercion_applies:
  assumes "\<not> has_expr_metavar (App e_fn e_arg)" "has_expr_metavar (App t_fn t_arg)"
    and "monad_coercion_shape (App e_fn e_arg) (App t_fn t_arg)"
    and "is_monad tc e_fn st = (Inr True, st1)" "is_monad tc t_fn st1 = (Inr True, st2)"
  shows "try_monad_coercion tc e (App e_fn e_arg) (App t_fn t_arg) ref st =
    (case ctx_is_def_eq tc e_arg t_arg st2 of
       (Inr True, st3) \<Rightarrow>
          mk_coercion_core tc e (App e_fn e_arg)
            (tc_instantiate_mvars tc (m_mctx st3) (App t_fn t_arg)) ref st3
     | (Inr False, st3) \<Rightarrow> (Inr None, st3)
     | (Inl ex, st3) \<Rightarrow> (Inl ex, st3))"
  using assms
  by (auto simp: try_monad_coercion_def monad_coercion_shape_def ret_def bnd_def
      instantiate_mvars_def split: prod.splits sum.splits)

text \<open>
  C5, as the code has it. Let coercions be enabled and exactly one of the instantiated
  inferred and expected types contain metavariables. Then \<open>mk_coercion\<close> gives no coercion
  and leaves the state alone unless both types are applications whose function parts
  contain no metavariable and one of the two arguments is itself a metavariable
  (\<open>monad_coercion_shape\<close>); it gives none either when one of the two function parts fails
  the monad instance test. When both pass and the metavariables are on the expected
  side, the two arguments are unified by the checker first; if that fails there is no
  coercion, and otherwise \<open>mk_coercion_core\<close> is retried on the inferred type and the
  expected type instantiated again.
\<close>

theorem monad_coercion_heuristic:
  "m_coercions st \<and>
   e_type = tc_instantiate_mvars tc (m_mctx st) e_type0 \<and>
   type = tc_instantiate_mvars tc (m_mctx st) type0 \<and>
   has_expr_metavar e_type \<noteq> has_expr_metavar type \<longrightarrow>
     (\<not> monad_coercion_shape e_type type \<longrightarrow>
        mk_coercion tc e e_type0 type0 ref st = (Inr None, st))
   \<and> (\<forall>e_fn e_arg t_fn t_arg st1 st2.
        e_type = App e_fn e_arg \<and> type = App t_fn t_arg \<and> monad_coercion_shape e_type type \<longrightarrow>
          (is_monad tc e_fn st = (Inr False, st1) \<longrightarrow>
             mk_coercion tc e e_type0 type0 ref st = (Inr None, st1))
        \<and> (is_monad tc e_fn st = (Inr True, st1) \<and> is_monad tc t_fn st1 = (Inr False, st2) \<longrightarrow>
             mk_coercion tc e e_type0 type0 ref st = (Inr None, st2))
        \<and> (is_monad tc e_fn st = (Inr True, st1) \<and> is_monad tc t_fn st1 = (Inr True, st2) \<and>
           \<not> has_expr_metavar e_type \<longrightarrow>
             mk_coercion tc e e_type0 type0 ref st =
               (case ctx_is_def_eq tc e_arg t_arg st2 of
                  (Inr True, st3) \<Rightarrow>
                     mk_coercion_core tc e e_type (tc_instantiate_mvars tc (m_mctx st3) type) ref st3
                | (Inr False, st3) \<Rightarrow> (Inr None, st3)
                | (Inl ex, st3) \<Rightarrow> (Inl ex, st3))))"
proof (intro impI, elim conjE)
  assume on: "m_coercions st"
    and et: "e_type = tc_instantiate_mvars tc (m_mctx st) e_type0"
    and ty: "type = tc_instantiate_mvars tc (m_mctx st) type0"
    and one: "has_expr_metavar e_type \<noteq> has_expr_metavar type"
  have disp: "mk_coercion tc e e_type0 type0 ref st = try_monad_coercion tc e e_type type ref st"
    using mk_coercion_dispatch [of st tc e_type0 type0 e ref] on one by (simp add: et ty)
  show "(\<not> monad_coercion_shape e_type type \<longrightarrow>
        mk_coercion tc e e_type0 type0 ref st = (Inr None, st))
   \<and> (\<forall>e_fn e_arg t_fn t_arg st1 st2.
        e_type = App e_fn e_arg \<and> type = App t_fn t_arg \<and> monad_coercion_shape e_type type \<longrightarrow>
          (is_monad tc e_fn st = (Inr False, st1) \<longrightarrow>
             mk_coercion tc e e_type0 type0 ref st = (Inr None, st1))
        \<and> (is_monad tc e_fn st = (Inr True, st1) \<and> is_monad tc t_fn st1 = (Inr False, st2) \<longrightarrow>
             mk_coercion tc e e_type0 type0 ref st = (Inr None, st2))
        \<and> (is_monad tc e_fn st = (Inr True, st1) \<and> is_monad tc t_fn st1 = (Inr True, st2) \<and>
           \<not> has_expr_metavar e_type \<longrightarrow>
             mk_coercion tc e e_type0 type0 ref st =
               (case ctx_is_def_eq tc e_arg t_arg st2 of
                  (Inr True, st3) \<Rightarrow>
                     mk_coercion_core tc e e_type (tc_instantiate_mvars tc (m_mctx st3) type) ref st3
                | (Inr False, st3) \<Rightarrow> (Inr None, st3)
                | (Inl ex, st3) \<Rightarrow> (Inl ex, st3))))"
  proof (intro conjI allI impI)
    assume "\<not> monad_coercion_shape e_type type"
    then show "mk_coercion tc e e_type0 type0 ref st = (Inr None, st)"
      by (simp add: disp try_monad_coercion_shape)
  next
    fix e_fn e_arg t_fn t_arg st1 st2
    assume sh: "e_type = App e_fn e_arg \<and> type = App t_fn t_arg \<and> monad_coercion_shape e_type type"
      and m: "is_monad tc e_fn st = (Inr False, st1)"
    from sh have e1: "e_type = App e_fn e_arg" and t1: "type = App t_fn t_arg" by simp_all
    have shp: "monad_coercion_shape (App e_fn e_arg) (App t_fn t_arg)"
      using sh unfolding e1 t1 by (elim conjE)
    have one': "has_expr_metavar (App e_fn e_arg) \<noteq> has_expr_metavar (App t_fn t_arg)"
      using one unfolding e1 t1 .
    show "mk_coercion tc e e_type0 type0 ref st = (Inr None, st1)"
      unfolding disp e1 t1 by (rule try_monad_coercion_not_monad1 [OF one' shp m])
  next
    fix e_fn e_arg t_fn t_arg st1 st2
    assume sh: "e_type = App e_fn e_arg \<and> type = App t_fn t_arg \<and> monad_coercion_shape e_type type"
      and m: "is_monad tc e_fn st = (Inr True, st1) \<and> is_monad tc t_fn st1 = (Inr False, st2)"
    from sh have e1: "e_type = App e_fn e_arg" and t1: "type = App t_fn t_arg" by simp_all
    have shp: "monad_coercion_shape (App e_fn e_arg) (App t_fn t_arg)"
      using sh unfolding e1 t1 by (elim conjE)
    have one': "has_expr_metavar (App e_fn e_arg) \<noteq> has_expr_metavar (App t_fn t_arg)"
      using one unfolding e1 t1 .
    from m have m1: "is_monad tc e_fn st = (Inr True, st1)" and m2: "is_monad tc t_fn st1 = (Inr False, st2)"
      by simp_all
    show "mk_coercion tc e e_type0 type0 ref st = (Inr None, st2)"
      unfolding disp e1 t1 by (rule try_monad_coercion_not_monad2 [OF one' shp m1 m2])
  next
    fix e_fn e_arg t_fn t_arg st1 st2
    assume sh: "e_type = App e_fn e_arg \<and> type = App t_fn t_arg \<and> monad_coercion_shape e_type type"
      and m: "is_monad tc e_fn st = (Inr True, st1) \<and> is_monad tc t_fn st1 = (Inr True, st2) \<and>
           \<not> has_expr_metavar e_type"
    from sh have e1: "e_type = App e_fn e_arg" and t1: "type = App t_fn t_arg" by simp_all
    have shp: "monad_coercion_shape (App e_fn e_arg) (App t_fn t_arg)"
      using sh unfolding e1 t1 by (elim conjE)
    from m have m1: "is_monad tc e_fn st = (Inr True, st1)" and m2: "is_monad tc t_fn st1 = (Inr True, st2)"
      and cl: "\<not> has_expr_metavar e_type"
      by simp_all
    from cl one have ht: "has_expr_metavar type" by simp
    have cl': "\<not> has_expr_metavar (App e_fn e_arg)" using cl unfolding e1 .
    have ht': "has_expr_metavar (App t_fn t_arg)" using ht unfolding t1 .
    show "mk_coercion tc e e_type0 type0 ref st =
               (case ctx_is_def_eq tc e_arg t_arg st2 of
                  (Inr True, st3) \<Rightarrow>
                     mk_coercion_core tc e e_type (tc_instantiate_mvars tc (m_mctx st3) type) ref st3
                | (Inr False, st3) \<Rightarrow> (Inr None, st3)
                | (Inl ex, st3) \<Rightarrow> (Inl ex, st3))"
      unfolding disp e1 t1 by (rule try_monad_coercion_applies [OF cl' ht' shp m1 m2])
  qed
qed

text \<open>
  A run of the heuristic: \<open>tactic name\<close> is coerced to \<open>solver ?a\<close>; the argument \<open>?a\<close> is
  unified with \<open>name\<close> and the coercion to \<open>solver name\<close> is built.
\<close>

lemma toy_is_monad:
  "is_monad (toy_ctx no_types monad_instances) (Constant c []) toy_session = (Inr True, toy_session)"
  by (simp add: is_monad_def toy_ctx_def toy_session_def monad_instances_def)

lemma toy_mk_coercion_tactic_solver:
  "mk_coercion (toy_ctx no_types monad_instances) some_term tactic_name solver_of_mvar some_term toy_session =
   (Inr (Some (mk_app (Constant [''coe''] [LSucc LZero, LSucc LZero])
      [tactic_name, App (Constant [''solver''] []) (Constant [''name''] []),
       mk_app (Constant [''coe_to_lift''] [LSucc LZero, LSucc LZero])
         [tactic_name, App (Constant [''solver''] []) (Constant [''name''] []), Constant [''coe_inst''] []],
       some_term])),
    toy_session\<lparr>m_mctx := ([([''a''], Constant [''name''] [])], 0)\<rparr>)"
  by (simp add: mk_coercion_def toy_ctx_def toy_session_def tactic_name_def solver_of_mvar_def bnd_def
    instantiate_mvars_def try_monad_coercion_def ret_def is_monad_def monad_instances_def
    ctx_is_def_eq_def toy_is_def_eq_def mk_coercion_core_def mk_Prop_def find_has_coe_t_def
    get_level_def infer_type_def whnf_def toy_infer_def some_term_def)

theorem monad_coercion_heuristic_witness:
  "m_coercions toy_session \<and>
   has_expr_metavar tactic_name \<noteq> has_expr_metavar solver_of_mvar \<and>
   monad_coercion_shape tactic_name solver_of_mvar \<and>
   is_monad (toy_ctx no_types monad_instances) (Constant [''tactic''] []) toy_session = (Inr True, toy_session) \<and>
   is_monad (toy_ctx no_types monad_instances) (Constant [''solver''] []) toy_session = (Inr True, toy_session) \<and>
   mk_coercion (toy_ctx no_types monad_instances) some_term tactic_name solver_of_mvar some_term toy_session =
     (case ctx_is_def_eq (toy_ctx no_types monad_instances) (Constant [''name''] [])
             (Meta [''a''] (Sort (LSucc LZero))) toy_session of
        (Inr True, st3) \<Rightarrow>
           mk_coercion_core (toy_ctx no_types monad_instances) some_term tactic_name
             (tc_instantiate_mvars (toy_ctx no_types monad_instances) (m_mctx st3) solver_of_mvar)
             some_term st3
      | (Inr False, st3) \<Rightarrow> (Inr None, st3)
      | (Inl ex, st3) \<Rightarrow> (Inl ex, st3))"
proof -
  let ?tc = "toy_ctx no_types monad_instances"
  have inst: "tc_instantiate_mvars ?tc (m_mctx toy_session) tactic_name = tactic_name"
    "tc_instantiate_mvars ?tc (m_mctx toy_session) solver_of_mvar = solver_of_mvar"
    by (simp_all add: toy_ctx_def toy_session_def tactic_name_def solver_of_mvar_def)
  have on: "m_coercions toy_session" by (simp add: toy_session_def)
  have one: "has_expr_metavar tactic_name \<noteq> has_expr_metavar solver_of_mvar"
    by (simp add: tactic_name_def solver_of_mvar_def)
  have sh: "monad_coercion_shape tactic_name solver_of_mvar"
    by (simp add: monad_coercion_shape_def tactic_name_def solver_of_mvar_def)
  have closed: "\<not> has_expr_metavar tactic_name" by (simp add: tactic_name_def)
  have h1: "m_coercions toy_session \<and>
     tactic_name = tc_instantiate_mvars ?tc (m_mctx toy_session) tactic_name \<and>
     solver_of_mvar = tc_instantiate_mvars ?tc (m_mctx toy_session) solver_of_mvar \<and>
     has_expr_metavar tactic_name \<noteq> has_expr_metavar solver_of_mvar"
    using inst on one by simp
  have h2: "tactic_name = App (Constant [''tactic''] []) (Constant [''name''] []) \<and>
     solver_of_mvar = App (Constant [''solver''] []) (Meta [''a''] (Sort (LSucc LZero))) \<and>
     monad_coercion_shape tactic_name solver_of_mvar"
    using sh by (simp add: tactic_name_def solver_of_mvar_def)
  have h3: "is_monad ?tc (Constant [''tactic''] []) toy_session = (Inr True, toy_session) \<and>
     is_monad ?tc (Constant [''solver''] []) toy_session = (Inr True, toy_session) \<and>
     \<not> has_expr_metavar tactic_name"
    using toy_is_monad closed by simp
  note main = monad_coercion_heuristic [THEN mp, THEN conjunct2, rule_format,
      THEN conjunct2, THEN conjunct2, rule_format]
  have "mk_coercion ?tc some_term tactic_name solver_of_mvar some_term toy_session =
     (case ctx_is_def_eq ?tc (Constant [''name''] []) (Meta [''a''] (Sort (LSucc LZero))) toy_session of
        (Inr True, st3) \<Rightarrow>
           mk_coercion_core ?tc some_term tactic_name
             (tc_instantiate_mvars ?tc (m_mctx st3) solver_of_mvar) some_term st3
      | (Inr False, st3) \<Rightarrow> (Inr None, st3)
      | (Inl ex, st3) \<Rightarrow> (Inl ex, st3))"
    by (rule main [OF h1 h2 h3])
  then show ?thesis using on one sh toy_is_monad by simp
qed

text \<open>
  Where the claim as stated fails: the expected type \<open>?m ?a\<close> is an application of a
  metavariable. Exactly one side contains metavariables, both heads pass the monad test
  and the two arguments unify, yet \<open>mk_coercion\<close> gives no coercion and unifies nothing.
\<close>

theorem monad_coercion_metavariable_head:
  "m_coercions toy_session \<and>
   \<not> has_expr_metavar tactic_name \<and> has_expr_metavar mvar_of_mvar \<and>
   fst (is_monad (toy_ctx no_types monad_instances) (Constant [''tactic''] []) toy_session) = Inr True \<and>
   fst (is_monad (toy_ctx no_types monad_instances)
          (Meta [''m''] (Pi [''x''] (Sort (LSucc LZero)) (Sort (LSucc LZero)) BExplicit)) toy_session) = Inr True \<and>
   fst (ctx_is_def_eq (toy_ctx no_types monad_instances) (Constant [''name''] [])
          (Meta [''a''] (Sort (LSucc LZero))) toy_session) = Inr True \<and>
   mk_coercion (toy_ctx no_types monad_instances) some_term tactic_name mvar_of_mvar some_term toy_session =
     (Inr None, toy_session)"
  by (simp add: mk_coercion_def toy_ctx_def toy_session_def tactic_name_def mvar_of_mvar_def bnd_def
      instantiate_mvars_def try_monad_coercion_def ret_def is_monad_def monad_instances_def
      ctx_is_def_eq_def toy_is_def_eq_def)

section \<open>Properties of the instance worklist\<close>

lemma ready_args_iff:
  "ready_args out_param it args =
     (length args \<le> length (pi_domains it) \<and>
      (\<forall>i < length args. has_expr_metavar (args ! i) \<longrightarrow> out_param (pi_domains it ! i)))"
proof (induction args arbitrary: it)
  case Nil
  show ?case by simp
next
  case (Cons C_arg C_args)
  show ?case
  proof (cases it)
    case (Pi n d b bi)
    show ?thesis
    proof (cases "has_expr_metavar C_arg \<and> \<not> out_param d")
      case True
      then show ?thesis unfolding Pi by auto
    next
      case False
      with Cons.IH [of b] show ?thesis unfolding Pi by (auto simp: less_Suc_eq_0_disj)
    qed
  qed simp_all
qed

lemma ready_to_synthesize_True:
  assumes "fst (ready_to_synthesize tc inst_type st) = Inr True"
  shows "\<not> has_expr_metavar inst_type \<or>
     (is_constant (get_app_fn (drop_pis inst_type)) \<and>
      (\<exists>it. tc_infer tc (m_mctx st) (get_app_fn (drop_pis inst_type)) = Inr it \<and>
         length (get_app_args (drop_pis inst_type)) \<le> length (pi_domains it) \<and>
         (\<forall>i < length (get_app_args (drop_pis inst_type)).
             has_expr_metavar (get_app_args (drop_pis inst_type) ! i) \<longrightarrow>
             tc_is_class_out_param tc (pi_domains it ! i))))"
  using assms
  by (auto simp: ready_to_synthesize_def Let_def ret_def bnd_infer_type ready_args_iff
      split: if_splits sum.splits)

lemma synthesize_core_not_ready:
  assumes "fst (ready_to_synthesize tc inst_type st) = Inr False"
  shows "synthesize_type_class_instance_core tc mvar inst inst_type st = (Inr False, st)"
  using assms by (simp add: synthesize_type_class_instance_core_def bnd_ready ret_def)

lemma fuel_enough:
  "length (elems (m_instances st)) < n \<Longrightarrow>
   synthesize_type_class_instances_fuel n tc st = Some (synthesize_type_class_instances tc st)"
proof (induction tc st arbitrary: n rule: synthesize_type_class_instances.induct)
  case (1 tc st)
  from "1.prems" obtain k where n: "n = Suc k" by (cases n) auto
  obtain r st' where step: "synthesize_type_class_instances_step tc st = (r, st')"
    by (cases "synthesize_type_class_instances_step tc st")
  show ?case
  proof (cases r)
    case (Inl ex)
    with step n show ?thesis by (simp add: synthesize_type_class_instances.simps [of tc st])
  next
    case (Inr u)
    show ?thesis
    proof (cases "is_eqp (m_instances st) (m_instances st')")
      case True
      with step n Inr show ?thesis by (simp add: synthesize_type_class_instances.simps [of tc st])
    next
      case False
      from step_decreases [OF step False] "1.prems" n
      have "length (elems (m_instances st')) < k" by simp
      from "1.IH" [OF step [symmetric] _ False this, of u] Inr
      have "synthesize_type_class_instances_fuel k tc st' = Some (synthesize_type_class_instances tc st')"
        by simp
      with step n Inr False show ?thesis
        by (simp add: synthesize_type_class_instances.simps [of tc st])
    qed
  qed
qed

text \<open>
  C4. \<open>ready_to_synthesize\<close> answers true only for a type without expression
  metavariables, or for one whose class application, under its leading binders, has a
  constant head and every argument that contains a metavariable in a position whose
  binder in the type of the class is marked as an output parameter. A metavariable whose
  type is not ready is not synthesized: \<open>synthesize_type_class_instance_core\<close> returns
  false and leaves the state alone. \<open>synthesize_type_class_instances\<close> runs a step and
  returns exactly when the pending list after the step is the same list, by the address
  of its first cell, as the one before it (or when the step throws); otherwise it goes
  on with the new state. The loop returns within one scan more than there are pending
  metavariables.
\<close>

theorem instance_worklist:
  "(fst (ready_to_synthesize tc inst_type st) = Inr True \<longrightarrow>
      \<not> has_expr_metavar inst_type \<or>
      (is_constant (get_app_fn (drop_pis inst_type)) \<and>
       (\<exists>it. tc_infer tc (m_mctx st) (get_app_fn (drop_pis inst_type)) = Inr it \<and>
          length (get_app_args (drop_pis inst_type)) \<le> length (pi_domains it) \<and>
          (\<forall>i < length (get_app_args (drop_pis inst_type)).
              has_expr_metavar (get_app_args (drop_pis inst_type) ! i) \<longrightarrow>
              tc_is_class_out_param tc (pi_domains it ! i)))))
   \<and> (fst (ready_to_synthesize tc inst_type st) = Inr False \<longrightarrow>
      synthesize_type_class_instance_core tc mvar inst inst_type st = (Inr False, st))
   \<and> synthesize_type_class_instances tc st =
       (case synthesize_type_class_instances_step tc st of
          (Inl ex, st') \<Rightarrow> (Inl ex, st')
        | (Inr u, st') \<Rightarrow>
            if is_eqp (m_instances st) (m_instances st') then (Inr (), st')
            else synthesize_type_class_instances tc st')
   \<and> (\<forall>n. length (elems (m_instances st)) < n \<longrightarrow>
        synthesize_type_class_instances_fuel n tc st = Some (synthesize_type_class_instances tc st))"
proof (intro conjI impI allI)
  assume "fst (ready_to_synthesize tc inst_type st) = Inr True"
  then show "\<not> has_expr_metavar inst_type \<or>
      (is_constant (get_app_fn (drop_pis inst_type)) \<and>
       (\<exists>it. tc_infer tc (m_mctx st) (get_app_fn (drop_pis inst_type)) = Inr it \<and>
          length (get_app_args (drop_pis inst_type)) \<le> length (pi_domains it) \<and>
          (\<forall>i < length (get_app_args (drop_pis inst_type)).
              has_expr_metavar (get_app_args (drop_pis inst_type) ! i) \<longrightarrow>
              tc_is_class_out_param tc (pi_domains it ! i))))"
    by (rule ready_to_synthesize_True)
next
  assume "fst (ready_to_synthesize tc inst_type st) = Inr False"
  then show "synthesize_type_class_instance_core tc mvar inst inst_type st = (Inr False, st)"
    by (rule synthesize_core_not_ready)
next
  show "synthesize_type_class_instances tc st =
       (case synthesize_type_class_instances_step tc st of
          (Inl ex, st') \<Rightarrow> (Inl ex, st')
        | (Inr u, st') \<Rightarrow>
            if is_eqp (m_instances st) (m_instances st') then (Inr (), st')
            else synthesize_type_class_instances tc st')"
    by (rule synthesize_type_class_instances.simps)
next
  fix n
  assume "length (elems (m_instances st)) < n"
  then show "synthesize_type_class_instances_fuel n tc st = Some (synthesize_type_class_instances tc st)"
    by (rule fuel_enough)
qed

text \<open>
  The chain of three: \<open>?i1\<close> is ready and \<open>?i2\<close> is not; the loop returns after four scans
  with all three instances assigned and nothing pending.
\<close>

lemma chain_fuel:
  "synthesize_type_class_instances_fuel 4 (toy_ctx chain_types chain_instances) chain_session =
     Some (Inr (), chain_result)"
  by code_simp

lemma chain_ready1:
  "fst (ready_to_synthesize (toy_ctx chain_types chain_instances) chain_type1 chain_session) = Inr True"
  by code_simp

lemma chain_ready2:
  "fst (ready_to_synthesize (toy_ctx chain_types chain_instances) chain_type2 chain_session) = Inr False"
  by code_simp

lemma chain_length: "length (elems (m_instances chain_session)) < 4"
  by code_simp

theorem instance_worklist_witness:
  "fst (ready_to_synthesize (toy_ctx chain_types chain_instances) chain_type1 chain_session) = Inr True \<and>
   has_expr_metavar chain_type1 \<and>
   is_constant (get_app_fn (drop_pis chain_type1)) \<and>
   fst (ready_to_synthesize (toy_ctx chain_types chain_instances) chain_type2 chain_session) = Inr False \<and>
   synthesize_type_class_instance_core (toy_ctx chain_types chain_instances)
      (chain_inst ''i2'' (chain_mvar ''x1'') (chain_mvar ''x2''))
      (chain_inst ''i2'' (chain_mvar ''x1'') (chain_mvar ''x2'')) chain_type2 chain_session =
     (Inr False, chain_session) \<and>
   synthesize_type_class_instances_fuel 3 (toy_ctx chain_types chain_instances) chain_session = None \<and>
   synthesize_type_class_instances (toy_ctx chain_types chain_instances) chain_session =
     (Inr (), chain_result) \<and>
   m_instances chain_result = PNil"
proof -
  let ?tc = "toy_ctx chain_types chain_instances"
  let ?i2 = "chain_inst ''i2'' (chain_mvar ''x1'') (chain_mvar ''x2'')"
  have mv: "has_expr_metavar chain_type1"
    by (simp add: chain_type1_def chain_mvar_def)
  from instance_worklist [of ?tc chain_type1 chain_session ?i2 ?i2] chain_ready1 mv
  have c1: "is_constant (get_app_fn (drop_pis chain_type1))" by blast
  from instance_worklist [of ?tc chain_type2 chain_session ?i2 ?i2] chain_ready2
  have c2: "synthesize_type_class_instance_core ?tc ?i2 ?i2 chain_type2 chain_session =
      (Inr False, chain_session)"
    by blast
  from instance_worklist [of ?tc chain_type2 chain_session ?i2 ?i2] chain_length
  have "synthesize_type_class_instances_fuel 4 ?tc chain_session =
      Some (synthesize_type_class_instances ?tc chain_session)"
    by blast
  with chain_fuel have c3: "synthesize_type_class_instances ?tc chain_session = (Inr (), chain_result)"
    by simp
  have c4: "synthesize_type_class_instances_fuel 3 ?tc chain_session = None" by code_simp
  have c5: "m_instances chain_result = PNil" by (simp add: chain_result_def toy_session_def)
  from chain_ready1 mv c1 chain_ready2 c2 c4 c3 c5 show ?thesis by blast
qed

section \<open>Errors of instance synthesis\<close>

lemma synthesize_core_mismatch:
  assumes "fst (ready_to_synthesize tc inst_type st) = Inr True"
    and "mk_instance_core tc (Some mvar) inst_type mvar st = (Inr synthesized_inst, st1)"
    and "is_def_eq tc inferred_inst synthesized_inst st1 = (Inr False, st2)"
  shows "synthesize_type_class_instance_core tc mvar inferred_inst inst_type st =
     (Inl (Elaborator_exception mvar
               (FCompose
                 (FCompose
                   (FCompose
                     (FCompose
                       (FText ''synthesized type class instance is not definitionally equal to expression inferred by typing rules, synthesized'')
                       (pp_indent synthesized_inst))
                     FLine)
                   (FText ''inferred''))
                 (pp_indent inferred_inst))), st2)"
  unfolding synthesize_type_class_instance_core_def bnd_ready
  using assms by (simp add: bnd_def throw_def)

lemma process_instances_throws:
  "synthesize_type_class_instance_core tc mvar inst inst_type st = (Inl ex, st') \<Longrightarrow>
   process_instances tc ((mvar, inst, inst_type) # rest) st = (Inl ex, st')"
  by (simp add: bnd_def)

lemma synthesize_type_class_instances_throws:
  "synthesize_type_class_instances_step tc st = (Inl ex, st') \<Longrightarrow>
   synthesize_type_class_instances tc st = (Inl ex, st')"
  by (simp add: synthesize_type_class_instances.simps [of tc st])

lemma recover_expr_from_exception_throws:
  "fn st = (Inl ex, st1) \<Longrightarrow>
   recover_expr_from_exception tc expected_type ref fn st =
     (if m_recover_from_errors st1 \<and> pos_info_provider st1
      then mk_sorry tc expected_type ref (st1\<lparr>reported := reported st1 @ [ex], m_has_errors := True\<rparr>)
      else (Inl ex, st1))"
  by (simp add: recover_expr_from_exception_def try_report_def)

lemma process_instances_append:
  "process_instances tc (xs @ ys) st =
     (case process_instances tc xs st of
        (Inl ex, st') \<Rightarrow> (Inl ex, st')
      | (Inr u, st') \<Rightarrow> process_instances tc ys st')"
proof (induction xs arbitrary: st)
  case Nil
  show ?case by (simp add: ret_def)
next
  case (Cons x xs)
  obtain mvar inst inst_type where x: "x = (mvar, inst, inst_type)" by (cases x)
  show ?case
    unfolding x
    by (cases "synthesize_type_class_instance_core tc mvar inst inst_type st")
       (auto simp: bnd_def Cons.IH split: sum.splits)
qed

lemma process_instances_throws_at:
  assumes "process_instances tc xs st0 = (Inr u, st)"
    and "synthesize_type_class_instance_core tc mvar inst inst_type st = (Inl ex, st')"
  shows "process_instances tc (xs @ (mvar, inst, inst_type) # rest) st0 = (Inl ex, st')"
  using assms by (simp add: process_instances_append bnd_def)

lemma step_throws:
  assumes "fst (sort_instances tc (elems (m_instances st)) st) = Inr (to_keep, to_process)"
    and "process_instances tc to_process st = (Inl ex, st')"
  shows "synthesize_type_class_instances_step tc st = (Inl ex, st')"
proof -
  from assms(2) have "to_process \<noteq> []"
    by (auto simp: ret_def)
  with assms show ?thesis
    by (simp add: step_unfold)
qed

lemma synthesize_type_class_instances_next:
  assumes "synthesize_type_class_instances_step tc st = (Inr u, st1)"
    and "\<not> is_eqp (m_instances st) (m_instances st1)"
  shows "synthesize_type_class_instances tc st = synthesize_type_class_instances tc st1"
  using assms by (simp add: synthesize_type_class_instances.simps [of tc st])

lemma first_scan_mismatch:
  assumes sorted: "fst (sort_instances tc (elems (m_instances st)) st) =
                     Inr (to_keep, xs @ (mvar, inferred_inst, inst_type) # rest)"
    and before: "process_instances tc xs st = (Inr u, sa)"
    and ready: "fst (ready_to_synthesize tc inst_type sa) = Inr True"
    and found: "mk_instance_core tc (Some mvar) inst_type mvar sa = (Inr synthesized_inst, sb)"
    and differ: "is_def_eq tc inferred_inst synthesized_inst sb = (Inr False, sc)"
  shows "synthesize_type_class_instances tc st =
           (Inl (Elaborator_exception mvar
               (FCompose
                 (FCompose
                   (FCompose
                     (FCompose
                       (FText ''synthesized type class instance is not definitionally equal to expression inferred by typing rules, synthesized'')
                       (pp_indent synthesized_inst))
                     FLine)
                   (FText ''inferred''))
                 (pp_indent inferred_inst))), sc)"
proof -
  note core = synthesize_core_mismatch [OF ready found differ]
  note proc = process_instances_throws_at [OF before core, of rest]
  note step = step_throws [OF sorted proc]
  show ?thesis
    by (rule synthesize_type_class_instances_throws [OF step])
qed

text \<open>
  C6, as the code has it. When the instance found for a ready type is not definitionally
  equal to the term inferred for the metavariable, \<open>synthesize_type_class_instance_core\<close>
  throws an \<open>elaborator_exception\<close>: it reports nothing and substitutes nothing itself.
  The exception leaves the processing loop at whatever place of the list the instance
  stands, once the instances before it have been processed; an exception of the
  processing loop leaves the step, and an exception of the step leaves the draining loop,
  which otherwise goes on with the next scan; so a mismatch in the first scan is the
  result of \<open>synthesize_type_class_instances\<close>. A \<open>recover_expr_from_exception\<close> around a
  body that throws it turns it into a reported diagnostic and a \<open>sorry\<close> of the expected
  type exactly when error recovery is on and a position provider is there, and throws it
  again otherwise.
\<close>

theorem instance_mismatch_error:
  "(fst (ready_to_synthesize tc inst_type st) = Inr True \<and>
    mk_instance_core tc (Some mvar) inst_type mvar st = (Inr synthesized_inst, st1) \<and>
    is_def_eq tc inferred_inst synthesized_inst st1 = (Inr False, st2) \<longrightarrow>
      synthesize_type_class_instance_core tc mvar inferred_inst inst_type st =
        (Inl (Elaborator_exception mvar
               (FCompose
                 (FCompose
                   (FCompose
                     (FCompose
                       (FText ''synthesized type class instance is not definitionally equal to expression inferred by typing rules, synthesized'')
                       (pp_indent synthesized_inst))
                     FLine)
                   (FText ''inferred''))
                 (pp_indent inferred_inst))), st2))
   \<and> (process_instances tc xs st0 = (Inr u, st) \<and>
       synthesize_type_class_instance_core tc mvar inferred_inst inst_type st = (Inl ex, st') \<longrightarrow>
        process_instances tc (xs @ (mvar, inferred_inst, inst_type) # rest) st0 = (Inl ex, st'))
   \<and> (fst (sort_instances tc (elems (m_instances st)) st) = Inr (to_keep, to_process) \<and>
       process_instances tc to_process st = (Inl ex, st') \<longrightarrow>
        synthesize_type_class_instances_step tc st = (Inl ex, st'))
   \<and> (synthesize_type_class_instances_step tc st = (Inl ex, st') \<longrightarrow>
        synthesize_type_class_instances tc st = (Inl ex, st'))
   \<and> (synthesize_type_class_instances_step tc st = (Inr u, st1) \<and>
       \<not> is_eqp (m_instances st) (m_instances st1) \<longrightarrow>
        synthesize_type_class_instances tc st = synthesize_type_class_instances tc st1)
   \<and> (fst (sort_instances tc (elems (m_instances st)) st) =
         Inr (to_keep, xs @ (mvar, inferred_inst, inst_type) # rest) \<and>
       process_instances tc xs st = (Inr u, sa) \<and>
       fst (ready_to_synthesize tc inst_type sa) = Inr True \<and>
       mk_instance_core tc (Some mvar) inst_type mvar sa = (Inr synthesized_inst, sb) \<and>
       is_def_eq tc inferred_inst synthesized_inst sb = (Inr False, sc) \<longrightarrow>
        synthesize_type_class_instances tc st =
          (Inl (Elaborator_exception mvar
               (FCompose
                 (FCompose
                   (FCompose
                     (FCompose
                       (FText ''synthesized type class instance is not definitionally equal to expression inferred by typing rules, synthesized'')
                       (pp_indent synthesized_inst))
                     FLine)
                   (FText ''inferred''))
                 (pp_indent inferred_inst))), sc))
   \<and> (fn st = (Inl ex, st') \<longrightarrow>
        recover_expr_from_exception tc expected_type ref fn st =
          (if m_recover_from_errors st' \<and> pos_info_provider st'
           then mk_sorry tc expected_type ref (st'\<lparr>reported := reported st' @ [ex], m_has_errors := True\<rparr>)
           else (Inl ex, st')))"
proof (intro conjI impI; (elim conjE)?)
  assume "fst (ready_to_synthesize tc inst_type st) = Inr True"
    and "mk_instance_core tc (Some mvar) inst_type mvar st = (Inr synthesized_inst, st1)"
    and "is_def_eq tc inferred_inst synthesized_inst st1 = (Inr False, st2)"
  then show "synthesize_type_class_instance_core tc mvar inferred_inst inst_type st =
        (Inl (Elaborator_exception mvar
               (FCompose
                 (FCompose
                   (FCompose
                     (FCompose
                       (FText ''synthesized type class instance is not definitionally equal to expression inferred by typing rules, synthesized'')
                       (pp_indent synthesized_inst))
                     FLine)
                   (FText ''inferred''))
                 (pp_indent inferred_inst))), st2)"
    by (rule synthesize_core_mismatch)
next
  assume "process_instances tc xs st0 = (Inr u, st)"
    and "synthesize_type_class_instance_core tc mvar inferred_inst inst_type st = (Inl ex, st')"
  then show "process_instances tc (xs @ (mvar, inferred_inst, inst_type) # rest) st0 = (Inl ex, st')"
    by (rule process_instances_throws_at)
next
  assume "fst (sort_instances tc (elems (m_instances st)) st) = Inr (to_keep, to_process)"
    and "process_instances tc to_process st = (Inl ex, st')"
  then show "synthesize_type_class_instances_step tc st = (Inl ex, st')"
    by (rule step_throws)
next
  assume "synthesize_type_class_instances_step tc st = (Inl ex, st')"
  then show "synthesize_type_class_instances tc st = (Inl ex, st')"
    by (rule synthesize_type_class_instances_throws)
next
  assume "synthesize_type_class_instances_step tc st = (Inr u, st1)"
    and "\<not> is_eqp (m_instances st) (m_instances st1)"
  then show "synthesize_type_class_instances tc st = synthesize_type_class_instances tc st1"
    by (rule synthesize_type_class_instances_next)
next
  assume "fst (sort_instances tc (elems (m_instances st)) st) =
         Inr (to_keep, xs @ (mvar, inferred_inst, inst_type) # rest)"
    and "process_instances tc xs st = (Inr u, sa)"
    and "fst (ready_to_synthesize tc inst_type sa) = Inr True"
    and "mk_instance_core tc (Some mvar) inst_type mvar sa = (Inr synthesized_inst, sb)"
    and "is_def_eq tc inferred_inst synthesized_inst sb = (Inr False, sc)"
  then show "synthesize_type_class_instances tc st =
          (Inl (Elaborator_exception mvar
               (FCompose
                 (FCompose
                   (FCompose
                     (FCompose
                       (FText ''synthesized type class instance is not definitionally equal to expression inferred by typing rules, synthesized'')
                       (pp_indent synthesized_inst))
                     FLine)
                   (FText ''inferred''))
                 (pp_indent inferred_inst))), sc)"
    by (rule first_scan_mismatch)
next
  assume "fn st = (Inl ex, st')"
  then show "recover_expr_from_exception tc expected_type ref fn st =
          (if m_recover_from_errors st' \<and> pos_info_provider st'
           then mk_sorry tc expected_type ref (st'\<lparr>reported := reported st' @ [ex], m_has_errors := True\<rparr>)
           else (Inl ex, st'))"
    by (rule recover_expr_from_exception_throws)
qed

text \<open>
  The mismatch with error recovery off: the pending instance \<open>?i\<close> is ready, the instance
  found is \<open>b\<close> and the inferred one is \<open>a\<close>; the exception is the result of the draining
  loop and reaches the caller of the enclosing \<open>recover_expr_from_exception\<close>.
\<close>

lemma mismatch_sorted:
  "fst (sort_instances (toy_ctx mismatch_types mismatch_instances)
          (elems (m_instances (mismatch_session\<lparr>m_recover_from_errors := False\<rparr>)))
          (mismatch_session\<lparr>m_recover_from_errors := False\<rparr>)) =
     Inr ([], [] @ (mismatch_mvar, Constant [''a''] [], Constant [''cls0''] []) # [])"
  by code_simp

lemma mismatch_ready:
  "fst (ready_to_synthesize (toy_ctx mismatch_types mismatch_instances) (Constant [''cls0''] [])
          (mismatch_session\<lparr>m_recover_from_errors := False\<rparr>)) = Inr True"
  by code_simp

lemma mismatch_found:
  "mk_instance_core (toy_ctx mismatch_types mismatch_instances) (Some mismatch_mvar)
       (Constant [''cls0''] []) mismatch_mvar (mismatch_session\<lparr>m_recover_from_errors := False\<rparr>) =
     (Inr (Constant [''b''] []), mismatch_session\<lparr>m_recover_from_errors := False\<rparr>)"
  by code_simp

lemma mismatch_differ:
  "is_def_eq (toy_ctx mismatch_types mismatch_instances) (Constant [''a''] []) (Constant [''b''] [])
       (mismatch_session\<lparr>m_recover_from_errors := False\<rparr>) =
     (Inr False, mismatch_session\<lparr>m_recover_from_errors := False\<rparr>)"
  by code_simp

theorem instance_mismatch_error_witness:
  "synthesize_type_class_instances (toy_ctx mismatch_types mismatch_instances)
      (mismatch_session\<lparr>m_recover_from_errors := False\<rparr>) =
     (Inl mismatch_error, mismatch_session\<lparr>m_recover_from_errors := False\<rparr>) \<and>
   recover_expr_from_exception (toy_ctx mismatch_types mismatch_instances) (Some nat_type) nat_zero
      (bnd (synthesize_type_class_instances (toy_ctx mismatch_types mismatch_instances)) (\<lambda>u. ret nat_zero))
      (mismatch_session\<lparr>m_recover_from_errors := False\<rparr>) =
     (Inl mismatch_error, mismatch_session\<lparr>m_recover_from_errors := False\<rparr>)"
proof -
  let ?tc = "toy_ctx mismatch_types mismatch_instances"
  let ?st = "mismatch_session\<lparr>m_recover_from_errors := False\<rparr>"
  let ?fn = "bnd (synthesize_type_class_instances ?tc) (\<lambda>u. ret nat_zero)"
  have before: "process_instances ?tc [] ?st = (Inr (), ?st)"
    by (simp add: ret_def)
  note inst = instance_mismatch_error [where tc = ?tc and st = ?st and to_keep = "[]" and xs = "[]"
      and mvar = mismatch_mvar and inferred_inst = "Constant [''a''] []"
      and inst_type = "Constant [''cls0''] []" and rest = "[]" and u = "()" and sa = ?st
      and synthesized_inst = "Constant [''b''] []" and sb = ?st and sc = ?st
      and fn = ?fn and ex = mismatch_error and st' = ?st
      and expected_type = "Some nat_type" and ref = nat_zero]
  from inst mismatch_sorted before mismatch_ready mismatch_found mismatch_differ
  have loop: "synthesize_type_class_instances ?tc ?st = (Inl mismatch_error, ?st)"
    by (simp add: mismatch_error_def mismatch_mvar_def)
  then have body: "?fn ?st = (Inl mismatch_error, ?st)"
    by (simp add: bnd_def)
  have off: "\<not> m_recover_from_errors ?st" by simp
  from inst body off
  have "recover_expr_from_exception ?tc (Some nat_type) nat_zero ?fn ?st = (Inl mismatch_error, ?st)"
    by simp
  with loop show ?thesis by simp
qed

text \<open>
  Where the claim as stated fails: with error recovery on and a position provider, the
  same mismatch inside a \<open>recover_expr_from_exception\<close> (as in \<open>visit\<close>, whose body reaches
  the draining loop through \<open>visit_typed_expr\<close> or \<open>visit_elim_app\<close>) is reported as a
  diagnostic and a \<open>sorry\<close> of the expected type is returned in its place.
\<close>

theorem instance_mismatch_recovered:
  "recover_expr_from_exception (toy_ctx mismatch_types mismatch_instances) (Some nat_type) nat_zero
     (bnd (synthesize_type_class_instances (toy_ctx mismatch_types mismatch_instances)) (\<lambda>u. ret nat_zero))
     mismatch_session =
   (Inr (Macro [''sorry''] [nat_type]),
    mismatch_session\<lparr>reported := [mismatch_error], m_has_errors := True\<rparr>)"
  by code_simp

section \<open>Properties of anonymous-constructor elaboration\<close>

lemma visit_anonymous_constructor_returns:
  assumes "visit_anonymous_constructor tc env visit e expected_type st = (Inr r, st')"
  shows "\<exists>t I_name ls c.
      expected_type = Some t \<and>
      get_app_fn (tc_relaxed_whnf tc (m_mctx st) (tc_instantiate_mvars tc (m_mctx st) t)) = Constant I_name ls \<and>
      \<not> env_is_private env I_name \<and> env_is_inductive_decl env I_name \<and>
      env_get_intro_rule_names env I_name = [c]"
  using assms
  unfolding visit_anonymous_constructor_def
  by (auto simp: bnd_instantiate_mvars throw_def Let_def
      split: option.splits expr.splits if_splits list.splits)

lemma visit_anonymous_constructor_throws:
  assumes "is_anonymous_constructor e"
    and "expected_type = None \<or>
       (\<exists>t. expected_type = Some t \<and>
          (\<not> is_constant (get_app_fn (tc_relaxed_whnf tc (m_mctx st) (tc_instantiate_mvars tc (m_mctx st) t))) \<or>
           (\<exists>I_name. const_name (get_app_fn (tc_relaxed_whnf tc (m_mctx st) (tc_instantiate_mvars tc (m_mctx st) t))) = Some I_name \<and>
              (env_is_private env I_name \<or> \<not> env_is_inductive_decl env I_name \<or>
               length (env_get_intro_rule_names env I_name) \<noteq> 1))))"
  shows "\<exists>msg. visit_anonymous_constructor tc env visit e expected_type st =
           (Inl (Elaborator_exception e msg), st)"
  using assms
  unfolding visit_anonymous_constructor_def is_anonymous_constructor_def
  by (auto simp: bnd_instantiate_mvars throw_def Let_def
      split: option.splits expr.splits if_splits list.splits)

text \<open>
  C10. \<open>visit_anonymous_constructor\<close> returns a term only if an expected type is given
  whose weak-head normal form, after instantiating metavariables, is headed by a constant
  that names an inductive type which is not private and has exactly one constructor. If
  the expected type is absent, or that head is not a constant, or the constant is
  private, is not an inductive type, or has a number of constructors other than one,
  it throws an \<open>elaborator_exception\<close> at the term and leaves the state as it was.
\<close>

theorem anonymous_constructor_expected_type:
  "(\<forall>r st'. visit_anonymous_constructor tc env visit e expected_type st = (Inr r, st') \<longrightarrow>
      (\<exists>t I_name ls c.
          expected_type = Some t \<and>
          get_app_fn (tc_relaxed_whnf tc (m_mctx st) (tc_instantiate_mvars tc (m_mctx st) t)) = Constant I_name ls \<and>
          \<not> env_is_private env I_name \<and> env_is_inductive_decl env I_name \<and>
          env_get_intro_rule_names env I_name = [c]))
   \<and> (is_anonymous_constructor e \<and>
       (expected_type = None \<or>
        (\<exists>t. expected_type = Some t \<and>
          (\<not> is_constant (get_app_fn (tc_relaxed_whnf tc (m_mctx st) (tc_instantiate_mvars tc (m_mctx st) t))) \<or>
           (\<exists>I_name. const_name (get_app_fn (tc_relaxed_whnf tc (m_mctx st) (tc_instantiate_mvars tc (m_mctx st) t))) = Some I_name \<and>
              (env_is_private env I_name \<or> \<not> env_is_inductive_decl env I_name \<or>
               length (env_get_intro_rule_names env I_name) \<noteq> 1))))) \<longrightarrow>
      (\<exists>msg. visit_anonymous_constructor tc env visit e expected_type st =
           (Inl (Elaborator_exception e msg), st)))"
  using visit_anonymous_constructor_returns [of tc env visit e expected_type st]
    visit_anonymous_constructor_throws [of e expected_type tc st env visit]
  by blast

text \<open>
  The pair \<open><0, 0>\<close> against \<open>prod nat nat\<close> becomes \<open>prod.mk 0 0\<close>; against \<open>bool\<close>, which
  has two constructors, and against no expected type it is an error.
\<close>

lemma anonymous_pair_prod:
  "visit_anonymous_constructor (toy_ctx no_types no_instances) prod_env visit_id anonymous_pair
     (Some prod_nat_nat) toy_session =
   (Inr (App (App (Constant [''prod'', ''mk''] []) nat_zero) nat_zero), toy_session)"
  by code_simp

lemma anonymous_pair_shape:
  "is_anonymous_constructor anonymous_pair"
  by code_simp

lemma anonymous_pair_bool_head:
  "const_name (get_app_fn (tc_relaxed_whnf (toy_ctx no_types no_instances) (m_mctx toy_session)
      (tc_instantiate_mvars (toy_ctx no_types no_instances) (m_mctx toy_session) mk_bool))) = Some [''bool'']"
  by code_simp

lemma bool_two_constructors:
  "length (env_get_intro_rule_names prod_env [''bool'']) = 2"
  by code_simp

theorem anonymous_constructor_expected_type_witness:
  "visit_anonymous_constructor (toy_ctx no_types no_instances) prod_env visit_id anonymous_pair
     (Some prod_nat_nat) toy_session =
     (Inr (App (App (Constant [''prod'', ''mk''] []) nat_zero) nat_zero), toy_session) \<and>
   (\<exists>I_name ls c.
      get_app_fn (tc_relaxed_whnf (toy_ctx no_types no_instances) (m_mctx toy_session)
        (tc_instantiate_mvars (toy_ctx no_types no_instances) (m_mctx toy_session) prod_nat_nat)) =
        Constant I_name ls \<and>
      env_is_inductive_decl prod_env I_name \<and> env_get_intro_rule_names prod_env I_name = [c]) \<and>
   (\<exists>msg. visit_anonymous_constructor (toy_ctx no_types no_instances) prod_env visit_id anonymous_pair
        (Some mk_bool) toy_session = (Inl (Elaborator_exception anonymous_pair msg), toy_session)) \<and>
   (\<exists>msg. visit_anonymous_constructor (toy_ctx no_types no_instances) prod_env visit_id anonymous_pair
        None toy_session = (Inl (Elaborator_exception anonymous_pair msg), toy_session))"
proof -
  let ?tc = "toy_ctx no_types no_instances"
  note ok = anonymous_constructor_expected_type [of ?tc prod_env visit_id anonymous_pair
      "Some prod_nat_nat" toy_session, THEN conjunct1, rule_format, OF anonymous_pair_prod]
  note bad = anonymous_constructor_expected_type [of ?tc prod_env visit_id anonymous_pair
      "Some mk_bool" toy_session, THEN conjunct2, rule_format]
  note none = anonymous_constructor_expected_type [of ?tc prod_env visit_id anonymous_pair
      None toy_session, THEN conjunct2, rule_format]
  from ok have c2: "\<exists>I_name ls c.
      get_app_fn (tc_relaxed_whnf ?tc (m_mctx toy_session)
        (tc_instantiate_mvars ?tc (m_mctx toy_session) prod_nat_nat)) = Constant I_name ls \<and>
      env_is_inductive_decl prod_env I_name \<and> env_get_intro_rule_names prod_env I_name = [c]"
    by blast
  have c3: "\<exists>msg. visit_anonymous_constructor ?tc prod_env visit_id anonymous_pair
        (Some mk_bool) toy_session = (Inl (Elaborator_exception anonymous_pair msg), toy_session)"
    using anonymous_pair_shape anonymous_pair_bool_head bool_two_constructors
    by (intro bad) auto
  have c4: "\<exists>msg. visit_anonymous_constructor ?tc prod_env visit_id anonymous_pair
        None toy_session = (Inl (Elaborator_exception anonymous_pair msg), toy_session)"
    using anonymous_pair_shape by (intro none) auto
  from anonymous_pair_prod c2 c3 c4 show ?thesis by blast
qed

section \<open>Properties of eliminator applications\<close>

lemma elim_arg_key_unfold:
  assumes "i \<in> set (m_idxs (ec_info ec))" and "j < length (ec_args ec)"
  shows "elim_arg tc ec d bi i j new_args st =
    (case ec_visit ec (ec_args ec ! j) (Some d) st of
       (Inl ex, s1) \<Rightarrow> (Inl ex, s1)
     | (Inr a, s1) \<Rightarrow>
        (case ec_synthesize ec s1 of
           (Inl ex, s2) \<Rightarrow> (Inl ex, s2)
         | (Inr u, s2) \<Rightarrow>
            (let new_arg = tc_instantiate_mvars tc (m_mctx s2) a
             in if has_expr_metavar new_arg then
                  (Inl (Elaborator_exception (ec_ref ec)
                     (elim_msg (ec_fn ec)
                       (FCompose
                         (FCompose (FText ''but term'') (pp_indent new_arg))
                         (FCompose
                           (FCompose FLine (FText ''must not contain metavariables because''))
                           (FText '' it is used to compute the motive''))))), s2)
                else
                  (case tc_infer tc (m_mctx s2) new_arg of
                     Inl ex \<Rightarrow> (Inl ex, s2)
                   | Inr new_arg_type \<Rightarrow>
                      (case is_def_eq tc new_arg_type d s2 of
                         (Inl ex, s3) \<Rightarrow> (Inl ex, s3)
                       | (Inr eq, s3) \<Rightarrow>
                           if \<not> eq then
                             (Inl (Elaborator_exception (ec_ref ec)
                               (mk_app_type_mismatch_error (mk_app (ec_fn ec) (new_args @ [new_arg]))
                                  new_arg new_arg_type d)), s3)
                           else (Inr (new_arg, None, j + 1), s3))))))"
  using assms
  by (simp add: elim_arg_def bnd_def throw_def ret_def instantiate_mvars_def infer_type_def Let_def
      split: prod.splits sum.splits)

lemma elim_arg_key:
  assumes r: "elim_arg tc ec d bi i j new_args st = (Inr (new_arg, postponed, j'), st')"
    and key: "i \<in> set (m_idxs (ec_info ec))"
  shows "\<not> has_expr_metavar new_arg"
proof -
  have jl: "j < length (ec_args ec)"
    using r key by (auto simp: elim_arg_def throw_def split: if_splits)
  from r show ?thesis
    unfolding elim_arg_key_unfold [OF key jl]
    by (auto simp: Let_def split: prod.splits sum.splits if_splits)
qed

lemma elim_arg_key_throws:
  assumes "i \<in> set (m_idxs (ec_info ec))" and "j < length (ec_args ec)"
    and "ec_visit ec (ec_args ec ! j) (Some d) st = (Inr a, st1)"
    and "ec_synthesize ec st1 = (Inr u, st2)"
    and "has_expr_metavar (tc_instantiate_mvars tc (m_mctx st2) a)"
  shows "\<exists>msg. elim_arg tc ec d bi i j new_args st = (Inl (Elaborator_exception (ec_ref ec) msg), st2)"
  using assms by (simp add: elim_arg_key_unfold)

lemma keys_closed_snoc:
  assumes "keys_closed ec new_args"
    and "length new_args \<in> set (m_idxs (ec_info ec)) \<longrightarrow> \<not> has_expr_metavar a"
  shows "keys_closed ec (new_args @ [a])"
  using assms by (auto simp: keys_closed_def list_all_iff nth_append less_Suc_eq)

lemma keys_closed_Nil: "keys_closed ec []"
  by (simp add: keys_closed_def list_all_iff)

lemma elim_first_pass_keys:
  assumes run: "elim_first_pass tc0 ec0 type0 i0 j0 new_args0 postponed_args0 st0 = Some y0"
  shows "length new_args0 = i0 \<longrightarrow> keys_closed ec0 new_args0 \<longrightarrow>
     (\<forall>type' j' new_args' postponed_args' st'.
         y0 = (Inr (type', j', new_args', postponed_args'), st') \<longrightarrow> keys_closed ec0 new_args')"
proof (rule elim_first_pass.raw_induct [where P = "\<lambda>tc ec type i j new_args postponed_args st y.
     length new_args = i \<longrightarrow> keys_closed ec new_args \<longrightarrow>
     (\<forall>type' j' new_args' postponed_args' st'.
         y = (Inr (type', j', new_args', postponed_args'), st') \<longrightarrow> keys_closed ec new_args')",
     OF _ run], goal_cases)
  case (1 f tc ec type i j new_args postponed_args st y)
  note IH = "1"(1) and body = "1"(2)
  show ?case
  proof (intro impI allI)
    fix type' j' new_args' postponed_args' st'
    assume len: "length new_args = i" and kc: "keys_closed ec new_args"
      and y: "y = (Inr (type', j', new_args', postponed_args'), st')"
    show "keys_closed ec new_args'"
    proof (cases "is_pi type")
      case False
      with body y kc show ?thesis by (cases type) auto
    next
      case True
      then obtain n d b bi where ty: "type = Pi n d b bi" by (cases type) auto
      obtain r st1 where ea: "elim_arg tc ec d bi i j new_args st = (r, st1)"
        by (cases "elim_arg tc ec d bi i j new_args st")
      show ?thesis
      proof (cases r)
        case (Inl ex)
        with body ty ea y show ?thesis by simp
      next
        case (Inr t)
        obtain new_arg postponed j1 where t: "t = (new_arg, postponed, j1)" by (cases t)
        from body ty ea Inr t
        have rec: "f tc ec (tc_try_to_pi tc (m_mctx st1) (tc_instantiate tc b new_arg))
                 (i + 1) j1 (new_args @ [new_arg]) (postponed_args @ [postponed]) st1 = Some y"
          by simp
        have k: "length new_args \<in> set (m_idxs (ec_info ec)) \<longrightarrow> \<not> has_expr_metavar new_arg"
          using elim_arg_key [of tc ec d bi i j new_args st new_arg postponed j1 st1] ea Inr t len
          by simp
        from IH [OF rec] len keys_closed_snoc [OF kc k] y show ?thesis by simp
      qed
    qed
  qed
qed

lemma elim_first_pass_key_throws:
  assumes "i \<in> set (m_idxs (ec_info ec))" and "j < length (ec_args ec)"
    and "ec_visit ec (ec_args ec ! j) (Some d) st = (Inr a, st1)"
    and "ec_synthesize ec st1 = (Inr u, st2)"
    and "has_expr_metavar (tc_instantiate_mvars tc (m_mctx st2) a)"
  shows "\<exists>msg. elim_first_pass tc ec (Pi n d b bi) i j new_args postponed_args st =
            Some (Inl (Elaborator_exception (ec_ref ec) msg), st2)"
proof -
  from elim_arg_key_throws [OF assms, of bi new_args]
  obtain msg where "elim_arg tc ec d bi i j new_args st = (Inl (Elaborator_exception (ec_ref ec) msg), st2)"
    by blast
  then show ?thesis by (simp add: elim_first_pass.simps [of tc ec "Pi n d b bi"])
qed

lemma visit_elim_app_no_expected_type:
  "\<exists>msg. visit_elim_app tc ec None st = Some (Inl (Elaborator_exception (ec_ref ec) msg), st)"
  by (simp add: visit_elim_app_def)

lemma visit_elim_app_open_expected_type:
  assumes "synthesize_type_class_instances tc st = (Inr u, st1)"
    and "has_expr_metavar (tc_instantiate_mvars tc (m_mctx st1) et)"
  shows "\<exists>msg. visit_elim_app tc ec (Some et) st = Some (Inl (Elaborator_exception (ec_ref ec) msg), st1)"
  using assms by (simp add: visit_elim_app_def)

lemma visit_elim_app_returns:
  assumes "visit_elim_app tc ec expected_type st = Some (Inr r, st')"
  shows "\<exists>et st1 fn_type type j new_args postponed_args st2.
          expected_type = Some et \<and>
          synthesize_type_class_instances tc st = (Inr (), st1) \<and>
          \<not> has_expr_metavar (tc_instantiate_mvars tc (m_mctx st1) et) \<and>
          tc_infer tc (m_mctx st1) (ec_fn ec) = Inr fn_type \<and>
          elim_first_pass tc ec (tc_try_to_pi tc (m_mctx st1) fn_type) 0 0 [] [] st1 =
            Some (Inr (type, j, new_args, postponed_args), st2) \<and>
          keys_closed ec new_args"
proof -
  from assms obtain et where et: "expected_type = Some et"
    by (cases expected_type) (auto simp: visit_elim_app_def)
  obtain r1 st1 where sy: "synthesize_type_class_instances tc st = (r1, st1)"
    by (cases "synthesize_type_class_instances tc st")
  from assms et sy have r1: "r1 = Inr ()"
    by (cases r1) (auto simp: visit_elim_app_def)
  from assms et sy r1 have closed: "\<not> has_expr_metavar (tc_instantiate_mvars tc (m_mctx st1) et)"
    by (auto simp: visit_elim_app_def Let_def split: if_splits)
  from assms et sy r1 closed obtain fn_type where ft: "tc_infer tc (m_mctx st1) (ec_fn ec) = Inr fn_type"
    by (cases "tc_infer tc (m_mctx st1) (ec_fn ec)") (auto simp: visit_elim_app_def Let_def)
  from assms et sy r1 closed ft obtain y where
    fp: "elim_first_pass tc ec (tc_try_to_pi tc (m_mctx st1) fn_type) 0 0 [] [] st1 = Some y"
    by (cases "elim_first_pass tc ec (tc_try_to_pi tc (m_mctx st1) fn_type) 0 0 [] [] st1")
       (auto simp: visit_elim_app_def Let_def)
  obtain q st2 where y: "y = (q, st2)" by (cases y)
  from assms et sy r1 closed ft fp y obtain type j new_args postponed_args where
    q: "q = Inr (type, j, new_args, postponed_args)"
    by (cases q) (auto simp: visit_elim_app_def Let_def)
  from elim_first_pass_keys [OF fp] y q have "keys_closed ec new_args"
    by (simp add: keys_closed_Nil)
  with et sy r1 closed ft fp y q show ?thesis by blast
qed

text \<open>
  C9. \<open>visit_elim_app\<close> throws an \<open>elaborator_exception\<close> when no expected type is given,
  and, once the instance worklist is drained, when the instantiated expected type still
  contains an expression metavariable. In the first loop, an argument at one of the
  positions the motive is computed from that elaborates to a term with a metavariable
  left makes the loop throw. So whenever \<open>visit_elim_app\<close> returns a term, an expected
  type was given, it was free of metavariables after instantiation, and every argument
  at such a position was free of metavariables.
\<close>

theorem elim_app_checks:
  "(\<exists>msg. visit_elim_app tc ec None st = Some (Inl (Elaborator_exception (ec_ref ec) msg), st))
   \<and> (synthesize_type_class_instances tc st = (Inr u, st1) \<and>
       has_expr_metavar (tc_instantiate_mvars tc (m_mctx st1) et) \<longrightarrow>
        (\<exists>msg. visit_elim_app tc ec (Some et) st =
                  Some (Inl (Elaborator_exception (ec_ref ec) msg), st1)))
   \<and> (i \<in> set (m_idxs (ec_info ec)) \<and> j < length (ec_args ec) \<and>
       ec_visit ec (ec_args ec ! j) (Some d) s0 = (Inr a, s1) \<and>
       ec_synthesize ec s1 = (Inr v, s2) \<and>
       has_expr_metavar (tc_instantiate_mvars tc (m_mctx s2) a) \<longrightarrow>
        (\<exists>msg. elim_first_pass tc ec (Pi n d b bi) i j new_args postponed_args s0 =
                  Some (Inl (Elaborator_exception (ec_ref ec) msg), s2)))
   \<and> (\<forall>r st'. visit_elim_app tc ec expected_type st = Some (Inr r, st') \<longrightarrow>
        (\<exists>et' st1' fn_type type j' new_args' postponed_args' st2.
            expected_type = Some et' \<and>
            synthesize_type_class_instances tc st = (Inr (), st1') \<and>
            \<not> has_expr_metavar (tc_instantiate_mvars tc (m_mctx st1') et') \<and>
            tc_infer tc (m_mctx st1') (ec_fn ec) = Inr fn_type \<and>
            elim_first_pass tc ec (tc_try_to_pi tc (m_mctx st1') fn_type) 0 0 [] [] st1' =
              Some (Inr (type, j', new_args', postponed_args'), st2) \<and>
            keys_closed ec new_args'))"
proof (intro conjI impI allI)
  show "\<exists>msg. visit_elim_app tc ec None st = Some (Inl (Elaborator_exception (ec_ref ec) msg), st)"
    by (rule visit_elim_app_no_expected_type)
next
  assume "synthesize_type_class_instances tc st = (Inr u, st1) \<and>
       has_expr_metavar (tc_instantiate_mvars tc (m_mctx st1) et)"
  then show "\<exists>msg. visit_elim_app tc ec (Some et) st =
                  Some (Inl (Elaborator_exception (ec_ref ec) msg), st1)"
    using visit_elim_app_open_expected_type [of tc st u st1 et ec] by blast
next
  assume "i \<in> set (m_idxs (ec_info ec)) \<and> j < length (ec_args ec) \<and>
       ec_visit ec (ec_args ec ! j) (Some d) s0 = (Inr a, s1) \<and>
       ec_synthesize ec s1 = (Inr v, s2) \<and>
       has_expr_metavar (tc_instantiate_mvars tc (m_mctx s2) a)"
  then show "\<exists>msg. elim_first_pass tc ec (Pi n d b bi) i j new_args postponed_args s0 =
                  Some (Inl (Elaborator_exception (ec_ref ec) msg), s2)"
    using elim_first_pass_key_throws [of i ec j d s0 a s1 v s2 tc n b bi new_args postponed_args]
    by blast
next
  fix r st'
  assume "visit_elim_app tc ec expected_type st = Some (Inr r, st')"
  then show "\<exists>et' st1' fn_type type j' new_args' postponed_args' st2.
            expected_type = Some et' \<and>
            synthesize_type_class_instances tc st = (Inr (), st1') \<and>
            \<not> has_expr_metavar (tc_instantiate_mvars tc (m_mctx st1') et') \<and>
            tc_infer tc (m_mctx st1') (ec_fn ec) = Inr fn_type \<and>
            elim_first_pass tc ec (tc_try_to_pi tc (m_mctx st1') fn_type) 0 0 [] [] st1' =
              Some (Inr (type, j', new_args', postponed_args'), st2) \<and>
            keys_closed ec new_args'"
    by (rule visit_elim_app_returns)
qed

text \<open>
  \<open>R z hz\<close> against \<open>P z\<close> elaborates to \<open>R (\<lambda>x. P x) z hz\<close>; against \<open>P ?q\<close> it is an
  error; and with \<open>?q\<close> in place of \<open>z\<close> the first loop throws at that argument.
\<close>

lemma R_run:
  "visit_elim_app (toy_ctx elim_types no_instances) (elim_call_R z_hz) (Some P_z) toy_session =
     Some (Inr R_z_hz, R_session)"
  by code_simp

lemma R_drain:
  "synthesize_type_class_instances (toy_ctx elim_types no_instances) toy_session = (Inr (), toy_session)"
  by code_simp

lemma P_mvar_open:
  "has_expr_metavar (tc_instantiate_mvars (toy_ctx elim_types no_instances) (m_mctx toy_session) P_mvar)"
  by code_simp

lemma q_key:
  "1 \<in> set (m_idxs (ec_info (elim_call_R q_hz))) \<and> 0 < length (ec_args (elim_call_R q_hz)) \<and>
   ec_visit (elim_call_R q_hz) (ec_args (elim_call_R q_hz) ! 0) (Some (Constant [''T''] [])) toy_session =
     (Inr (Meta [''q''] (Constant [''T''] [])), toy_session) \<and>
   ec_synthesize (elim_call_R q_hz) toy_session = (Inr (), toy_session) \<and>
   has_expr_metavar (tc_instantiate_mvars (toy_ctx elim_types no_instances) (m_mctx toy_session)
     (Meta [''q''] (Constant [''T''] [])))"
  by code_simp

theorem elim_app_checks_witness:
  "visit_elim_app (toy_ctx elim_types no_instances) (elim_call_R z_hz) (Some P_z) toy_session =
     Some (Inr R_z_hz, R_session) \<and>
   (\<exists>type j new_args postponed_args st2.
      elim_first_pass (toy_ctx elim_types no_instances) (elim_call_R z_hz)
        (tc_try_to_pi (toy_ctx elim_types no_instances) (m_mctx toy_session) (elim_types [''R'']))
        0 0 [] [] toy_session = Some (Inr (type, j, new_args, postponed_args), st2) \<and>
      keys_closed (elim_call_R z_hz) new_args) \<and>
   (\<exists>msg. visit_elim_app (toy_ctx elim_types no_instances) (elim_call_R z_hz) (Some P_mvar) toy_session =
      Some (Inl (Elaborator_exception (ec_ref (elim_call_R z_hz)) msg), toy_session)) \<and>
   (\<exists>msg. elim_first_pass (toy_ctx elim_types no_instances) (elim_call_R q_hz)
        (Pi [''n''] (Constant [''T''] []) (Var 0) BExplicit) 1 0 [] [] toy_session =
      Some (Inl (Elaborator_exception (ec_ref (elim_call_R q_hz)) msg), toy_session))"
proof -
  let ?tc = "toy_ctx elim_types no_instances"
  note ret = elim_app_checks [of ?tc "elim_call_R z_hz" toy_session "()" toy_session P_mvar,
      THEN conjunct2, THEN conjunct2, THEN conjunct2, rule_format, of "Some P_z", OF R_run]
  have infer: "tc_infer ?tc (m_mctx toy_session) (ec_fn (elim_call_R z_hz)) = Inr (elim_types [''R''])"
    by code_simp
  from ret R_drain infer have c2: "\<exists>type j new_args postponed_args st2.
      elim_first_pass ?tc (elim_call_R z_hz)
        (tc_try_to_pi ?tc (m_mctx toy_session) (elim_types [''R'']))
        0 0 [] [] toy_session = Some (Inr (type, j, new_args, postponed_args), st2) \<and>
      keys_closed (elim_call_R z_hz) new_args"
    by auto
  from elim_app_checks [of ?tc "elim_call_R z_hz" toy_session "()" toy_session P_mvar,
      THEN conjunct2, THEN conjunct1] R_drain P_mvar_open
  have c3: "\<exists>msg. visit_elim_app ?tc (elim_call_R z_hz) (Some P_mvar) toy_session =
      Some (Inl (Elaborator_exception (ec_ref (elim_call_R z_hz)) msg), toy_session)"
    by blast
  from elim_app_checks [where tc = ?tc and ec = "elim_call_R q_hz" and i = 1 and j = 0
      and d = "Constant [''T''] []" and ?s0.0 = toy_session and a = "Meta [''q''] (Constant [''T''] [])"
      and ?s1.0 = toy_session and v = "()" and ?s2.0 = toy_session and n = "[''n'']" and b = "Var 0"
      and bi = BExplicit and new_args = "[]" and postponed_args = "[]",
      THEN conjunct2, THEN conjunct2, THEN conjunct1] q_key
  have c4: "\<exists>msg. elim_first_pass ?tc (elim_call_R q_hz)
        (Pi [''n''] (Constant [''T''] []) (Var 0) BExplicit) 1 0 [] [] toy_session =
      Some (Inl (Elaborator_exception (ec_ref (elim_call_R q_hz)) msg), toy_session)"
    by blast
  from R_run c2 c3 c4 show ?thesis by blast
qed

section \<open>The fallback of two-pass application elaboration\<close>

lemma switched_to_simple_msg_contains: "fmt_contains (switched_to_simple_msg ex1) (exn_pp ex1)"
  by (simp add: switched_to_simple_msg_def fmt_contains_refl)

text \<open>
  C7, as the code has it. Let \<open>visit_base_app_core\<close> take the two-pass route, and let the
  first pass, run with error recovery off, end in the state \<open>st1\<close>. If it returns, the
  second pass follows. If it throws an \<open>elaborator_exception\<close> \<open>ex1\<close>, then
  \<open>visit_base_app_simple\<close> is run from \<open>st1\<close> with the recovery flag of the caller and with
  the metavariable context, the info data, the pending instances, the numeral types, the
  tactics and the inaccessible stack put back to what they were before the attempt; a
  result of the fallback is returned as it is, an \<open>elaborator_exception\<close> \<open>ex2\<close> of the
  fallback reaches the caller as a nested exception around \<open>ex2\<close> whose message holds the
  message of \<open>ex1\<close>, and any other exception of the fallback reaches the caller as it is.
  If the first pass throws anything else, that exception reaches the caller from \<open>st1\<close>:
  nothing is put back and the fallback is not run.
\<close>

theorem two_pass_fallback:
  assumes "\<not> args_already_visited" and "amask = Default" and "is_with_expected_candidate env fn"
    and "am_first_pass am fn args et ref (st\<lparr>m_recover_from_errors := False\<rparr>) = (r1, st1)"
  shows "visit_base_app_core env am fn amask args args_already_visited (Some et) ref st =
           (case r1 of
              Inr info \<Rightarrow>
                am_second_pass am fn args ref info
                  (st1\<lparr>m_recover_from_errors := m_recover_from_errors st\<rparr>)
            | Inl ex1 \<Rightarrow>
                if is_elaborator_exception ex1 then
                  (case am_visit_base_app_simple am fn amask args args_already_visited (Some et) ref
                          (st1\<lparr>m_recover_from_errors := m_recover_from_errors st,
                              m_mctx := m_mctx st, m_info := m_info st,
                              m_instances := m_instances st,
                              m_numeral_types := m_numeral_types st, m_tactics := m_tactics st,
                              m_inaccessible_stack := m_inaccessible_stack st\<rparr>) of
                     (Inr r, st2) \<Rightarrow> (Inr r, st2)
                   | (Inl ex2, st2) \<Rightarrow>
                       if is_elaborator_exception ex2
                       then (Inl (Nested_elaborator_exception ref ex2 (switched_to_simple_msg ex1)),
                             st2)
                       else (Inl ex2, st2))
                else (Inl ex1, st1\<lparr>m_recover_from_errors := m_recover_from_errors st\<rparr>))
         \<and> fmt_contains (switched_to_simple_msg e) (exn_pp e)"
  using assms
  by (auto simp: visit_base_app_core_def dont_recover_def nest_elaborator_exception_def
        restore_def snapshot_of_def switched_to_simple_msg_contains
        split: sum.splits prod.splits)

text \<open>
  A first pass that overwrites every saved field and fails with an
  \<open>elaborator_exception\<close>: the fallback sees the one entry of the info data that was there
  before the attempt, and its error comes back nested, from the state before the attempt
  but for the error mark that the first pass left.
\<close>

lemma fn_f_candidate: "is_with_expected_candidate prod_env fn_f"
  by (simp add: is_with_expected_candidate_def fn_f_def get_elaborator_strategy_def prod_env_def)

lemma first_pass_scribbles:
  "am_first_pass (pass_methods ex1 simple) fn_f [nat_zero] nat_type some_term
       (busy_session\<lparr>m_recover_from_errors := False\<rparr>) =
     (Inl ex1, scribble fn_f (busy_session\<lparr>m_recover_from_errors := False\<rparr>))"
  by (simp add: pass_methods_def)

lemma scribble_restored:
  "(scribble fn_f (busy_session\<lparr>m_recover_from_errors := False\<rparr>))
      \<lparr>m_recover_from_errors := m_recover_from_errors busy_session,
        m_mctx := m_mctx busy_session, m_info := m_info busy_session,
        m_instances := m_instances busy_session,
        m_numeral_types := m_numeral_types busy_session, m_tactics := m_tactics busy_session,
        m_inaccessible_stack := m_inaccessible_stack busy_session\<rparr> =
   busy_session\<lparr>m_has_errors := True\<rparr>"
  by (simp add: scribble_def busy_session_def toy_session_def)

theorem two_pass_fallback_witness:
  "visit_base_app_core prod_env (pass_methods first_pass_error simple_counts) fn_f Default
       [nat_zero] False (Some nat_type) some_term busy_session =
     (Inl (Nested_elaborator_exception some_term (Elaborator_exception some_term (FNum 1))
             (switched_to_simple_msg first_pass_error)),
      busy_session\<lparr>m_has_errors := True\<rparr>)
   \<and> m_info (scribble fn_f busy_session) = [fn_f, some_term]
   \<and> m_info busy_session = [some_term]"
proof -
  have simple: "am_visit_base_app_simple (pass_methods first_pass_error simple_counts) fn_f Default
                  [nat_zero] False (Some nat_type) some_term (busy_session\<lparr>m_has_errors := True\<rparr>) =
                (Inl (Elaborator_exception some_term (FNum 1)), busy_session\<lparr>m_has_errors := True\<rparr>)"
    by (simp add: pass_methods_def simple_counts_def busy_session_def)
  have ex1: "is_elaborator_exception first_pass_error"
    by (simp add: first_pass_error_def)
  have info: "m_info (scribble fn_f busy_session) = [fn_f, some_term]" "m_info busy_session = [some_term]"
    by (simp_all add: scribble_def busy_session_def)
  from two_pass_fallback [where args_already_visited = False and amask = Default and env = prod_env
      and fn = fn_f and am = "pass_methods first_pass_error simple_counts" and args = "[nat_zero]"
      and et = nat_type and ref = some_term and st = busy_session and ?r1.0 = "Inl first_pass_error"
      and ?st1.0 = "scribble fn_f (busy_session\<lparr>m_recover_from_errors := False\<rparr>)"
      and e = first_pass_error, OF _ _ fn_f_candidate first_pass_scribbles]
  have "visit_base_app_core prod_env (pass_methods first_pass_error simple_counts) fn_f Default
       [nat_zero] False (Some nat_type) some_term busy_session =
     (Inl (Nested_elaborator_exception some_term (Elaborator_exception some_term (FNum 1))
             (switched_to_simple_msg first_pass_error)),
      busy_session\<lparr>m_has_errors := True\<rparr>)"
    unfolding scribble_restored by (simp add: ex1 simple)
  with info show ?thesis
    by simp
qed

text \<open>
  Where the claim as stated fails. A first pass that fails with an exception that is no
  \<open>elaborator_exception\<close>: the session is left as the first pass scribbled it and the
  fallback, which would have returned a term from the state before the attempt, is not
  run. And a fallback that fails with such an exception after the first pass failed with
  an \<open>elaborator_exception\<close>: the caller gets the exception of the fallback alone, without
  the first-pass error.
\<close>

theorem first_pass_other_exception:
  "visit_base_app_core prod_env (pass_methods (Exception ''deep recursion'') simple_accepts) fn_f
       Default [nat_zero] False (Some nat_type) some_term busy_session =
     (Inl (Exception ''deep recursion''), scribble fn_f busy_session)
   \<and> m_info (scribble fn_f busy_session) = [fn_f, some_term]
   \<and> m_info busy_session = [some_term]
   \<and> am_visit_base_app_simple (pass_methods (Exception ''deep recursion'') simple_accepts) fn_f
       Default [nat_zero] False (Some nat_type) some_term busy_session =
     (Inr (Constant [''ok''] []), busy_session)
   \<and> visit_base_app_core prod_env (pass_methods first_pass_error simple_overflows) fn_f
       Default [nat_zero] False (Some nat_type) some_term busy_session =
     (Inl (Exception ''deep recursion''), busy_session\<lparr>m_has_errors := True\<rparr>)"
  by code_simp

section \<open>Overload resolution\<close>






lemma overload_methods_bad_alloc:
  "overload_trial zero_ctx prod_env overload_methods S [] False (Some et) ref bad_alloc s =
     (Inl (Std_exception ''std::bad_alloc''),
      (note_head bad_alloc (restore S (s\<lparr>m_recover_from_errors := False\<rparr>)))
        \<lparr>m_recover_from_errors := m_recover_from_errors s\<rparr>)"
  by (simp add: overload_trial_def dont_recover_def overload_methods_def bnd_def)











section \<open>The retry of overload resolution\<close>




















end
